theory Spec2Isabelle
  imports Complex_Main
begin

section \<open>JavaScript values used by the packages\<close>

text \<open>
  A TypeScript \<^verbatim>\<open>number\<close> is modelled as a finite real: additions and comparisons are the
  ones the code writes, and no statement below depends on how a double rounds. The
  special values NaN and Infinity are outside the model, except in the payment proof
  that the client encodes, where \<open>number\<close> below includes them. Values whose run-time
  type differs from the declared TypeScript type are outside the model. A
  \<^verbatim>\<open>string\<close> is a list of 8-bit characters: a text with a code unit above 255 is
  outside the model. An optional field \<^verbatim>\<open>f?: T\<close> is a \<open>T option\<close>, \<open>None\<close> standing for
  \<^verbatim>\<open>undefined\<close>.
\<close>

datatype number = Finite real | NaN | PositiveInfinity | NegativeInfinity

datatype jsvalue = VBool bool | VNum real | VStr string | VStrs "string list"

text \<open>Truthiness of an optional number: \<^verbatim>\<open>undefined\<close> and \<^verbatim>\<open>0\<close> are falsy.\<close>

definition truthy_num :: "real option \<Rightarrow> bool" where
  "truthy_num v = (case v of None \<Rightarrow> False | Some x \<Rightarrow> x \<noteq> 0)"

definition alphabet36 :: string where
  "alphabet36 = ''0123456789abcdefghijklmnopqrstuvwxyz''"

text \<open>The digits of a natural number in base \<open>b\<close>, for \<open>2 \<le> b \<le> 36\<close>.\<close>

function digitsRadix :: "nat \<Rightarrow> nat \<Rightarrow> string" where
  "digitsRadix b n =
     (if b < 2 then []
      else if n < b then [alphabet36 ! n]
      else digitsRadix b (n div b) @ [alphabet36 ! (n mod b)])"
  by pat_completeness auto
termination
  by (relation "measure snd") auto

declare digitsRadix.simps [simp del]

text \<open>\<^verbatim>\<open>toString(radix)\<close> of an integer (a \<^verbatim>\<open>BigInt\<close>, or an integral number below \<^verbatim>\<open>1e21\<close>).\<close>

definition intToString :: "nat \<Rightarrow> int \<Rightarrow> string" where
  "intToString b i = (if i < 0 then ''-'' else '''') @ digitsRadix b (nat \<bar>i\<bar>)"

text \<open>
  \<^verbatim>\<open>Number.prototype.toFixed(f)\<close> on a finite number below \<^verbatim>\<open>1e21\<close>: the integer \<open>n\<close>
  with \<open>n / 10^f\<close> closest to \<open>\<bar>x\<bar>\<close> (the larger one on a tie), printed with \<open>f\<close> digits
  after the point and the sign of \<open>x\<close> in front.
\<close>

definition toFixed :: "nat \<Rightarrow> real \<Rightarrow> string" where
  "toFixed f x =
     (let n = nat \<lfloor>\<bar>x\<bar> * 10 ^ f + 1 / 2\<rfloor>;
          ip = digitsRadix 10 (n div 10 ^ f);
          fp = digitsRadix 10 (n mod 10 ^ f)
      in (if x < 0 then ''-'' else '''') @ ip @
         (if f = 0 then '''' else ''.'' @ replicate (f - length fp) (CHR ''0'') @ fp))"

text \<open>\<^verbatim>\<open>Array.prototype.join(sep)\<close> on an array of strings.\<close>

fun join :: "string \<Rightarrow> string list \<Rightarrow> string" where
  "join sep [] = ''''"
| "join sep [s] = s"
| "join sep (s # t # ss) = s @ sep @ join sep (t # ss)"

text \<open>\<^verbatim>\<open>String.prototype.endsWith\<close>.\<close>

definition endsWith :: "string \<Rightarrow> string \<Rightarrow> bool" where
  "endsWith s suffix_s =
     (length suffix_s \<le> length s \<and> drop (length s - length suffix_s) s = suffix_s)"

definition startsWith :: "string \<Rightarrow> string \<Rightarrow> bool" where
  "startsWith s prefix_s = (take (length prefix_s) s = prefix_s)"

definition charCode :: "char \<Rightarrow> nat" where
  "charCode c = of_char c"

text \<open>
  \<^verbatim>\<open>String.prototype.toLowerCase\<close> on 8-bit characters: the letters A to Z and the
  accented capitals of Latin-1 move up by 32.
\<close>

definition toLowerChar :: "char \<Rightarrow> char" where
  "toLowerChar c =
     (let n = charCode c
      in if (65 \<le> n \<and> n \<le> 90) \<or> (192 \<le> n \<and> n \<le> 222 \<and> n \<noteq> 215)
         then char_of (n + 32) else c)"

definition toLowerCase :: "string \<Rightarrow> string" where
  "toLowerCase s = map toLowerChar s"

text \<open>
  \<^verbatim>\<open>BigInt(string)\<close>: white space is trimmed, the empty string is \<open>0\<close>, a prefix
  \<^verbatim>\<open>0x\<close>, \<^verbatim>\<open>0o\<close> or \<^verbatim>\<open>0b\<close> selects the base, a decimal literal may carry a sign;
  anything else raises \<^verbatim>\<open>SyntaxError\<close> (\<open>None\<close>).
\<close>

definition isWhiteSpace :: "char \<Rightarrow> bool" where
  "isWhiteSpace c = (charCode c \<in> {9, 10, 11, 12, 13, 32, 160})"

definition trim :: "string \<Rightarrow> string" where
  "trim s = rev (dropWhile isWhiteSpace (rev (dropWhile isWhiteSpace s)))"

definition digitValue :: "char \<Rightarrow> nat option" where
  "digitValue c =
     (let n = charCode c
      in if 48 \<le> n \<and> n \<le> 57 then Some (n - 48)
         else if 97 \<le> n \<and> n \<le> 122 then Some (n - 87)
         else if 65 \<le> n \<and> n \<le> 90 then Some (n - 55)
         else None)"

fun digitsValue :: "nat \<Rightarrow> nat \<Rightarrow> string \<Rightarrow> nat option" where
  "digitsValue b acc [] = Some acc"
| "digitsValue b acc (c # cs) =
     (case digitValue c of
        None \<Rightarrow> None
      | Some d \<Rightarrow> if d < b then digitsValue b (acc * b + d) cs else None)"

definition parseDigits :: "nat \<Rightarrow> string \<Rightarrow> nat option" where
  "parseDigits b s = (if s = [] then None else digitsValue b 0 s)"

definition BigInt :: "string \<Rightarrow> int option" where
  "BigInt str =
     (let s = trim str
      in if s = [] then Some 0
         else if take 2 s = ''0x'' \<or> take 2 s = ''0X''
           then map_option int (parseDigits 16 (drop 2 s))
         else if take 2 s = ''0o'' \<or> take 2 s = ''0O''
           then map_option int (parseDigits 8 (drop 2 s))
         else if take 2 s = ''0b'' \<or> take 2 s = ''0B''
           then map_option int (parseDigits 2 (drop 2 s))
         else if hd s = CHR ''-'' then map_option (\<lambda>n. - int n) (parseDigits 10 (tl s))
         else if hd s = CHR ''+'' then map_option int (parseDigits 10 (tl s))
         else map_option int (parseDigits 10 s))"

text \<open>
  \<^verbatim>\<open>s.replace(/needle/g, replacement)\<close> for a literal, non-empty needle and a replacement
  without \<^verbatim>\<open>$\<close>: the occurrences are replaced from left to right, without overlap.
\<close>

function replaceAll :: "string \<Rightarrow> string \<Rightarrow> string \<Rightarrow> string" where
  "replaceAll needle replacement s =
     (if s = [] then []
      else if needle \<noteq> [] \<and> take (length needle) s = needle
        then replacement @ replaceAll needle replacement (drop (length needle) s)
      else hd s # replaceAll needle replacement (tl s))"
  by pat_completeness auto
termination
  by (relation "measure (\<lambda>(needle, replacement, s). length s)") auto

declare replaceAll.simps [simp del]

text \<open>\<^verbatim>\<open>s.split(sep)\<close> for a separator of one character.\<close>

fun split_at :: "char \<Rightarrow> string \<Rightarrow> string \<Rightarrow> string list" where
  "split_at sep cur [] = [rev cur]"
| "split_at sep cur (c # cs) =
     (if c = sep then rev cur # split_at sep [] cs else split_at sep (c # cur) cs)"

definition splitOn :: "char \<Rightarrow> string \<Rightarrow> string list" where
  "splitOn sep s = split_at sep [] s"

text \<open>
  The values \<^verbatim>\<open>JSON.parse\<close> returns. A \<open>JObj\<close> lists the properties of the object, each
  key once. Reading a property of a value is \<open>getProp\<close>: \<open>None\<close> is \<^verbatim>\<open>undefined\<close>, the
  result for a missing key and for the keys used here on a string, a number, a boolean
  or an array (reading a property of \<^verbatim>\<open>null\<close> raises, and callers test for it first).
\<close>

datatype json =
    JNull
  | JBool bool
  | JNum real
  | JStr string
  | JArr "json list"
  | JObj "(string \<times> json) list"

definition getProp :: "json \<Rightarrow> string \<Rightarrow> json option" where
  "getProp v k = (case v of JObj kvs \<Rightarrow> map_of kvs k | _ \<Rightarrow> None)"

definition truthy :: "json option \<Rightarrow> bool" where
  "truthy v =
     (case v of
        None \<Rightarrow> False
      | Some JNull \<Rightarrow> False
      | Some (JBool b) \<Rightarrow> b
      | Some (JNum x) \<Rightarrow> x \<noteq> 0
      | Some (JStr s) \<Rightarrow> s \<noteq> []
      | Some (JArr xs) \<Rightarrow> True
      | Some (JObj kvs) \<Rightarrow> True)"

text \<open>
  An object literal handed to \<^verbatim>\<open>JSON.stringify\<close>: a property whose value is
  \<^verbatim>\<open>undefined\<close> is not written.
\<close>

definition objectLiteral :: "(string \<times> json option) list \<Rightarrow> json" where
  "objectLiteral fields =
     JObj (concat (map (\<lambda>(k, v). case v of None \<Rightarrow> [] | Some j \<Rightarrow> [(k, j)]) fields))"

text \<open>
  The errors the modelled code can raise without catching them. \<open>IllTypedPayload\<close>
  marks a decoded payment whose fields do not have the types the interface
  \<^verbatim>\<open>ParsedPayment\<close> declares; what JavaScript's coercions do with it is not modelled.
\<close>

datatype js_error = SyntaxError | RangeError | TypeError | Thrown string | IllTypedPayload

text \<open>
  The serialisers and the regular-expression engine of the platform are parameters of
  the model: every statement below holds for each choice of them. \<open>None\<close> is a raised
  exception (\<^verbatim>\<open>JSON.parse\<close> and \<^verbatim>\<open>atob\<close> on a malformed text, \<^verbatim>\<open>new RegExp\<close> on a
  malformed pattern, \<^verbatim>\<open>toISOString\<close> on a time outside the range of \<^verbatim>\<open>Date\<close>).
  \<open>RegExp_test P source text\<close> is \<^verbatim>\<open>new RegExp(source).test(text)\<close>.
\<close>

record Platform =
  JSON_stringify :: "json \<Rightarrow> string"
  JSON_parse :: "string \<Rightarrow> json option"
  btoa :: "string \<Rightarrow> string"
  atob :: "string \<Rightarrow> string option"
  RegExp_test :: "string \<Rightarrow> string \<Rightarrow> bool option"
  Number_toString :: "real \<Rightarrow> string"
  Date_toISOString :: "real \<Rightarrow> string option"

section \<open>Policy engine: types (packages/policy-engine/src/types.ts)\<close>

text \<open>
  The \<^verbatim>\<open>metadata\<close> bags of \<^verbatim>\<open>Policy\<close> and \<^verbatim>\<open>PaymentRequest\<close> are read by no function
  below and are left out. The field \<^verbatim>\<open>id\<close> of a policy is \<open>policy_id\<close>, the field
  \<^verbatim>\<open>timestamp\<close> of a spend context is \<open>asOf\<close>; the fields \<^verbatim>\<open>reason\<close> and \<^verbatim>\<open>ruleId\<close>
  of a decision are \<open>decisionReason\<close> and \<open>decisionRuleId\<close>, to keep them apart from
  the fields of a rule trace. Times are milliseconds since the epoch.
\<close>

record Policy =
  policy_id :: string
  name :: string
  dailyCapUsd :: real
  weeklyCapUsd :: "real option"
  perCallCapUsd :: real
  allowTools :: "string list"
  denyTools :: "string list option"
  allowDomains :: "string list option"
  denyDomains :: "string list option"
  endpointCaps :: "(string \<times> real) list option"
  enabled :: bool

record SpendContext =
  callerId :: string
  dailySpentUsd :: real
  weeklySpentUsd :: real
  dailyCallCount :: nat
  asOf :: int

record PaymentRequest =
  endpoint :: string
  tool :: string
  domain :: string
  priceUsd :: real
  requestCallerId :: string

record RuleTrace =
  ruleId :: string
  ruleName :: string
  passed :: bool
  reason :: string
  values_of :: "(string \<times> jsvalue) list"

record PolicyDecision =
  allow :: bool
  decisionReason :: string
  decisionRuleId :: string
  projectedSpend :: real
  currentDailySpend :: real
  currentWeeklySpend :: real
  remainingDailyBudget :: real
  remainingWeeklyBudget :: "real option"
  policyId :: string
  timestamp :: int
  trace :: "RuleTrace list"

text \<open>
  A rule returns its verdict (\<open>Inr\<close>) or raises (\<open>Inl\<close>).
\<close>

type_synonym RuleFunction =
  "Policy \<Rightarrow> PaymentRequest \<Rightarrow> SpendContext \<Rightarrow> js_error + RuleTrace"

section \<open>Policy engine: rules (packages/policy-engine/src/rules.ts)\<close>

definition policyEnabledRule :: RuleFunction where
  "policyEnabledRule policy request context =
     Inr \<lparr>ruleId = ''policy_enabled'',
          ruleName = ''Policy Enabled Check'',
          passed = enabled policy,
          reason = (if enabled policy then ''Policy is enabled''
                    else ''Policy is disabled - all payments blocked''),
          values_of = [(''enabled'', VBool (enabled policy))]\<rparr>"

text \<open>
  \<^verbatim>\<open>policy.endpointCaps?.[request.endpoint]\<close> reads a property of an ordinary object
  (the default policy has the literal \<^verbatim>\<open>{}\<close>): the entry of the endpoint when the table
  has one; else the property of that name which every ordinary object inherits from
  \<^verbatim>\<open>Object.prototype\<close>, a function or an object; else \<^verbatim>\<open>undefined\<close>, as it is when
  there is no table.
\<close>

definition Object_prototype :: "string list" where
  "Object_prototype =
     [''constructor'', ''__defineGetter__'', ''__defineSetter__'', ''hasOwnProperty'',
      ''__lookupGetter__'', ''__lookupSetter__'', ''isPrototypeOf'',
      ''propertyIsEnumerable'', ''toString'', ''valueOf'', ''__proto__'',
      ''toLocaleString'']"

datatype capValue = NumberCap real | InheritedCap

definition endpointCap :: "Policy \<Rightarrow> PaymentRequest \<Rightarrow> capValue option" where
  "endpointCap policy request =
     (case endpointCaps policy of
        None \<Rightarrow> None
      | Some caps \<Rightarrow>
          (case map_of caps (endpoint request) of
             Some c \<Rightarrow> Some (NumberCap c)
           | None \<Rightarrow>
               if endpoint request \<in> set Object_prototype then Some InheritedCap else None))"

text \<open>
  \<^verbatim>\<open>const cap = policy.endpointCaps?.[request.endpoint] ?? policy.perCallCapUsd\<close>: what
  was read, unless it is \<^verbatim>\<open>undefined\<close> (an entry \<open>0\<close> is kept).
\<close>

definition effectivePerCallCap :: "Policy \<Rightarrow> PaymentRequest \<Rightarrow> capValue" where
  "effectivePerCallCap policy request =
     (case endpointCap policy request of
        Some v \<Rightarrow> v
      | None \<Rightarrow> NumberCap (perCallCapUsd policy))"

text \<open>
  With an inherited function or object for \<^verbatim>\<open>cap\<close>, the comparison
  \<^verbatim>\<open>request.priceUsd <= cap\<close> is false and \<^verbatim>\<open>cap.toFixed(2)\<close>, evaluated for the reason,
  raises \<^verbatim>\<open>TypeError\<close>: the value has no method of that name.
\<close>

definition perCallCapRule :: RuleFunction where
  "perCallCapRule policy request context =
     (case effectivePerCallCap policy request of
        InheritedCap \<Rightarrow> Inl TypeError
      | NumberCap cap \<Rightarrow>
          (let passed_v = (priceUsd request \<le> cap)
           in Inr \<lparr>ruleId = ''per_call_cap'',
                   ruleName = ''Per-Call Cap'',
                   passed = passed_v,
                   reason = (if passed_v
                             then ''Price $'' @ toFixed 4 (priceUsd request) @
                                  '' within per-call cap of $'' @ toFixed 2 cap
                             else ''Price $'' @ toFixed 4 (priceUsd request) @
                                  '' exceeds per-call cap of $'' @ toFixed 2 cap),
                   values_of = [(''price'', VNum (priceUsd request)),
                                (''cap'', VNum cap),
                                (''endpoint'', VStr (endpoint request)),
                                (''hasCustomCap'',
                                 VBool (case endpointCap policy request of
                                          Some (NumberCap c) \<Rightarrow> c \<noteq> 0
                                        | Some InheritedCap \<Rightarrow> True
                                        | None \<Rightarrow> False))]\<rparr>))"

definition dailyCapRule :: RuleFunction where
  "dailyCapRule policy request context =
     Inr (let projected = dailySpentUsd context + priceUsd request;
          passed_v = (projected \<le> dailyCapUsd policy)
      in \<lparr>ruleId = ''daily_cap'',
          ruleName = ''Daily Cap'',
          passed = passed_v,
          reason = (if passed_v
                    then ''Projected daily spend $'' @ toFixed 4 projected @
                         '' within cap of $'' @ toFixed 2 (dailyCapUsd policy)
                    else ''Projected daily spend $'' @ toFixed 4 projected @
                         '' exceeds cap of $'' @ toFixed 2 (dailyCapUsd policy)),
          values_of = [(''currentSpend'', VNum (dailySpentUsd context)),
                       (''requestPrice'', VNum (priceUsd request)),
                       (''projectedSpend'', VNum projected),
                       (''cap'', VNum (dailyCapUsd policy)),
                       (''remaining'', VNum (dailyCapUsd policy - dailySpentUsd context))]\<rparr>)"

text \<open>
  The guard of the weekly rule is \<^verbatim>\<open>if (!policy.weeklyCapUsd)\<close>: it takes the early
  return for an absent cap and also for a cap of \<open>0\<close>.
\<close>

definition weeklyCapRule :: RuleFunction where
  "weeklyCapRule policy request context =
     Inr (if \<not> truthy_num (weeklyCapUsd policy)
      then \<lparr>ruleId = ''weekly_cap'',
            ruleName = ''Weekly Cap'',
            passed = True,
            reason = ''No weekly cap configured'',
            values_of = [(''configured'', VBool False)]\<rparr>
      else
        (let cap = the (weeklyCapUsd policy);
             projected = weeklySpentUsd context + priceUsd request;
             passed_v = (projected \<le> cap)
         in \<lparr>ruleId = ''weekly_cap'',
             ruleName = ''Weekly Cap'',
             passed = passed_v,
             reason = (if passed_v
                       then ''Projected weekly spend $'' @ toFixed 4 projected @
                            '' within cap of $'' @ toFixed 2 cap
                       else ''Projected weekly spend $'' @ toFixed 4 projected @
                            '' exceeds cap of $'' @ toFixed 2 cap),
             values_of = [(''currentSpend'', VNum (weeklySpentUsd context)),
                          (''requestPrice'', VNum (priceUsd request)),
                          (''projectedSpend'', VNum projected),
                          (''cap'', VNum cap),
                          (''remaining'', VNum (cap - weeklySpentUsd context))]\<rparr>))"

definition toolAllowlistRule :: RuleFunction where
  "toolAllowlistRule policy request context =
     Inr (if length (allowTools policy) = 0
      then \<lparr>ruleId = ''tool_allowlist'',
            ruleName = ''Tool Allowlist'',
            passed = True,
            reason = ''No tool allowlist configured - all tools allowed'',
            values_of = [(''configured'', VBool False)]\<rparr>
      else
        (let passed_v = (tool request \<in> set (allowTools policy))
         in \<lparr>ruleId = ''tool_allowlist'',
             ruleName = ''Tool Allowlist'',
             passed = passed_v,
             reason = (if passed_v
                       then ''Tool \"'' @ tool request @ ''\" is in allowlist''
                       else ''Tool \"'' @ tool request @ ''\" is not in allowlist ['' @
                            join '', '' (allowTools policy) @ '']''),
             values_of = [(''tool'', VStr (tool request)),
                          (''allowlist'', VStrs (allowTools policy))]\<rparr>))"

text \<open>
  An optional list that is absent or empty takes the early return
  (\<^verbatim>\<open>!policy.denyTools || policy.denyTools.length === 0\<close>).
\<close>

definition unconfigured :: "string list option \<Rightarrow> bool" where
  "unconfigured l = (case l of None \<Rightarrow> True | Some xs \<Rightarrow> length xs = 0)"

definition toolDenylistRule :: RuleFunction where
  "toolDenylistRule policy request context =
     Inr (if unconfigured (denyTools policy)
      then \<lparr>ruleId = ''tool_denylist'',
            ruleName = ''Tool Denylist'',
            passed = True,
            reason = ''No tool denylist configured'',
            values_of = [(''configured'', VBool False)]\<rparr>
      else
        (let passed_v = (tool request \<notin> set (the (denyTools policy)))
         in \<lparr>ruleId = ''tool_denylist'',
             ruleName = ''Tool Denylist'',
             passed = passed_v,
             reason = (if passed_v
                       then ''Tool \"'' @ tool request @ ''\" is not in denylist''
                       else ''Tool \"'' @ tool request @ ''\" is blocked by denylist''),
             values_of = [(''tool'', VStr (tool request)),
                          (''denylist'', VStrs (the (denyTools policy)))]\<rparr>))"

text \<open>
  The test both domain rules apply to each entry \<open>d\<close>:
  \<^verbatim>\<open>request.domain === d || request.domain.endsWith(`.${d}`)\<close>.
\<close>

definition domainMatches :: "string \<Rightarrow> string \<Rightarrow> bool" where
  "domainMatches host d = (host = d \<or> endsWith host (''.'' @ d))"

definition domainAllowlistRule :: RuleFunction where
  "domainAllowlistRule policy request context =
     Inr (if unconfigured (allowDomains policy)
      then \<lparr>ruleId = ''domain_allowlist'',
            ruleName = ''Domain Allowlist'',
            passed = True,
            reason = ''No domain allowlist configured - all domains allowed'',
            values_of = [(''configured'', VBool False)]\<rparr>
      else
        (let passed_v = list_ex (domainMatches (domain request)) (the (allowDomains policy))
         in \<lparr>ruleId = ''domain_allowlist'',
             ruleName = ''Domain Allowlist'',
             passed = passed_v,
             reason = (if passed_v
                       then ''Domain \"'' @ domain request @ ''\" is in allowlist''
                       else ''Domain \"'' @ domain request @ ''\" is not in allowlist ['' @
                            join '', '' (the (allowDomains policy)) @ '']''),
             values_of = [(''domain'', VStr (domain request)),
                          (''allowlist'', VStrs (the (allowDomains policy)))]\<rparr>))"

definition domainDenylistRule :: RuleFunction where
  "domainDenylistRule policy request context =
     Inr (if unconfigured (denyDomains policy)
      then \<lparr>ruleId = ''domain_denylist'',
            ruleName = ''Domain Denylist'',
            passed = True,
            reason = ''No domain denylist configured'',
            values_of = [(''configured'', VBool False)]\<rparr>
      else
        (let isDenied = list_ex (domainMatches (domain request)) (the (denyDomains policy));
             passed_v = (\<not> isDenied)
         in \<lparr>ruleId = ''domain_denylist'',
             ruleName = ''Domain Denylist'',
             passed = passed_v,
             reason = (if passed_v
                       then ''Domain \"'' @ domain request @ ''\" is not in denylist''
                       else ''Domain \"'' @ domain request @ ''\" is blocked by denylist''),
             values_of = [(''domain'', VStr (domain request)),
                          (''denylist'', VStrs (the (denyDomains policy)))]\<rparr>))"

definition ALL_RULES :: "RuleFunction list" where
  "ALL_RULES =
     [policyEnabledRule, toolDenylistRule, domainDenylistRule, toolAllowlistRule,
      domainAllowlistRule, perCallCapRule, dailyCapRule, weeklyCapRule]"

section \<open>Policy engine: evaluator (packages/policy-engine/src/evaluator.ts)\<close>

record EvaluatorOptions =
  rules :: "RuleFunction list option"
  fullTrace :: "bool option"

text \<open>
  The state of the loop over the rules is the trace so far, the flag \<^verbatim>\<open>allow\<close> and the
  first failed rule. A failing rule in short-circuit mode leaves the loop (\<^verbatim>\<open>break\<close>); a
  rule that raises ends the evaluation, which has no handler.
\<close>

type_synonym loop_state = "RuleTrace list \<times> bool \<times> RuleTrace option"

fun run_rules ::
  "RuleFunction list \<Rightarrow> bool \<Rightarrow> Policy \<Rightarrow> PaymentRequest \<Rightarrow> SpendContext \<Rightarrow>
   loop_state \<Rightarrow> js_error + loop_state" where
  "run_rules [] full policy request context st = Inr st"
| "run_rules (rule # rest) full policy request context (trace_v, allow_v, failedRule) =
     (case rule policy request context of
        Inl err \<Rightarrow> Inl err
      | Inr result \<Rightarrow>
          (let trace_v' = trace_v @ [result]
           in if \<not> passed result
              then (let failedRule' =
                          (case failedRule of None \<Rightarrow> Some result | Some f \<Rightarrow> Some f)
                    in if \<not> full then Inr (trace_v', False, failedRule')
                       else run_rules rest full policy request context
                              (trace_v', False, failedRule'))
              else run_rules rest full policy request context
                     (trace_v', allow_v, failedRule)))"

text \<open>
  \<open>now\<close> is the clock reading \<^verbatim>\<open>new Date()\<close> takes; it is the only input of an evaluation
  besides its four arguments.
\<close>

definition evaluatePolicy ::
  "int \<Rightarrow> Policy \<Rightarrow> PaymentRequest \<Rightarrow> SpendContext \<Rightarrow> EvaluatorOptions \<Rightarrow>
   js_error + PolicyDecision" where
  "evaluatePolicy now policy request context options =
     (let rules_v = (case rules options of None \<Rightarrow> ALL_RULES | Some rs \<Rightarrow> rs);
          full = (case fullTrace options of None \<Rightarrow> False | Some b \<Rightarrow> b)
      in case run_rules rules_v full policy request context ([], True, None) of
           Inl err \<Rightarrow> Inl err
         | Inr (trace_v, allow_v, failedRule) \<Rightarrow>
             (let projected = dailySpentUsd context + priceUsd request
              in Inr \<lparr>allow = allow_v,
                      decisionReason = (case failedRule of
                                          None \<Rightarrow> ''All policy rules passed''
                                        | Some f \<Rightarrow> reason f),
                      decisionRuleId = (case failedRule of
                                          None \<Rightarrow> ''all_passed''
                                        | Some f \<Rightarrow> ruleId f),
                      projectedSpend = projected,
                      currentDailySpend = dailySpentUsd context,
                      currentWeeklySpend = weeklySpentUsd context,
                      remainingDailyBudget = max 0 (dailyCapUsd policy - projected),
                      remainingWeeklyBudget =
                        (if truthy_num (weeklyCapUsd policy)
                         then Some (max 0 (the (weeklyCapUsd policy)
                                           - (weeklySpentUsd context + priceUsd request)))
                         else None),
                      policyId = policy_id policy,
                      timestamp = now,
                      trace = trace_v\<rparr>))"

text \<open>The options of a call that passes none (\<^verbatim>\<open>options = {}\<close>).\<close>

definition defaultOptions :: EvaluatorOptions where
  "defaultOptions = \<lparr>rules = None, fullTrace = None\<rparr>"

section \<open>Policy engine: utilities (packages/policy-engine/src/utils.ts)\<close>

text \<open>
  \<^verbatim>\<open>generateId(prefix)\<close> joins the prefix, the clock in base 36 and eight random
  characters; \<open>random\<close> is the text \<^verbatim>\<open>Math.random().toString(36).substring(2, 10)\<close>.
\<close>

definition generateId :: "string \<Rightarrow> int \<Rightarrow> string \<Rightarrow> string" where
  "generateId prefix_s now random = prefix_s @ ''_'' @ intToString 36 now @ random"

text \<open>
  \<^verbatim>\<open>hashString\<close> keeps its accumulator a 32-bit signed integer: \<^verbatim>\<open>hash << 5\<close> and
  \<^verbatim>\<open>hash & hash\<close> wrap around.
\<close>

definition toInt32 :: "int \<Rightarrow> int" where
  "toInt32 x = (x + 2147483648) mod 4294967296 - 2147483648"

fun hashLoop :: "int \<Rightarrow> string \<Rightarrow> int" where
  "hashLoop h [] = h"
| "hashLoop h (c # cs) = hashLoop (toInt32 (toInt32 (h * 32) + h + int (charCode c))) cs"

definition hashString :: "string \<Rightarrow> string" where
  "hashString str = intToString 16 \<bar>hashLoop 5381 str\<bar>"

definition createContentHash :: "Platform \<Rightarrow> json \<Rightarrow> string" where
  "createContentHash P content = hashString (JSON_stringify P content)"

section \<open>Seller side: types (packages/x402-worker/src/types.ts)\<close>

text \<open>
  Fields that several interfaces share are told apart by a prefix: \<open>pricingUsd\<close>,
  \<open>pricingToken\<close> and \<open>pricingChainId\<close> are \<^verbatim>\<open>priceUsd\<close>, \<^verbatim>\<open>token\<close> and \<^verbatim>\<open>chainId\<close> of
  an \<^verbatim>\<open>EndpointPricing\<close>. The bindings \<^verbatim>\<open>db\<close> and \<^verbatim>\<open>kv\<close> of a configuration are
  \<open>True\<close> when present; the stores they give access to are in \<open>World\<close>.
\<close>

record EndpointPricing =
  pricingUsd :: real
  priceToken :: string
  pricingToken :: string
  pricingChainId :: real
  description :: "string option"
  schemes :: "string list option"

datatype pricing_entry = PriceUsd real | Pricing EndpointPricing

record PaywallConfig =
  sellerAddress :: string
  defaultToken :: string
  defaultChainId :: real
  pricing :: "(string \<times> pricing_entry) list"
  defaultPriceUsd :: "real option"
  expiryDuration :: "real option"
  verifySignatures :: "bool option"
  checkReplay :: "bool option"
  db :: bool
  kv :: bool

text \<open>
  \<^verbatim>\<open>ParsedPayment\<close> of the worker and \<^verbatim>\<open>PaymentProof\<close> of the client declare the same
  fields with the same types; one record stands for both, with the type of its two
  numbers left open. A \<^verbatim>\<open>ParsedPayment\<close> holds finite numbers, like every other value
  of the model; a proof of the client holds a \<open>number\<close>.
\<close>

record 'n PaymentProof =
  signature :: string
  payer :: string
  nonce :: string
  expiry :: 'n
  amount :: string
  token :: string
  chainId :: 'n
  txHash :: "string option"

type_synonym ParsedPayment = "real PaymentProof"

record Receipt =
  receipt_id :: string
  callId :: string
  paymentRef :: string
  amountUsd :: real
  receiptToken :: string
  receiptChainId :: real
  receiptSeller :: string
  buyer :: string
  receiptNonce :: string
  receiptExpiry :: string
  receiptSignature :: string
  requestHash :: string
  responseHash :: string
  receiptTxHash :: "string option"
  verified :: bool
  createdAt :: string

record PaywallContext =
  paid :: bool
  payment :: "ParsedPayment option"
  receiptId :: "string option"
  contextPriceUsd :: real
  contextNonce :: string

text \<open>
  A request as the middleware reads it: \<open>pathname\<close> is \<^verbatim>\<open>new URL(request.url).pathname\<close>,
  \<open>paymentSignature\<close> and \<open>xPayment\<close> are \<^verbatim>\<open>request.headers.get\<close> of the two payment
  headers (\<open>None\<close> for \<^verbatim>\<open>null\<close>), \<open>requestBody\<close> is the text of the body.
\<close>

record Request =
  requestMethod :: string
  url :: string
  pathname :: string
  paymentSignature :: "string option"
  xPayment :: "string option"
  requestBody :: string

record Response =
  status :: nat
  statusText :: string
  headers :: "(string \<times> string) list"
  body :: string

text \<open>
  A handler is a function of the request and the paywall context (the bindings \<^verbatim>\<open>env\<close>
  and the execution context are not read by the middleware and are left out).
\<close>

type_synonym WorkerHandler = "Request \<Rightarrow> PaywallContext \<Rightarrow> Response"

text \<open>\<^verbatim>\<open>Headers.set\<close>: header names compare without regard to case.\<close>

definition headersSet :: "string \<Rightarrow> string \<Rightarrow> (string \<times> string) list \<Rightarrow> (string \<times> string) list" where
  "headersSet k v hs = filter (\<lambda>(k', v'). toLowerCase k' \<noteq> toLowerCase k) hs @ [(k, v)]"

definition headersGet :: "string \<Rightarrow> (string \<times> string) list \<Rightarrow> string option" where
  "headersGet k hs = map_option snd (find (\<lambda>(k', v'). toLowerCase k' = toLowerCase k) hs)"

text \<open>
  What one request observes of its surroundings: the clock (\<^verbatim>\<open>Date.now()\<close>, read once)
  and the random parts of the two identifiers it may generate.
\<close>

record Env =
  now_ms :: int
  nonceRandom :: string
  receiptRandom :: string

definition nowSeconds :: "Env \<Rightarrow> int" where
  "nowSeconds env = now_ms env div 1000"

definition generateNonce :: "Env \<Rightarrow> string" where
  "generateNonce env = generateId ''nonce'' (now_ms env) (nonceRandom env)"

definition generateReceiptId :: "Env \<Rightarrow> string" where
  "generateReceiptId env = generateId ''rcpt'' (now_ms env) (receiptRandom env)"

section \<open>Seller side: verification (packages/x402-worker/src/verification.ts)\<close>

text \<open>
  \<^verbatim>\<open>parsePaymentHeader\<close> checks three fields for truthiness and copies eight fields
  without looking at their types: its result is a record of JSON values.
\<close>

record UntypedPayment =
  u_signature :: "json option"
  u_payer :: "json option"
  u_nonce :: "json option"
  u_expiry :: "json option"
  u_amount :: "json option"
  u_token :: "json option"
  u_chainId :: "json option"
  u_txHash :: "json option"

definition parsePaymentHeader_worker :: "Platform \<Rightarrow> string \<Rightarrow> UntypedPayment option" where
  "parsePaymentHeader_worker P header =
     (case atob P header of
        None \<Rightarrow> None
      | Some decoded \<Rightarrow>
          (case JSON_parse P decoded of
             None \<Rightarrow> None
           | Some payload \<Rightarrow>
               if payload = JNull then None
               else if \<not> truthy (getProp payload ''sig'') \<or> \<not> truthy (getProp payload ''payer'')
                       \<or> \<not> truthy (getProp payload ''nonce'')
                 then None
               else Some \<lparr>u_signature = getProp payload ''sig'',
                          u_payer = getProp payload ''payer'',
                          u_nonce = getProp payload ''nonce'',
                          u_expiry = getProp payload ''expiry'',
                          u_amount = getProp payload ''amount'',
                          u_token = getProp payload ''token'',
                          u_chainId = getProp payload ''chainId'',
                          u_txHash = getProp payload ''txHash''\<rparr>))"

text \<open>
  The TypeScript signature of \<^verbatim>\<open>parsePaymentHeader\<close> promises a \<^verbatim>\<open>ParsedPayment\<close>.
  \<open>asParsedPayment\<close> is that promise: it succeeds when every field has the declared
  type.
\<close>

definition asParsedPayment :: "UntypedPayment \<Rightarrow> ParsedPayment option" where
  "asParsedPayment u =
     (case (u_signature u, u_payer u, u_nonce u, u_expiry u, u_amount u, u_token u, u_chainId u) of
        (Some (JStr s), Some (JStr p), Some (JStr n), Some (JNum e), Some (JStr a),
         Some (JStr t), Some (JNum c)) \<Rightarrow>
          (case u_txHash u of
             None \<Rightarrow> Some \<lparr>signature = s, payer = p, nonce = n, expiry = e, amount = a,
                            token = t, chainId = c, txHash = None\<rparr>
           | Some (JStr h) \<Rightarrow> Some \<lparr>signature = s, payer = p, nonce = n, expiry = e, amount = a,
                                    token = t, chainId = c, txHash = Some h\<rparr>
           | _ \<Rightarrow> None)
      | _ \<Rightarrow> None)"

record VerificationResult =
  valid :: bool
  verificationReason :: "string option"

definition verifySignature :: "ParsedPayment \<Rightarrow> string \<Rightarrow> bool" where
  "verifySignature payment_v expectedSeller =
     (if signature payment_v = [] \<or> length (signature payment_v) < 130 then False
      else if \<not> startsWith (signature payment_v) ''0x'' then False
      else True)"

text \<open>
  \<open>now\<close> is \<^verbatim>\<open>Date.now()\<close> in milliseconds. The two \<^verbatim>\<open>BigInt\<close> conversions are not
  guarded in the source: a text that is no integer literal raises \<^verbatim>\<open>SyntaxError\<close> out
  of \<^verbatim>\<open>verifyPayment\<close>.
\<close>

definition verifyPayment ::
  "int \<Rightarrow> ParsedPayment \<Rightarrow> EndpointPricing \<Rightarrow> PaywallConfig \<Rightarrow> js_error + VerificationResult" where
  "verifyPayment now payment_v pricing_v config =
     (if expiry payment_v < of_int (now div 1000)
        then Inr \<lparr>valid = False, verificationReason = Some ''Payment has expired''\<rparr>
      else if toLowerCase (token payment_v) \<noteq> toLowerCase (pricingToken pricing_v)
        then Inr \<lparr>valid = False, verificationReason = Some ''Token mismatch''\<rparr>
      else if chainId payment_v \<noteq> pricingChainId pricing_v
        then Inr \<lparr>valid = False, verificationReason = Some ''Chain ID mismatch''\<rparr>
      else
        (case BigInt (amount payment_v) of
           None \<Rightarrow> Inl SyntaxError
         | Some paymentAmount \<Rightarrow>
             (case BigInt (priceToken pricing_v) of
                None \<Rightarrow> Inl SyntaxError
              | Some requiredAmount \<Rightarrow>
                  if paymentAmount < requiredAmount
                    then Inr \<lparr>valid = False,
                              verificationReason = Some ''Insufficient payment amount''\<rparr>
                  else if verifySignatures config = Some True
                          \<and> \<not> verifySignature payment_v (sellerAddress config)
                    then Inr \<lparr>valid = False, verificationReason = Some ''Invalid signature''\<rparr>
                  else Inr \<lparr>valid = True, verificationReason = None\<rparr>)))"

section \<open>Seller side: pricing (packages/x402-worker/src/pricing.ts)\<close>

definition usdToToken :: "real \<Rightarrow> string" where
  "usdToToken usd = intToString 10 \<lfloor>usd * 10 ^ 6 + 1 / 2\<rfloor>"

definition normalizePricing :: "pricing_entry \<Rightarrow> PaywallConfig \<Rightarrow> EndpointPricing" where
  "normalizePricing entry config =
     (case entry of
        PriceUsd n \<Rightarrow>
          \<lparr>pricingUsd = n, priceToken = usdToToken n, pricingToken = defaultToken config,
           pricingChainId = defaultChainId config, description = None, schemes = None\<rparr>
      | Pricing e \<Rightarrow> e)"

definition matchPattern :: "Platform \<Rightarrow> string \<Rightarrow> string \<Rightarrow> bool option" where
  "matchPattern P path pattern =
     (let regexPattern =
            replaceAll ''{{DOUBLESTAR}}'' ''.*''
              (replaceAll ''*'' ''[^/]*'' (replaceAll ''**'' ''{{DOUBLESTAR}}'' pattern))
      in RegExp_test P (''^'' @ regexPattern @ ''$'') path)"

text \<open>
  The loop over \<^verbatim>\<open>Object.entries(config.pricing)\<close> returns at the first pattern that
  matches. A pattern that is no regular expression raises \<^verbatim>\<open>SyntaxError\<close>.
\<close>

fun firstMatch ::
  "Platform \<Rightarrow> string \<Rightarrow> (string \<times> pricing_entry) list \<Rightarrow> js_error + pricing_entry option" where
  "firstMatch P endpoint_v [] = Inr None"
| "firstMatch P endpoint_v ((pattern, price_v) # rest) =
     (case matchPattern P endpoint_v pattern of
        None \<Rightarrow> Inl SyntaxError
      | Some True \<Rightarrow> Inr (Some price_v)
      | Some False \<Rightarrow> firstMatch P endpoint_v rest)"

definition getPriceForEndpoint ::
  "Platform \<Rightarrow> string \<Rightarrow> PaywallConfig \<Rightarrow> js_error + EndpointPricing option" where
  "getPriceForEndpoint P endpoint_v config =
     (case map_of (pricing config) endpoint_v of
        None \<Rightarrow>
          (case firstMatch P endpoint_v (pricing config) of
             Inl e \<Rightarrow> Inl e
           | Inr (Some price_v) \<Rightarrow> Inr (Some (normalizePricing price_v config))
           | Inr None \<Rightarrow>
               (case defaultPriceUsd config of
                  Some d \<Rightarrow> Inr (Some (normalizePricing (PriceUsd d) config))
                | None \<Rightarrow> Inr None))
      | Some pricingEntry \<Rightarrow> Inr (Some (normalizePricing pricingEntry config)))"

definition chainIdToCAIP2 :: "Platform \<Rightarrow> real \<Rightarrow> string" where
  "chainIdToCAIP2 P c = ''eip155:'' @ Number_toString P c"

text \<open>\<^verbatim>\<open>pricing.schemes?.[0] ?? 'exact'\<close>.\<close>

definition firstScheme :: "EndpointPricing \<Rightarrow> string" where
  "firstScheme pricing_v =
     (case schemes pricing_v of None \<Rightarrow> ''exact'' | Some [] \<Rightarrow> ''exact'' | Some (x # xs) \<Rightarrow> x)"

definition timeoutSeconds :: "PaywallConfig \<Rightarrow> real" where
  "timeoutSeconds config = (case expiryDuration config of None \<Rightarrow> 300 | Some d \<Rightarrow> d)"

definition createPaymentRequired ::
  "Platform \<Rightarrow> EndpointPricing \<Rightarrow> PaywallConfig \<Rightarrow> string \<Rightarrow> real \<Rightarrow> string \<Rightarrow> json" where
  "createPaymentRequired P pricing_v config nonce_v expiry_v resource =
     JObj [(''scheme'', JStr (firstScheme pricing_v)),
           (''network'', JStr (chainIdToCAIP2 P (pricingChainId pricing_v))),
           (''maxAmountRequired'', JStr (priceToken pricing_v)),
           (''resource'', JStr resource),
           (''description'',
              JStr (case description pricing_v of
                      None \<Rightarrow> ''Payment of $'' @ toFixed 4 (pricingUsd pricing_v) @ '' USD''
                    | Some d \<Rightarrow> d)),
           (''mimeType'', JStr ''application/json''),
           (''payTo'', JStr (sellerAddress config)),
           (''maxTimeoutSeconds'', JNum (timeoutSeconds config)),
           (''asset'', JStr (pricingToken pricing_v)),
           (''extra'', JObj [(''priceUsd'', JNum (pricingUsd pricing_v)),
                             (''nonce'', JStr nonce_v),
                             (''expiry'', JNum expiry_v)])]"

definition encodePaymentRequired :: "Platform \<Rightarrow> json \<Rightarrow> string" where
  "encodePaymentRequired P pr = btoa P (JSON_stringify P pr)"

definition create402Response ::
  "Platform \<Rightarrow> EndpointPricing \<Rightarrow> PaywallConfig \<Rightarrow> string \<Rightarrow> real \<Rightarrow> string \<Rightarrow> Request \<Rightarrow>
   Response" where
  "create402Response P pricing_v config nonce_v expiry_v endpoint_v request =
     (let resource = url request;
          paymentRequired = createPaymentRequired P pricing_v config nonce_v expiry_v resource;
          encodedPR = encodePaymentRequired P paymentRequired;
          headers_v =
            [(''Content-Type'', ''application/json''),
             (''PAYMENT-REQUIRED'', encodedPR),
             (''X-PRICE'', priceToken pricing_v),
             (''X-PRICE-USD'', Number_toString P (pricingUsd pricing_v)),
             (''X-TOKEN'', pricingToken pricing_v),
             (''X-SELLER'', sellerAddress config),
             (''X-CHAIN-ID'', Number_toString P (pricingChainId pricing_v)),
             (''X-NETWORK'', chainIdToCAIP2 P (pricingChainId pricing_v)),
             (''X-EXPIRY'', Number_toString P expiry_v),
             (''X-NONCE'', nonce_v)]
            @ (case description pricing_v of
                 None \<Rightarrow> []
               | Some d \<Rightarrow> if d = [] then [] else [(''X-DESCRIPTION'', d)]);
          body_v = JSON_stringify P
            (JObj [(''error'', JStr ''Payment Required''),
                   (''code'', JNum 402),
                   (''paymentRequirements'', paymentRequired),
                   (''payment'',
                      objectLiteral
                        [(''price'', Some (JStr (priceToken pricing_v))),
                         (''priceUsd'', Some (JNum (pricingUsd pricing_v))),
                         (''token'', Some (JStr (pricingToken pricing_v))),
                         (''seller'', Some (JStr (sellerAddress config))),
                         (''chainId'', Some (JNum (pricingChainId pricing_v))),
                         (''network'', Some (JStr (chainIdToCAIP2 P (pricingChainId pricing_v)))),
                         (''expiry'', Some (JNum expiry_v)),
                         (''nonce'', Some (JStr nonce_v)),
                         (''endpoint'', Some (JStr endpoint_v)),
                         (''description'', map_option JStr (description pricing_v))]),
                   (''message'',
                      JStr (''This endpoint requires payment of $''
                            @ toFixed 4 (pricingUsd pricing_v) @ '' USD''))])
      in \<lparr>status = 402, statusText = ''Payment Required'', headers = headers_v, body = body_v\<rparr>)"

section \<open>Seller side: middleware (packages/x402-worker/src/middleware.ts)\<close>

text \<open>
  The nonce store is a key-value store whose entries expire: \<^verbatim>\<open>put\<close> with
  \<^verbatim>\<open>expirationTtl\<close> keeps the entry for that many seconds, and \<^verbatim>\<open>get\<close> returns
  \<^verbatim>\<open>null\<close> for a key that was never put or whose entry has expired. An entry is a
  value with the second at which it expires.
\<close>

type_synonym kv_store = "string \<Rightarrow> (string \<times> int) option"

definition kv_get :: "kv_store \<Rightarrow> int \<Rightarrow> string \<Rightarrow> string option" where
  "kv_get store now_s key =
     (case store key of
        None \<Rightarrow> None
      | Some (v, expires) \<Rightarrow> if now_s < expires then Some v else None)"

definition kv_put :: "kv_store \<Rightarrow> int \<Rightarrow> string \<Rightarrow> string \<Rightarrow> int \<Rightarrow> kv_store" where
  "kv_put store now_s key v ttl = store(key \<mapsto> (v, now_s + ttl))"

text \<open>
  The stores outside the middleware, and what it does to them and to the handler, in
  the order in which it does it. \<^verbatim>\<open>ctx.waitUntil(storeReceipt(...))\<close> is the event
  \<open>ReceiptStored\<close> and a new row of \<open>receiptsTable\<close>.
\<close>

record World =
  kvStore :: kv_store
  receiptsTable :: "Receipt list"

datatype event =
    KvGet string
  | KvPut string string int
  | HandlerInvoked Request PaywallContext
  | ReceiptStored Receipt

text \<open>Which \<^verbatim>\<open>return\<close> of the middleware produced the response.\<close>

datatype outcome =
    Passthrough
  | ChallengeIssued
  | MalformedProof
  | VerificationFailed
  | NonceReplayed
  | Fulfilled

type_synonym paywall_result = "(js_error + outcome \<times> Response) \<times> World \<times> event list"

definition create402Headers ::
  "Platform \<Rightarrow> EndpointPricing \<Rightarrow> PaywallConfig \<Rightarrow> string \<Rightarrow> real \<Rightarrow> (string \<times> string) list" where
  "create402Headers P pricing_v config nonce_v expiry_v =
     (let paymentRequired =
            JObj [(''scheme'', JStr (firstScheme pricing_v)),
                  (''network'', JStr (''eip155:'' @ Number_toString P (pricingChainId pricing_v))),
                  (''maxAmountRequired'', JStr (priceToken pricing_v)),
                  (''payTo'', JStr (sellerAddress config)),
                  (''maxTimeoutSeconds'', JNum (timeoutSeconds config)),
                  (''asset'', JStr (pricingToken pricing_v)),
                  (''extra'', JObj [(''priceUsd'', JNum (pricingUsd pricing_v)),
                                    (''nonce'', JStr nonce_v),
                                    (''expiry'', JNum expiry_v)])]
      in [(''PAYMENT-REQUIRED'', btoa P (JSON_stringify P paymentRequired)),
          (''X-PRICE'', priceToken pricing_v),
          (''X-PRICE-USD'', Number_toString P (pricingUsd pricing_v)),
          (''X-TOKEN'', pricingToken pricing_v),
          (''X-SELLER'', sellerAddress config),
          (''X-CHAIN-ID'', Number_toString P (pricingChainId pricing_v)),
          (''X-NETWORK'', ''eip155:'' @ Number_toString P (pricingChainId pricing_v)),
          (''X-EXPIRY'', Number_toString P expiry_v),
          (''X-NONCE'', nonce_v)]
         @ (case description pricing_v of
              None \<Rightarrow> []
            | Some d \<Rightarrow> if d = [] then [] else [(''X-DESCRIPTION'', d)])
         @ (case schemes pricing_v of
              None \<Rightarrow> []
            | Some xs \<Rightarrow> [(''X-SCHEMES'', join '','' xs)]))"

text \<open>
  \<^verbatim>\<open>new Response(JSON.stringify({ error: message }), { status, headers })\<close> with the
  content type first among the headers.
\<close>

definition errorResponse ::
  "Platform \<Rightarrow> nat \<Rightarrow> string option \<Rightarrow> (string \<times> string) list \<Rightarrow> Response" where
  "errorResponse P code message extraHeaders =
     \<lparr>status = code, statusText = [],
      headers = (''Content-Type'', ''application/json'') # extraHeaders,
      body = JSON_stringify P (objectLiteral [(''error'', map_option JStr message)])\<rparr>"

text \<open>
  The receipt handed to \<^verbatim>\<open>storeReceipt\<close>. \<^verbatim>\<open>toISOString\<close> raises \<^verbatim>\<open>RangeError\<close> on a
  time outside the range of \<^verbatim>\<open>Date\<close>; the expiry is taken from the proof as it came.
\<close>

definition makeReceipt ::
  "Platform \<Rightarrow> PaywallConfig \<Rightarrow> Env \<Rightarrow> EndpointPricing \<Rightarrow> ParsedPayment \<Rightarrow> VerificationResult \<Rightarrow>
   string \<Rightarrow> string \<Rightarrow> string \<Rightarrow> string \<Rightarrow> js_error + Receipt" where
  "makeReceipt P config env pricing_v payment_v verification callId_v receiptId_v
     requestHash_v responseHash_v =
     (case Date_toISOString P (expiry payment_v * 1000) of
        None \<Rightarrow> Inl RangeError
      | Some expiryIso \<Rightarrow>
          (case Date_toISOString P (of_int (now_ms env)) of
             None \<Rightarrow> Inl RangeError
           | Some createdIso \<Rightarrow>
               Inr \<lparr>receipt_id = receiptId_v,
                    callId = callId_v,
                    paymentRef = take 32 (signature payment_v),
                    amountUsd = pricingUsd pricing_v,
                    receiptToken = token payment_v,
                    receiptChainId = chainId payment_v,
                    receiptSeller = sellerAddress config,
                    buyer = payer payment_v,
                    receiptNonce = nonce payment_v,
                    receiptExpiry = expiryIso,
                    receiptSignature = signature payment_v,
                    requestHash = requestHash_v,
                    responseHash = responseHash_v,
                    receiptTxHash = txHash payment_v,
                    verified = valid verification,
                    createdAt = createdIso\<rparr>))"

text \<open>
  The part of the middleware after the replay check: the handler runs, the receipt is
  handed to \<^verbatim>\<open>ctx.waitUntil\<close> when a database is configured, and the response gets its
  two headers. \<open>callId_v\<close> is the nonce generated at the start of the request, \<open>events\<close>
  what the replay check did.
\<close>

definition fulfil ::
  "Platform \<Rightarrow> WorkerHandler \<Rightarrow> PaywallConfig \<Rightarrow> Env \<Rightarrow> World \<Rightarrow> Request \<Rightarrow> EndpointPricing \<Rightarrow>
   ParsedPayment \<Rightarrow> VerificationResult \<Rightarrow> string \<Rightarrow> event list \<Rightarrow> paywall_result" where
  "fulfil P handler config env world request pricing_v payment_v verification callId_v events =
     (let receiptId_v = generateReceiptId env;
          paywallCtx = \<lparr>paid = True, payment = Some payment_v, receiptId = Some receiptId_v,
                        contextPriceUsd = pricingUsd pricing_v,
                        contextNonce = nonce payment_v\<rparr>;
          requestHash_v = createContentHash P
            (JObj [(''method'', JStr (requestMethod request)),
                   (''url'', JStr (url request)),
                   (''body'', JStr (requestBody request))]);
          response = handler request paywallCtx;
          events1 = events @ [HandlerInvoked request paywallCtx];
          responseHash_v = createContentHash P
            (JObj [(''status'', JNum (real (status response))),
                   (''body'', JStr (body response))]);
          stored =
            (if db config
             then map_sum id Some
                    (makeReceipt P config env pricing_v payment_v verification callId_v
                       receiptId_v requestHash_v responseHash_v)
             else Inr None)
      in case stored of
           Inl e \<Rightarrow> (Inl e, world, events1)
         | Inr row \<Rightarrow>
             (let world1 = (case row of
                              None \<Rightarrow> world
                            | Some r \<Rightarrow> world\<lparr>receiptsTable := receiptsTable world @ [r]\<rparr>);
                  events2 = events1 @ (case row of None \<Rightarrow> [] | Some r \<Rightarrow> [ReceiptStored r])
              in case Date_toISOString P (of_int (now_ms env)) of
                   None \<Rightarrow> (Inl RangeError, world1, events2)
                 | Some settledAt \<Rightarrow>
                     (let headers1 = headersSet ''X-RECEIPT-ID'' receiptId_v (headers response);
                          paymentResponse = objectLiteral
                            [(''success'', Some (JBool True)),
                             (''receiptId'', Some (JStr receiptId_v)),
                             (''network'',
                                Some (JStr (''eip155:'' @ Number_toString P (chainId payment_v)))),
                             (''txHash'', map_option JStr (txHash payment_v)),
                             (''settledAt'', Some (JStr settledAt))];
                          headers2 = headersSet ''PAYMENT-RESPONSE''
                                       (btoa P (JSON_stringify P paymentResponse)) headers1
                      in (Inr (Fulfilled,
                               \<lparr>status = status response, statusText = statusText response,
                                headers = headers2, body = body response\<rparr>),
                          world1, events2))))"

text \<open>
  The replay check: \<^verbatim>\<open>get\<close>, and \<^verbatim>\<open>put\<close> with a lifetime of 86400 seconds when the
  nonce is not marked. It is skipped unless \<^verbatim>\<open>checkReplay\<close> is set and a store is bound.
\<close>

definition replayChecked ::
  "Platform \<Rightarrow> WorkerHandler \<Rightarrow> PaywallConfig \<Rightarrow> Env \<Rightarrow> World \<Rightarrow> Request \<Rightarrow> EndpointPricing \<Rightarrow>
   ParsedPayment \<Rightarrow> VerificationResult \<Rightarrow> string \<Rightarrow> paywall_result" where
  "replayChecked P handler config env world request pricing_v payment_v verification callId_v =
     (if checkReplay config = Some True \<and> kv config
      then
        (let key = ''nonce:'' @ nonce payment_v;
             used = kv_get (kvStore world) (nowSeconds env) key
         in if (case used of None \<Rightarrow> False | Some v \<Rightarrow> v \<noteq> [])
            then ((Inr (NonceReplayed, errorResponse P 400 (Some ''Payment nonce already used'') [])),
                  world, [KvGet key])
            else fulfil P handler config env
                   (world\<lparr>kvStore := kv_put (kvStore world) (nowSeconds env) key ''1'' 86400\<rparr>)
                   request pricing_v payment_v verification callId_v
                   [KvGet key, KvPut key ''1'' 86400])
      else fulfil P handler config env world request pricing_v payment_v verification
             callId_v [])"

text \<open>\<^verbatim>\<open>request.headers.get('PAYMENT-SIGNATURE') || request.headers.get('X-PAYMENT')\<close>.\<close>

definition paymentHeaderOf :: "Request \<Rightarrow> string option" where
  "paymentHeaderOf request =
     (case paymentSignature request of
        None \<Rightarrow> xPayment request
      | Some h \<Rightarrow> if h = [] then xPayment request else Some h)"

definition withX402Paywall ::
  "Platform \<Rightarrow> WorkerHandler \<Rightarrow> PaywallConfig \<Rightarrow> Env \<Rightarrow> World \<Rightarrow> Request \<Rightarrow> paywall_result" where
  "withX402Paywall P handler config env world request =
     (let endpoint_v = pathname request
      in case getPriceForEndpoint P endpoint_v config of
           Inl e \<Rightarrow> (Inl e, world, [])
         | Inr None \<Rightarrow>
             (let paywallCtx = \<lparr>paid = False, payment = None, receiptId = None,
                                contextPriceUsd = 0, contextNonce = []\<rparr>
              in (Inr (Passthrough, handler request paywallCtx), world,
                  [HandlerInvoked request paywallCtx]))
         | Inr (Some pricing_v) \<Rightarrow>
             (let nonce_v = generateNonce env;
                  expiry_v = of_int (nowSeconds env) + timeoutSeconds config
              in case paymentHeaderOf request of
                   None \<Rightarrow>
                     (Inr (ChallengeIssued,
                           create402Response P pricing_v config nonce_v expiry_v endpoint_v request),
                      world, [])
                 | Some paymentHeader \<Rightarrow>
                     if paymentHeader = []
                     then (Inr (ChallengeIssued,
                                create402Response P pricing_v config nonce_v expiry_v endpoint_v
                                  request),
                           world, [])
                     else
                       (case parsePaymentHeader_worker P paymentHeader of
                          None \<Rightarrow>
                            (Inr (MalformedProof,
                                  errorResponse P 400 (Some ''Invalid payment header format'') []),
                             world, [])
                        | Some untyped \<Rightarrow>
                            (case asParsedPayment untyped of
                               None \<Rightarrow> (Inl IllTypedPayload, world, [])
                             | Some payment_v \<Rightarrow>
                                 (case verifyPayment (now_ms env) payment_v pricing_v config of
                                    Inl e \<Rightarrow> (Inl e, world, [])
                                  | Inr verification \<Rightarrow>
                                      if \<not> valid verification
                                      then (Inr (VerificationFailed,
                                                 errorResponse P 402
                                                   (verificationReason verification)
                                                   (create402Headers P pricing_v config nonce_v
                                                      expiry_v)),
                                            world, [])
                                      else replayChecked P handler config env world request
                                             pricing_v payment_v verification nonce_v)))))"

section \<open>Buyer side: types (packages/x402-client/src/types.ts)\<close>

text \<open>
  The fields of \<^verbatim>\<open>X402Headers\<close> that a proof also has carry the prefix \<open>header\<close>.
\<close>

record X402Headers =
  price :: string
  headerPriceUsd :: real
  headerToken :: string
  seller :: string
  headerChainId :: real
  headerExpiry :: real
  headerNonce :: string
  headerDescription :: "string option"
  headerSchemes :: "string list option"

text \<open>The object \<^verbatim>\<open>signPayment\<close> receives.\<close>

record SignParams =
  signSeller :: string
  signAmount :: string
  signToken :: string
  signChainId :: real
  signNonce :: string
  signExpiry :: real

text \<open>
  The wallet is the signing capability: each of its two methods returns a text or
  rejects with an error.
\<close>

record WalletAdapter =
  getAddress :: "js_error + string"
  signPayment :: "SignParams \<Rightarrow> js_error + string"

text \<open>
  The three callbacks are optional; the model records whether each is supplied and
  when it is called. The storage of a call is passed to \<open>x402Fetch\<close> on its own.
\<close>

record X402FetchOptions =
  policy :: Policy
  wallet :: WalletAdapter
  optionsCallerId :: string
  autoPay :: "bool option"
  onPaymentRequired :: bool
  onPaymentMade :: bool
  onPolicyBlocked :: bool
  maxRetries :: "real option"

record X402Response = Response +
  x402Paid :: bool
  x402Payment :: "number PaymentProof option"
  x402Decision :: "PolicyDecision option"
  x402ReceiptId :: "string option"

datatype x402_error =
    Rejected js_error
  | X402PaymentError string X402Headers "js_error option"
  | X402PolicyError string PolicyDecision X402Headers

section \<open>Buyer side: spend storage (packages/x402-client/src/storage.ts)\<close>

record PaymentEntry =
  payment_id :: string
  paymentCallerId :: string
  paymentAmountUsd :: real
  paymentEndpoint :: string
  paymentNonce :: string
  paymentPaymentRef :: string
  paymentTimestamp :: int

record DecisionEntry =
  decision_id :: string
  decisionCallerId :: string
  decision :: PolicyDecision
  decisionEndpoint :: string
  decisionPriceUsd :: real
  decisionTimestamp :: int

record InMemorySpendStorage =
  contexts :: "string \<Rightarrow> SpendContext option"
  payments :: "PaymentEntry list"
  decisions :: "DecisionEntry list"

text \<open>
  What one call of \<open>x402Fetch\<close> observes of its surroundings: the clock and the random
  parts of the identifiers of the two records it may write.
\<close>

record ClientEnv =
  clientNow :: int
  decisionRandom :: string
  paymentRandom :: string

definition createSpendContext :: "string \<Rightarrow> int \<Rightarrow> SpendContext" where
  "createSpendContext callerId_v now =
     \<lparr>callerId = callerId_v, dailySpentUsd = 0, weeklySpentUsd = 0, dailyCallCount = 0,
      asOf = now\<rparr>"

definition getSpendContext ::
  "InMemorySpendStorage \<Rightarrow> string \<Rightarrow> int \<Rightarrow> SpendContext \<times> InMemorySpendStorage" where
  "getSpendContext storage callerId_v now =
     (case contexts storage callerId_v of
        Some existing \<Rightarrow> (existing, storage)
      | None \<Rightarrow>
          (let newContext = createSpendContext callerId_v now
           in (newContext, storage\<lparr>contexts := (contexts storage)(callerId_v \<mapsto> newContext)\<rparr>)))"

definition recordPayment ::
  "InMemorySpendStorage \<Rightarrow> ClientEnv \<Rightarrow> string \<Rightarrow> real \<Rightarrow> string \<Rightarrow> string \<Rightarrow> string \<Rightarrow>
   InMemorySpendStorage" where
  "recordPayment storage env callerId_v amountUsd_v endpoint_v nonce_v paymentRef_v =
     (let (context, storage1) = getSpendContext storage callerId_v (clientNow env);
          context' = context\<lparr>dailySpentUsd := dailySpentUsd context + amountUsd_v,
                             weeklySpentUsd := weeklySpentUsd context + amountUsd_v,
                             dailyCallCount := dailyCallCount context + 1,
                             asOf := clientNow env\<rparr>
      in storage1\<lparr>contexts := (contexts storage1)(callerId_v \<mapsto> context'),
                  payments := payments storage1 @
                    [\<lparr>payment_id = generateId ''pay'' (clientNow env) (paymentRandom env),
                      paymentCallerId = callerId_v,
                      paymentAmountUsd = amountUsd_v,
                      paymentEndpoint = endpoint_v,
                      paymentNonce = nonce_v,
                      paymentPaymentRef = paymentRef_v,
                      paymentTimestamp = clientNow env\<rparr>]\<rparr>)"

definition recordDecision ::
  "InMemorySpendStorage \<Rightarrow> ClientEnv \<Rightarrow> string \<Rightarrow> PolicyDecision \<Rightarrow> string \<Rightarrow> real \<Rightarrow>
   InMemorySpendStorage" where
  "recordDecision storage env callerId_v decision_v endpoint_v priceUsd_v =
     storage\<lparr>decisions := decisions storage @
       [\<lparr>decision_id = generateId ''dec'' (clientNow env) (decisionRandom env),
         decisionCallerId = callerId_v,
         decision = decision_v,
         decisionEndpoint = endpoint_v,
         decisionPriceUsd = priceUsd_v,
         decisionTimestamp = clientNow env\<rparr>]\<rparr>"

section \<open>Buyer side: payment headers (packages/x402-client/src/payment.ts)\<close>

text \<open>
  What \<^verbatim>\<open>JSON.stringify\<close> writes for a number: the number when it is finite, and
  \<^verbatim>\<open>null\<close> for NaN and the two infinities.
\<close>

definition jsonNumber :: "number \<Rightarrow> json" where
  "jsonNumber x = (case x of Finite v \<Rightarrow> JNum v | _ \<Rightarrow> JNull)"

text \<open>
  \<^verbatim>\<open>...(proof.txHash && { txHash: proof.txHash })\<close> adds the property when the hash is
  present and not empty.
\<close>

definition proofPayload :: "number PaymentProof \<Rightarrow> json" where
  "proofPayload proof =
     objectLiteral
       [(''sig'', Some (JStr (signature proof))),
        (''payer'', Some (JStr (payer proof))),
        (''nonce'', Some (JStr (nonce proof))),
        (''expiry'', Some (jsonNumber (expiry proof))),
        (''amount'', Some (JStr (amount proof))),
        (''token'', Some (JStr (token proof))),
        (''chainId'', Some (jsonNumber (chainId proof))),
        (''txHash'', (case txHash proof of
                        None \<Rightarrow> None
                      | Some h \<Rightarrow> if h = [] then None else Some (JStr h)))]"

text \<open>
  \<^verbatim>\<open>btoa\<close> raises on a text with a code unit above 255 and on no other; the texts of
  the model have none.
\<close>

definition createPaymentHeader :: "Platform \<Rightarrow> number PaymentProof \<Rightarrow> string" where
  "createPaymentHeader P proof = btoa P (JSON_stringify P (proofPayload proof))"

definition parsePaymentHeader_client :: "Platform \<Rightarrow> string \<Rightarrow> UntypedPayment option" where
  "parsePaymentHeader_client P header =
     (case atob P header of
        None \<Rightarrow> None
      | Some decoded \<Rightarrow>
          (case JSON_parse P decoded of
             None \<Rightarrow> None
           | Some payload \<Rightarrow>
               if payload = JNull then None
               else if \<not> truthy (getProp payload ''sig'') \<or> \<not> truthy (getProp payload ''payer'')
                       \<or> \<not> truthy (getProp payload ''nonce'')
                 then None
               else Some \<lparr>u_signature = getProp payload ''sig'',
                          u_payer = getProp payload ''payer'',
                          u_nonce = getProp payload ''nonce'',
                          u_expiry = getProp payload ''expiry'',
                          u_amount = getProp payload ''amount'',
                          u_token = getProp payload ''token'',
                          u_chainId = getProp payload ''chainId'',
                          u_txHash = getProp payload ''txHash''\<rparr>))"

section \<open>Policy engine: building the request (packages/policy-engine/src/evaluator.ts)\<close>

text \<open>
  The URL of a call in its parsed form (\<^verbatim>\<open>new URL(url)\<close>): the runtimes the packages
  target reject a URL that is not absolute at the first \<^verbatim>\<open>fetch\<close>. A response with
  status 402 comes from an http or https URL, and the \<^verbatim>\<open>pathname\<close> of such a URL begins
  with a slash: the record holds what follows the slash.
\<close>

record URL =
  href :: string
  pathTail :: string
  hostname :: string

definition urlPathname :: "URL \<Rightarrow> string" where
  "urlPathname parsed = CHR ''/'' # pathTail parsed"

definition parsePaymentRequest :: "URL \<Rightarrow> real \<Rightarrow> string \<Rightarrow> PaymentRequest" where
  "parsePaymentRequest parsed priceUsd_v callerId_v =
     (let pathParts = filter (\<lambda>part. part \<noteq> []) (splitOn (CHR ''/'') (urlPathname parsed));
          tool_v = (if pathParts = [] then ''unknown'' else last pathParts)
      in \<lparr>endpoint = urlPathname parsed, tool = tool_v, domain = hostname parsed,
          priceUsd = priceUsd_v, requestCallerId = callerId_v\<rparr>)"

section \<open>Buyer side: the orchestrator (x402-fetch.ts)\<close>

text \<open>
  What a call does outside itself, in order: the requests it sends (with the payment
  header, if any), what it writes to the storage, the callbacks and the wallet methods
  it calls.
\<close>

datatype client_event =
    Fetched "string option"
  | DecisionRecorded PolicyDecision
  | PaymentRequiredNotified
  | PolicyBlockedNotified
  | SignRequested SignParams
  | AddressRequested
  | PaymentMadeNotified
  | PaymentRecorded real

type_synonym client_result =
  "(x402_error + X402Response) \<times> InMemorySpendStorage \<times> client_event list"

text \<open>
  The network answers the \<open>n\<close>-th request of a call (the first is number 0) carrying the
  given payment header with a response, or the request fails.
\<close>

type_synonym network = "nat \<Rightarrow> string option \<Rightarrow> js_error + Response"

definition ok :: "Response \<Rightarrow> bool" where
  "ok response = (200 \<le> status response \<and> status response \<le> 299)"

definition annotate ::
  "Response \<Rightarrow> bool \<Rightarrow> number PaymentProof option \<Rightarrow> PolicyDecision option \<Rightarrow>
   string option \<Rightarrow>
   X402Response" where
  "annotate response paid_v proof decision_v receipt =
     \<lparr>status = status response, statusText = statusText response,
      headers = headers response, body = body response,
      x402Paid = paid_v, x402Payment = proof, x402Decision = decision_v,
      x402ReceiptId = receipt\<rparr>"

text \<open>\<^verbatim>\<open>response.headers.get('X-RECEIPT-ID') || undefined\<close>.\<close>

definition receiptIdOf :: "Response \<Rightarrow> string option" where
  "receiptIdOf response =
     (case headersGet ''X-RECEIPT-ID'' (headers response) of
        None \<Rightarrow> None
      | Some v \<Rightarrow> if v = [] then None else Some v)"

text \<open>
  The loop \<^verbatim>\<open>while (retryCount < maxRetries)\<close>: a request that fails is counted and
  tried again; the first response that arrives, whatever its status, ends the call.
\<close>

function retryLoop ::
  "Platform \<Rightarrow> network \<Rightarrow> ClientEnv \<Rightarrow> string \<Rightarrow> X402Headers \<Rightarrow> PaymentRequest \<Rightarrow>
   number PaymentProof \<Rightarrow> PolicyDecision \<Rightarrow> real \<Rightarrow> nat \<Rightarrow> js_error option \<Rightarrow>
   InMemorySpendStorage \<Rightarrow> client_event list \<Rightarrow> client_result" where
  "retryLoop P net env callerId_v hdrs paymentRequest paymentProof decision_v maxRetries_v
     retryCount lastError storage events =
     (if real retryCount < maxRetries_v
      then
        (let paymentHeader = createPaymentHeader P paymentProof
         in case net (Suc retryCount) (Some paymentHeader) of
              Inr response \<Rightarrow>
                (let recorded = ok response;
                     storage' =
                       (if recorded
                        then recordPayment storage env callerId_v (headerPriceUsd hdrs)
                               (endpoint paymentRequest) (headerNonce hdrs)
                               (take 16 (signature paymentProof))
                        else storage)
                 in (Inr (annotate response True (Some paymentProof) (Some decision_v)
                            (receiptIdOf response)),
                     storage',
                     events @ [Fetched (Some paymentHeader)]
                       @ (if recorded then [PaymentRecorded (headerPriceUsd hdrs)] else [])))
            | Inl err \<Rightarrow>
                retryLoop P net env callerId_v hdrs paymentRequest paymentProof decision_v
                  maxRetries_v (Suc retryCount) (Some err) storage
                  (events @ [Fetched (Some paymentHeader)]))
      else (Inl (X402PaymentError
                   (''Payment request failed after '' @ Number_toString P maxRetries_v
                    @ '' retries'')
                   hdrs lastError),
            storage, events))"
  by pat_completeness auto
termination
  by (relation "measure (\<lambda>(P, net, env, callerId_v, hdrs, paymentRequest, paymentProof,
         decision_v, maxRetries_v, retryCount, lastError, storage, events).
         nat \<lceil>maxRetries_v\<rceil> - retryCount)")
     (auto simp add: zless_nat_eq_int_zless less_ceiling_iff intro!: diff_less_mono2)

declare retryLoop.simps [simp del]

definition emptyHeaders :: X402Headers where
  "emptyHeaders =
     \<lparr>price = ''0'', headerPriceUsd = 0, headerToken = [], seller = [], headerChainId = 0,
      headerExpiry = 0, headerNonce = [], headerDescription = None, headerSchemes = None\<rparr>"

text \<open>
  \<open>parse402Headers\<close> stands for the function of that name in \<^verbatim>\<open>payment.ts\<close>, which reads
  the challenge off a response: \<open>None\<close> is its \<^verbatim>\<open>null\<close>. The orchestrator only
  depends on its result, and the statements below are about every such function.
\<close>

definition x402Fetch ::
  "Platform \<Rightarrow> (Response \<Rightarrow> X402Headers option) \<Rightarrow> network \<Rightarrow> ClientEnv \<Rightarrow> URL \<Rightarrow>
   X402FetchOptions \<Rightarrow> InMemorySpendStorage \<Rightarrow> client_result" where
  "x402Fetch P parse402Headers net env parsedUrl options storage =
     (case net 0 None of
        Inl err \<Rightarrow> (Inl (Rejected err), storage, [Fetched None])
      | Inr response \<Rightarrow>
          if status response \<noteq> 402
          then (Inr (annotate response False None None None), storage, [Fetched None])
          else
            (case parse402Headers response of
               None \<Rightarrow>
                 (Inl (X402PaymentError ''Invalid 402 response - missing required headers''
                         emptyHeaders None),
                  storage, [Fetched None])
             | Some hdrs \<Rightarrow>
                 (let callerId_v = optionsCallerId options;
                      (context, storage1) = getSpendContext storage callerId_v (clientNow env);
                      paymentRequest =
                        parsePaymentRequest parsedUrl (headerPriceUsd hdrs) callerId_v
                  in case evaluatePolicy (clientNow env) (policy options) paymentRequest
                            context \<lparr>rules = None, fullTrace = Some True\<rparr> of
                       Inl err \<Rightarrow> (Inl (Rejected err), storage1, [Fetched None])
                     | Inr decision_v \<Rightarrow>
                  (let storage2 =
                        recordDecision storage1 env callerId_v decision_v
                          (endpoint paymentRequest) (headerPriceUsd hdrs);
                      events = [Fetched None, DecisionRecorded decision_v]
                        @ (if onPaymentRequired options then [PaymentRequiredNotified] else [])
                  in if \<not> allow decision_v
                     then (Inl (X402PolicyError
                                  (''Payment blocked by policy: '' @ decisionReason decision_v)
                                  decision_v hdrs),
                           storage2,
                           events @ (if onPolicyBlocked options then [PolicyBlockedNotified]
                                     else []))
                     else if autoPay options = Some False
                     then (Inl (X402PolicyError ''Payment required but autoPay is disabled''
                                  decision_v hdrs),
                           storage2, events)
                     else
                       (let params = \<lparr>signSeller = seller hdrs, signAmount = price hdrs,
                                      signToken = headerToken hdrs,
                                      signChainId = headerChainId hdrs,
                                      signNonce = headerNonce hdrs,
                                      signExpiry = headerExpiry hdrs\<rparr>
                        in case signPayment (wallet options) params of
                             Inl err \<Rightarrow>
                               (Inl (X402PaymentError ''Failed to generate payment'' hdrs
                                       (Some err)),
                                storage2, events @ [SignRequested params])
                           | Inr signature_v \<Rightarrow>
                               (case getAddress (wallet options) of
                                  Inl err \<Rightarrow>
                                    (Inl (X402PaymentError ''Failed to generate payment'' hdrs
                                            (Some err)),
                                     storage2,
                                     events @ [SignRequested params, AddressRequested])
                                | Inr address \<Rightarrow>
                                    (let paymentProof =
                                           \<lparr>signature = signature_v, payer = address,
                                            nonce = headerNonce hdrs,
                                            expiry = Finite (headerExpiry hdrs),
                                            amount = price hdrs,
                                            token = headerToken hdrs,
                                            chainId = Finite (headerChainId hdrs),
                                            txHash = None\<rparr>
                                     in retryLoop P net env callerId_v hdrs paymentRequest
                                          paymentProof decision_v
                                          (case maxRetries options of None \<Rightarrow> 1 | Some m \<Rightarrow> m)
                                          0 None storage2
                                          (events @ [SignRequested params, AddressRequested]
                                             @ (if onPaymentMade options
                                                then [PaymentMadeNotified] else [])))))))))"

section \<open>Notions used by the statements about the policy engine\<close>

text \<open>
  What a list of rules returns on one input, in the order of the list, and the verdicts
  when every rule of the list returns one; the first failing verdict; and, in the words
  of the specification, the prefix of the verdicts that ends at the first failing one
  (all of them when none fails).
\<close>

definition ruleResults ::
  "RuleFunction list \<Rightarrow> Policy \<Rightarrow> PaymentRequest \<Rightarrow> SpendContext \<Rightarrow>
   (js_error + RuleTrace) list" where
  "ruleResults rs policy_v request context = map (\<lambda>rule. rule policy_v request context) rs"

definition verdicts ::
  "RuleFunction list \<Rightarrow> Policy \<Rightarrow> PaymentRequest \<Rightarrow> SpendContext \<Rightarrow> RuleTrace list" where
  "verdicts rs policy_v request context = map projr (ruleResults rs policy_v request context)"

definition firstFailure :: "RuleTrace list \<Rightarrow> RuleTrace option" where
  "firstFailure res = find (\<lambda>t. \<not> passed t) res"

definition prefixToFirstFailure :: "RuleTrace list \<Rightarrow> RuleTrace list" where
  "prefixToFirstFailure res = take (Suc (length (takeWhile passed res))) res"

text \<open>
  The endpoint of a request names a property that the table of endpoint caps inherits:
  the input on which the per-call rule raises.
\<close>

definition inheritedCap :: "Policy \<Rightarrow> PaymentRequest \<Rightarrow> bool" where
  "inheritedCap policy_v request =
     (case endpointCaps policy_v of
        None \<Rightarrow> False
      | Some caps \<Rightarrow>
          map_of caps (endpoint request) = None \<and> endpoint request \<in> set Object_prototype)"

text \<open>
  Membership of the request's tool in the two tool lists, and of its domain in a domain
  list, as the claims word it (an absent list has no member).
\<close>

definition toolAllowed :: "Policy \<Rightarrow> PaymentRequest \<Rightarrow> bool" where
  "toolAllowed policy_v request = (tool request \<in> set (allowTools policy_v))"

definition toolDenied :: "Policy \<Rightarrow> PaymentRequest \<Rightarrow> bool" where
  "toolDenied policy_v request =
     (case denyTools policy_v of None \<Rightarrow> False | Some xs \<Rightarrow> tool request \<in> set xs)"

definition domainListed :: "string list option \<Rightarrow> PaymentRequest \<Rightarrow> bool" where
  "domainListed l request =
     (case l of None \<Rightarrow> False | Some xs \<Rightarrow> list_ex (domainMatches (domain request)) xs)"

subsection \<open>Example inputs\<close>

text \<open>
  The default policy of \<^verbatim>\<open>types.ts\<close>, a request for five cents and the context of a new
  caller.
\<close>

definition DEFAULT_POLICY :: Policy where
  "DEFAULT_POLICY =
     \<lparr>policy_id = ''default'', name = ''Default Policy'', dailyCapUsd = 1,
      weeklyCapUsd = Some 5, perCallCapUsd = 1 / 10, allowTools = [],
      denyTools = Some [], allowDomains = Some [], denyDomains = Some [],
      endpointCaps = Some [], enabled = True\<rparr>"

definition extractRequest :: PaymentRequest where
  "extractRequest =
     \<lparr>endpoint = ''/tool/extract'', tool = ''extract'', domain = ''api.example.com'',
      priceUsd = 5 / 100, requestCallerId = ''agent-1''\<rparr>"

definition newCallerContext :: SpendContext where
  "newCallerContext =
     \<lparr>callerId = ''agent-1'', dailySpentUsd = 0, weeklySpentUsd = 0, dailyCallCount = 0,
      asOf = 0\<rparr>"

text \<open>The same request for an endpoint named \<^verbatim>\<open>constructor\<close>.\<close>

definition constructorRequest :: PaymentRequest where
  "constructorRequest = extractRequest\<lparr>endpoint := ''constructor''\<rparr>"

text \<open>The default policy with a weekly cap of zero dollars.\<close>

definition zeroWeeklyPolicy :: Policy where
  "zeroWeeklyPolicy = DEFAULT_POLICY\<lparr>weeklyCapUsd := Some 0\<rparr>"

text \<open>
  A policy that lists the tool \<^verbatim>\<open>extract\<close> as allowed and as denied; one that lists the
  domain \<^verbatim>\<open>example.com\<close> as allowed and as denied; and one that does the latter and
  also denies the tool.
\<close>

definition toolBothPolicy :: Policy where
  "toolBothPolicy =
     DEFAULT_POLICY\<lparr>allowTools := [''extract'', ''quote''], denyTools := Some [''extract'']\<rparr>"

definition domainBothPolicy :: Policy where
  "domainBothPolicy =
     DEFAULT_POLICY\<lparr>allowDomains := Some [''example.com''],
                    denyDomains := Some [''example.com'']\<rparr>"

definition domainBothToolDeniedPolicy :: Policy where
  "domainBothToolDeniedPolicy = domainBothPolicy\<lparr>denyTools := Some [''extract'']\<rparr>"

section \<open>Notions and example inputs for the statements about the seller side\<close>

text \<open>The number of times a list of events invokes the handler.\<close>

fun isHandlerInvoked :: "event \<Rightarrow> bool" where
  "isHandlerInvoked (HandlerInvoked request paywallCtx) = True"
| "isHandlerInvoked (KvGet key) = False"
| "isHandlerInvoked (KvPut key v ttl) = False"
| "isHandlerInvoked (ReceiptStored r) = False"

definition handlerCalls :: "event list \<Rightarrow> nat" where
  "handlerCalls events = length (filter isHandlerInvoked events)"

text \<open>The context the middleware gives the handler of an endpoint without a price.\<close>

definition notPaidContext :: PaywallContext where
  "notPaidContext =
     \<lparr>paid = False, payment = None, receiptId = None, contextPriceUsd = 0,
      contextNonce = []\<rparr>"

text \<open>
  The first failed check of \<^verbatim>\<open>verifyPayment\<close> in the order of the source, for a proof
  amount \<open>a\<close> and a required amount \<open>req\<close>, when signatures are not verified.
\<close>

definition firstFailedCheck ::
  "int \<Rightarrow> ParsedPayment \<Rightarrow> EndpointPricing \<Rightarrow> int \<Rightarrow> int \<Rightarrow> string option" where
  "firstFailedCheck now payment_v pricing_v a req =
     (if expiry payment_v < of_int (now div 1000) then Some ''Payment has expired''
      else if toLowerCase (token payment_v) \<noteq> toLowerCase (pricingToken pricing_v)
        then Some ''Token mismatch''
      else if chainId payment_v \<noteq> pricingChainId pricing_v then Some ''Chain ID mismatch''
      else if a < req then Some ''Insufficient payment amount''
      else None)"











subsection \<open>Example inputs\<close>

text \<open>
  A proof for the endpoint \<^verbatim>\<open>/tool/extract\<close> of the demonstration worker, priced at five
  cents in a token whose address the configuration writes in mixed case and the proof in
  lower case. The proof expires in the year 2033.
\<close>

definition extractPricing :: EndpointPricing where
  "extractPricing =
     \<lparr>pricingUsd = 5 / 100, priceToken = ''50000'',
      pricingToken = ''0x036CbD53842c5426634e7929541eC2318f3dCF7e'',
      pricingChainId = 84532,
      description = Some ''Extract structured data from content'', schemes = None\<rparr>"

definition demoConfig :: PaywallConfig where
  "demoConfig =
     \<lparr>sellerAddress = ''0x8765432109fedcba8765432109fedcba87654321'',
      defaultToken = ''0x036CbD53842c5426634e7929541eC2318f3dCF7e'',
      defaultChainId = 84532,
      pricing = [(''/tool/extract'', Pricing extractPricing), (''/tool/quote'', PriceUsd (3 / 100))],
      defaultPriceUsd = None, expiryDuration = Some 300, verifySignatures = None,
      checkReplay = Some True, db = True, kv = True\<rparr>"

definition demoProof :: ParsedPayment where
  "demoProof =
     \<lparr>signature = ''0x5d1c2a'', payer = ''0x00000000000000000000000000000000000test'',
      nonce = ''nonce_abc123'', expiry = 2000000000, amount = ''50000'',
      token = ''0x036cbd53842c5426634e7929541ec2318f3dcf7e'', chainId = 84532,
      txHash = None\<rparr>"

text \<open>The same proof as the client holds it before it is encoded.\<close>

definition demoClientProof :: "number PaymentProof" where
  "demoClientProof =
     \<lparr>signature = ''0x5d1c2a'', payer = ''0x00000000000000000000000000000000000test'',
      nonce = ''nonce_abc123'', expiry = Finite 2000000000, amount = ''50000'',
      token = ''0x036cbd53842c5426634e7929541ec2318f3dcf7e'', chainId = Finite 84532,
      txHash = None\<rparr>"

text \<open>
  A platform for the examples. Its serialiser writes the payload of \<open>demoProof\<close> as one
  text and its parser reads that text back; its base-64 coding is the identity; its
  regular expressions match a pattern without special characters literally; it prints a
  number rounded to an integer; and it accepts the times of \<^verbatim>\<open>Date\<close>.
\<close>

definition demoPlatform :: Platform where
  "demoPlatform =
     \<lparr>JSON_stringify =
        (\<lambda>j. if j = proofPayload demoClientProof then ''<proof>'' else ''<json>''),
      JSON_parse =
        (\<lambda>s. if s = ''<proof>'' then Some (proofPayload demoClientProof) else None),
      btoa = (\<lambda>s. s),
      atob = (\<lambda>s. Some s),
      RegExp_test = (\<lambda>source text. Some (source = ''^'' @ text @ ''$'')),
      Number_toString = toFixed 0,
      Date_toISOString =
        (\<lambda>t. if \<bar>t\<bar> \<le> 8640000000000000 then Some (toFixed 0 t) else None)\<rparr>"


definition catalogRequest :: Request where
  "catalogRequest =
     \<lparr>requestMethod = ''GET'', url = ''https://api.example.com/catalog'',
      pathname = ''/catalog'', paymentSignature = None, xPayment = None,
      requestBody = []\<rparr>"

definition demoHandler :: WorkerHandler where
  "demoHandler request paywallCtx =
     \<lparr>status = 200, statusText = ''OK'', headers = [], body = ''{}''\<rparr>"

definition emptyWorld :: World where
  "emptyWorld = \<lparr>kvStore = (\<lambda>key. None), receiptsTable = []\<rparr>"

text \<open>
  Three moments: one in November 2023, one a second later, and one 86400 seconds after
  the first.
\<close>

definition firstEnv :: Env where
  "firstEnv = \<lparr>now_ms = 1700000000000, nonceRandom = ''a1b2c3d4'', receiptRandom = ''e5f6g7h8''\<rparr>"






section \<open>Notions and example inputs for the statements about the buyer side\<close>

text \<open>
  The platform transports a JSON value: decoding the base-64 text of its serialisation
  gives the serialisation back, and parsing that gives the value back. The platform's
  functions do so for a value whose numbers are finite and whose texts are 8-bit.
\<close>

definition transports :: "Platform \<Rightarrow> json \<Rightarrow> bool" where
  "transports P j =
     (atob P (btoa P (JSON_stringify P j)) = Some (JSON_stringify P j)
      \<and> JSON_parse P (JSON_stringify P j) = Some j)"

text \<open>
  A proof as it arrives: the header leaves out a transaction hash that is the empty
  text, as it leaves out an absent one.
\<close>

definition arrivedProof :: "'n PaymentProof \<Rightarrow> 'n PaymentProof" where
  "arrivedProof proof =
     proof\<lparr>txHash := (case txHash proof of
                         None \<Rightarrow> None
                       | Some h \<Rightarrow> if h = [] then None else Some h)\<rparr>"

text \<open>The record of JSON values that parsing the header of a proof yields.\<close>

definition untypedOf :: "number PaymentProof \<Rightarrow> UntypedPayment" where
  "untypedOf p =
     \<lparr>u_signature = Some (JStr (signature p)), u_payer = Some (JStr (payer p)),
      u_nonce = Some (JStr (nonce p)), u_expiry = Some (jsonNumber (expiry p)),
      u_amount = Some (JStr (amount p)), u_token = Some (JStr (token p)),
      u_chainId = Some (jsonNumber (chainId p)),
      u_txHash = map_option JStr (txHash (arrivedProof p))\<rparr>"

text \<open>The parts of what a call of the orchestrator returns.\<close>

definition resultOf :: "client_result \<Rightarrow> x402_error + X402Response" where
  "resultOf r = fst r"

definition storageOf :: "client_result \<Rightarrow> InMemorySpendStorage" where
  "storageOf r = fst (snd r)"

definition clientEventsOf :: "client_result \<Rightarrow> client_event list" where
  "clientEventsOf r = snd (snd r)"

text \<open>
  The spend context of the caller in the ledger when a call starts: the stored one, and
  for a caller who has none the context of no spending, made at the time of the call.
\<close>

definition contextFor :: "ClientEnv \<Rightarrow> X402FetchOptions \<Rightarrow> InMemorySpendStorage \<Rightarrow> SpendContext" where
  "contextFor env options storage =
     (case contexts storage (optionsCallerId options) of
        Some existing \<Rightarrow> existing
      | None \<Rightarrow>
          \<lparr>callerId = optionsCallerId options, dailySpentUsd = 0, weeklySpentUsd = 0,
           dailyCallCount = 0, asOf = clientNow env\<rparr>)"

text \<open>
  The request and the policy evaluation of a call that has received the challenge
  \<open>hdrs\<close>, and the record that the call writes to the ledger for a decision \<open>d\<close>.
\<close>

definition requestFor :: "URL \<Rightarrow> X402FetchOptions \<Rightarrow> X402Headers \<Rightarrow> PaymentRequest" where
  "requestFor parsedUrl options hdrs =
     parsePaymentRequest parsedUrl (headerPriceUsd hdrs) (optionsCallerId options)"

definition decisionFor ::
  "ClientEnv \<Rightarrow> URL \<Rightarrow> X402FetchOptions \<Rightarrow> InMemorySpendStorage \<Rightarrow> X402Headers \<Rightarrow>
   js_error + PolicyDecision" where
  "decisionFor env parsedUrl options storage hdrs =
     evaluatePolicy (clientNow env) (policy options) (requestFor parsedUrl options hdrs)
       (contextFor env options storage) \<lparr>rules = None, fullTrace = Some True\<rparr>"

definition decisionEntryFor ::
  "ClientEnv \<Rightarrow> URL \<Rightarrow> X402FetchOptions \<Rightarrow> X402Headers \<Rightarrow> PolicyDecision \<Rightarrow> DecisionEntry" where
  "decisionEntryFor env parsedUrl options hdrs d =
     \<lparr>decision_id = generateId ''dec'' (clientNow env) (decisionRandom env),
      decisionCallerId = optionsCallerId options,
      decision = d,
      decisionEndpoint = urlPathname parsedUrl,
      decisionPriceUsd = headerPriceUsd hdrs,
      decisionTimestamp = clientNow env\<rparr>"

text \<open>
  The ledger of a call after the decision \<open>d\<close> is recorded: the caller has a context,
  and the decisions have one record more.
\<close>

definition storageAfterDecision ::
  "ClientEnv \<Rightarrow> URL \<Rightarrow> X402FetchOptions \<Rightarrow> InMemorySpendStorage \<Rightarrow> X402Headers \<Rightarrow>
   PolicyDecision \<Rightarrow> InMemorySpendStorage" where
  "storageAfterDecision env parsedUrl options storage hdrs d =
     \<lparr>contexts = (contexts storage)(optionsCallerId options \<mapsto> contextFor env options storage),
      payments = payments storage,
      decisions = decisions storage @ [decisionEntryFor env parsedUrl options hdrs d]\<rparr>"

text \<open>
  What the wallet is asked to sign for a challenge, and the number of paid requests a
  call may send (\<^verbatim>\<open>maxRetries\<close>, 1 when not given).
\<close>

definition signParamsFor :: "X402Headers \<Rightarrow> SignParams" where
  "signParamsFor hdrs =
     \<lparr>signSeller = seller hdrs, signAmount = price hdrs, signToken = headerToken hdrs,
      signChainId = headerChainId hdrs, signNonce = headerNonce hdrs,
      signExpiry = headerExpiry hdrs\<rparr>"

definition retryBudget :: "X402FetchOptions \<Rightarrow> real" where
  "retryBudget options = (case maxRetries options of None \<Rightarrow> 1 | Some m \<Rightarrow> m)"

text \<open>The proof built from a challenge, a signature and the address of the wallet.\<close>

definition proofFor :: "X402Headers \<Rightarrow> string \<Rightarrow> string \<Rightarrow> number PaymentProof" where
  "proofFor hdrs signature_v address =
     \<lparr>signature = signature_v, payer = address, nonce = headerNonce hdrs,
      expiry = Finite (headerExpiry hdrs), amount = price hdrs, token = headerToken hdrs,
      chainId = Finite (headerChainId hdrs), txHash = None\<rparr>"

text \<open>
  A spend context after a payment of \<open>a\<close> dollars is recorded, and the record of the
  payment in the ledger.
\<close>

definition chargedContext :: "ClientEnv \<Rightarrow> SpendContext \<Rightarrow> real \<Rightarrow> SpendContext" where
  "chargedContext env context a =
     \<lparr>callerId = callerId context,
      dailySpentUsd = dailySpentUsd context + a,
      weeklySpentUsd = weeklySpentUsd context + a,
      dailyCallCount = dailyCallCount context + 1,
      asOf = clientNow env\<rparr>"

definition paymentEntryFor ::
  "ClientEnv \<Rightarrow> URL \<Rightarrow> X402FetchOptions \<Rightarrow> X402Headers \<Rightarrow> string \<Rightarrow> PaymentEntry" where
  "paymentEntryFor env parsedUrl options hdrs signature_v =
     \<lparr>payment_id = generateId ''pay'' (clientNow env) (paymentRandom env),
      paymentCallerId = optionsCallerId options,
      paymentAmountUsd = headerPriceUsd hdrs,
      paymentEndpoint = urlPathname parsedUrl,
      paymentNonce = headerNonce hdrs,
      paymentPaymentRef = take 16 signature_v,
      paymentTimestamp = clientNow env\<rparr>"

text \<open>
  An event of the signing capability or of a request that carries a payment: what a call
  that attempts no payment must not contain.
\<close>

fun isPaymentAttempt :: "client_event \<Rightarrow> bool" where
  "isPaymentAttempt (SignRequested params) = True"
| "isPaymentAttempt AddressRequested = True"
| "isPaymentAttempt (Fetched (Some paymentHeader)) = True"
| "isPaymentAttempt (PaymentRecorded amountUsd_v) = True"
| "isPaymentAttempt PaymentMadeNotified = True"
| "isPaymentAttempt (Fetched None) = False"
| "isPaymentAttempt (DecisionRecorded decision_v) = False"
| "isPaymentAttempt PaymentRequiredNotified = False"
| "isPaymentAttempt PolicyBlockedNotified = False"

fun isPaymentRecorded :: "client_event \<Rightarrow> bool" where
  "isPaymentRecorded (PaymentRecorded amountUsd_v) = True"
| "isPaymentRecorded (SignRequested params) = False"
| "isPaymentRecorded AddressRequested = False"
| "isPaymentRecorded (Fetched paymentHeader) = False"
| "isPaymentRecorded PaymentMadeNotified = False"
| "isPaymentRecorded (DecisionRecorded decision_v) = False"
| "isPaymentRecorded PaymentRequiredNotified = False"
| "isPaymentRecorded PolicyBlockedNotified = False"

subsection \<open>Example inputs\<close>

text \<open>
  The challenge of the demonstration worker for \<^verbatim>\<open>/tool/extract\<close>, a wallet that signs
  with the signature of \<open>demoProof\<close>, and a caller with the default policy.
\<close>

definition demoChallenge :: X402Headers where
  "demoChallenge =
     \<lparr>price = ''50000'', headerPriceUsd = 5 / 100,
      headerToken = ''0x036cbd53842c5426634e7929541ec2318f3dcf7e'',
      seller = ''0x8765432109fedcba8765432109fedcba87654321'',
      headerChainId = 84532, headerExpiry = 2000000000, headerNonce = ''nonce_abc123'',
      headerDescription = None, headerSchemes = None\<rparr>"

definition demoWallet :: WalletAdapter where
  "demoWallet =
     \<lparr>getAddress = Inr ''0x00000000000000000000000000000000000test'',
      signPayment = (\<lambda>params. Inr ''0x5d1c2a'')\<rparr>"

definition demoOptions :: X402FetchOptions where
  "demoOptions =
     \<lparr>policy = DEFAULT_POLICY, wallet = demoWallet, optionsCallerId = ''agent-1'',
      autoPay = None, onPaymentRequired = False, onPaymentMade = False,
      onPolicyBlocked = False, maxRetries = None\<rparr>"

text \<open>The same caller with a per-call cap of one cent, and with automatic payment off.\<close>

definition strictOptions :: X402FetchOptions where
  "strictOptions = demoOptions\<lparr>policy := DEFAULT_POLICY\<lparr>perCallCapUsd := 1 / 100\<rparr>\<rparr>"

definition manualOptions :: X402FetchOptions where
  "manualOptions = demoOptions\<lparr>autoPay := Some False\<rparr>"

text \<open>The same caller allowing two paid requests.\<close>

definition patientOptions :: X402FetchOptions where
  "patientOptions = demoOptions\<lparr>maxRetries := Some 2\<rparr>"

definition demoUrl :: URL where
  "demoUrl =
     \<lparr>href = ''https://api.example.com/tool/extract'', pathTail = ''tool/extract'',
      hostname = ''api.example.com''\<rparr>"

definition challengeResponse :: Response where
  "challengeResponse =
     \<lparr>status = 402, statusText = ''Payment Required'', headers = [], body = ''{}''\<rparr>"

definition serverErrorResponse :: Response where
  "serverErrorResponse =
     \<lparr>status = 500, statusText = ''Internal Server Error'', headers = [], body = []\<rparr>"

definition paidResponse :: Response where
  "paidResponse =
     \<lparr>status = 200, statusText = ''OK'', headers = [(''X-RECEIPT-ID'', ''rcpt_xyz789'')],
      body = ''{}''\<rparr>"

text \<open>A challenge is read off a response with status 402.\<close>

definition demoParse402 :: "Response \<Rightarrow> X402Headers option" where
  "demoParse402 response = (if status response = 402 then Some demoChallenge else None)"

text \<open>
  Two networks. Both answer the first request with the challenge; one answers the paid
  request with status 500, the other fails once and then answers with status 200.
\<close>

definition failingNetwork :: network where
  "failingNetwork n paymentHeader =
     (if n = 0 then Inr challengeResponse else Inr serverErrorResponse)"

definition flakyNetwork :: network where
  "flakyNetwork n paymentHeader =
     (if n = 0 then Inr challengeResponse
      else if n = 1 then Inl (Thrown ''fetch failed'')
      else Inr paidResponse)"

definition demoClientEnv :: ClientEnv where
  "demoClientEnv =
     \<lparr>clientNow = 1700000000000, decisionRandom = ''d1e2c3i4'', paymentRandom = ''p5a6y7m8''\<rparr>"

definition emptyStorage :: InMemorySpendStorage where
  "emptyStorage = \<lparr>contexts = (\<lambda>callerId_v. None), payments = [], decisions = []\<rparr>"

section \<open>The rule loop\<close>

lemma take_Suc_takeWhile:
  "take (Suc (length (takeWhile P xs))) xs = takeWhile P xs @ take 1 (dropWhile P xs)"
  by (induction xs) auto

text \<open>A rule that passes is followed by the next one; one that fails ends a short run.\<close>

lemma run_rules_pass:
  assumes "rule p r c = Inr t" and "passed t"
  shows "run_rules (rule # rest) full p r c (tr, al, fr)
           = run_rules rest full p r c (tr @ [t], al, fr)"
  using assms by (simp add: Let_def)

lemma run_rules_fail_short:
  assumes "rule p r c = Inr t" and "\<not> passed t"
  shows "run_rules (rule # rest) False p r c (tr, al, fr)
           = Inr (tr @ [t], False, (case fr of None \<Rightarrow> Some t | Some g \<Rightarrow> Some g))"
  using assms by (simp add: Let_def)

lemma run_rules_raise:
  assumes "rule p r c = Inl e"
  shows "run_rules (rule # rest) full p r c (tr, al, fr) = Inl e"
  using assms by simp

text \<open>
  A short run in which some rule of a first part of the list fails, all rules of the part
  returning, does not reach the rest of the list.
\<close>

lemma run_rules_short_prefix:
  assumes "ruleResults rs p r c = map Inr vs" and "\<not> list_all passed vs"
  shows "run_rules (rs @ rest) False p r c (tr, al, fr) =
     Inr (tr @ prefixToFirstFailure vs, False,
          (case fr of None \<Rightarrow> firstFailure vs | Some g \<Rightarrow> Some g))"
  using assms
proof (induction rs arbitrary: vs tr al fr)
  case Nil
  then show ?case by (simp add: ruleResults_def)
next
  case (Cons rule rs)
  from Cons.prems(1) obtain v vs' where vs: "vs = v # vs'" and v: "rule p r c = Inr v"
    and rest: "ruleResults rs p r c = map Inr vs'"
    by (auto simp add: ruleResults_def)
  show ?case
  proof (cases "passed v")
    case True
    then have "\<not> list_all passed vs'" using Cons.prems(2) vs by simp
    from Cons.IH [OF rest this, of "tr @ [v]" al fr] True v
    show ?thesis
      by (simp add: vs prefixToFirstFailure_def firstFailure_def Let_def
          split: option.splits)
  next
    case False
    then show ?thesis
      using v
      by (simp add: vs prefixToFirstFailure_def firstFailure_def Let_def
          split: option.splits)
  qed
qed

lemma run_rules_short:
  assumes "ruleResults rs p r c = map Inr vs"
  shows "run_rules rs False p r c (tr, al, fr) =
     Inr (tr @ prefixToFirstFailure vs,
          al \<and> list_all passed vs,
          (case firstFailure vs of
             None \<Rightarrow> fr
           | Some f \<Rightarrow> (case fr of None \<Rightarrow> Some f | Some g \<Rightarrow> Some g)))"
  using assms
proof (induction rs arbitrary: vs tr al fr)
  case Nil
  then show ?case
    by (simp add: ruleResults_def prefixToFirstFailure_def firstFailure_def)
next
  case (Cons rule rs)
  from Cons.prems obtain v vs' where vs: "vs = v # vs'" and v: "rule p r c = Inr v"
    and rest: "ruleResults rs p r c = map Inr vs'"
    by (auto simp add: ruleResults_def)
  show ?case
  proof (cases "passed v")
    case True
    then show ?thesis
      using Cons.IH [OF rest, of "tr @ [v]" al fr] v
      by (simp add: vs prefixToFirstFailure_def firstFailure_def Let_def)
  next
    case False
    then show ?thesis
      using v by (simp add: vs prefixToFirstFailure_def firstFailure_def Let_def)
  qed
qed

lemma run_rules_full:
  assumes "ruleResults rs p r c = map Inr vs"
  shows "run_rules rs True p r c (tr, al, fr) =
     Inr (tr @ vs,
          al \<and> list_all passed vs,
          (case fr of Some g \<Rightarrow> Some g | None \<Rightarrow> firstFailure vs))"
  using assms
proof (induction rs arbitrary: vs tr al fr)
  case Nil
  then show ?case by (simp add: ruleResults_def firstFailure_def split: option.splits)
next
  case (Cons rule rs)
  from Cons.prems obtain v vs' where vs: "vs = v # vs'" and v: "rule p r c = Inr v"
    and rest: "ruleResults rs p r c = map Inr vs'"
    by (auto simp add: ruleResults_def)
  show ?case
  proof (cases "passed v")
    case True
    then show ?thesis
      using Cons.IH [OF rest, of "tr @ [v]" al fr] v
      by (simp add: vs firstFailure_def Let_def split: option.splits)
  next
    case False
    then show ?thesis
      using Cons.IH [OF rest, of "tr @ [v]" False
                        "Some (case fr of None \<Rightarrow> v | Some f \<Rightarrow> f)"] v
      by (auto simp add: vs firstFailure_def Let_def split: option.splits)
  qed
qed

text \<open>The prefix is a prefix, it is everything when no rule fails, and otherwise it ends
  with the first failing verdict.\<close>

lemma prefixToFirstFailure_all:
  "list_all passed res \<Longrightarrow> prefixToFirstFailure res = res"
  by (induction res) (auto simp add: prefixToFirstFailure_def)

lemma prefixToFirstFailure_last:
  "firstFailure res = Some f \<Longrightarrow>
     prefixToFirstFailure res = takeWhile passed res @ [f]"
  by (induction res) (auto simp add: prefixToFirstFailure_def firstFailure_def)

lemma allow_no_failure:
  "list_all passed res = (\<not> list_ex (\<lambda>t. \<not> passed t) res)"
  by (induction res) auto

section \<open>The default rules\<close>

text \<open>
  Seven of the default rules return on every input; the per-call rule returns unless
  the endpoint names an inherited property of the table of caps, and raises when it does.
\<close>

lemma rule_returns:
  "policyEnabledRule p r c = Inr (projr (policyEnabledRule p r c))"
  "toolDenylistRule p r c = Inr (projr (toolDenylistRule p r c))"
  "domainDenylistRule p r c = Inr (projr (domainDenylistRule p r c))"
  "toolAllowlistRule p r c = Inr (projr (toolAllowlistRule p r c))"
  "domainAllowlistRule p r c = Inr (projr (domainAllowlistRule p r c))"
  "dailyCapRule p r c = Inr (projr (dailyCapRule p r c))"
  "weeklyCapRule p r c = Inr (projr (weeklyCapRule p r c))"
  by (simp_all add: policyEnabledRule_def toolDenylistRule_def domainDenylistRule_def
      toolAllowlistRule_def domainAllowlistRule_def dailyCapRule_def weeklyCapRule_def)

lemma effectivePerCallCap_cases:
  "effectivePerCallCap p r = InheritedCap \<longleftrightarrow> inheritedCap p r"
  by (auto simp add: effectivePerCallCap_def endpointCap_def inheritedCap_def
      split: option.splits)

lemma perCallCapRule_raises:
  "inheritedCap p r \<Longrightarrow> perCallCapRule p r c = Inl TypeError"
  using effectivePerCallCap_cases [of p r] by (simp add: perCallCapRule_def)

lemma perCallCapRule_returns:
  "\<not> inheritedCap p r \<Longrightarrow> perCallCapRule p r c = Inr (projr (perCallCapRule p r c))"
  using effectivePerCallCap_cases [of p r]
  by (cases "effectivePerCallCap p r") (simp_all add: perCallCapRule_def Let_def)

lemma all_results:
  assumes "\<not> inheritedCap p r"
  shows "ruleResults ALL_RULES p r c = map Inr (verdicts ALL_RULES p r c)"
  using perCallCapRule_returns [OF assms, of c] rule_returns [of p r c]
  by (simp add: verdicts_def ruleResults_def ALL_RULES_def)

lemma all_verdicts:
  "verdicts ALL_RULES p r c =
     [projr (policyEnabledRule p r c), projr (toolDenylistRule p r c),
      projr (domainDenylistRule p r c), projr (toolAllowlistRule p r c),
      projr (domainAllowlistRule p r c), projr (perCallCapRule p r c),
      projr (dailyCapRule p r c), projr (weeklyCapRule p r c)]"
  by (simp add: verdicts_def ruleResults_def ALL_RULES_def)

lemma passed_policyEnabledRule: "passed (projr (policyEnabledRule p r c)) = enabled p"
  by (simp add: policyEnabledRule_def)

lemma passed_toolDenylistRule: "passed (projr (toolDenylistRule p r c)) = (\<not> toolDenied p r)"
  by (auto simp add: toolDenylistRule_def toolDenied_def unconfigured_def Let_def
      split: option.splits)

lemma passed_domainDenylistRule:
  "passed (projr (domainDenylistRule p r c)) = (\<not> domainListed (denyDomains p) r)"
  by (auto simp add: domainDenylistRule_def domainListed_def unconfigured_def Let_def
      split: option.splits)

lemma passed_toolAllowlistRule:
  "passed (projr (toolAllowlistRule p r c)) = (allowTools p = [] \<or> toolAllowed p r)"
  by (auto simp add: toolAllowlistRule_def toolAllowed_def Let_def)

lemma passed_domainAllowlistRule:
  "passed (projr (domainAllowlistRule p r c)) =
     (unconfigured (allowDomains p) \<or> domainListed (allowDomains p) r)"
  by (auto simp add: domainAllowlistRule_def domainListed_def unconfigured_def Let_def
      split: option.splits)

lemma passed_perCallCapRule:
  "effectivePerCallCap p r = NumberCap cap \<Longrightarrow>
     passed (projr (perCallCapRule p r c)) = (priceUsd r \<le> cap)"
  by (simp add: perCallCapRule_def Let_def)

lemma passed_dailyCapRule:
  "passed (projr (dailyCapRule p r c)) = (dailySpentUsd c + priceUsd r \<le> dailyCapUsd p)"
  by (simp add: dailyCapRule_def Let_def)

lemma passed_weeklyCapRule:
  "passed (projr (weeklyCapRule p r c)) =
     (case weeklyCapUsd p of
        None \<Rightarrow> True
      | Some cap \<Rightarrow> cap = 0 \<or> weeklySpentUsd c + priceUsd r \<le> cap)"
  by (auto simp add: weeklyCapRule_def truthy_num_def Let_def split: option.splits)

lemmas passed_rule =
  passed_policyEnabledRule passed_toolDenylistRule passed_domainDenylistRule
  passed_toolAllowlistRule passed_domainAllowlistRule passed_dailyCapRule
  passed_weeklyCapRule

lemma ruleId_rule:
  "ruleId (projr (policyEnabledRule p r c)) = ''policy_enabled''"
  "ruleId (projr (toolDenylistRule p r c)) = ''tool_denylist''"
  "ruleId (projr (domainDenylistRule p r c)) = ''domain_denylist''"
  "ruleId (projr (toolAllowlistRule p r c)) = ''tool_allowlist''"
  "ruleId (projr (domainAllowlistRule p r c)) = ''domain_allowlist''"
  "ruleId (projr (dailyCapRule p r c)) = ''daily_cap''"
  "ruleId (projr (weeklyCapRule p r c)) = ''weekly_cap''"
  by (simp_all add: policyEnabledRule_def toolDenylistRule_def domainDenylistRule_def
      toolAllowlistRule_def domainAllowlistRule_def dailyCapRule_def
      weeklyCapRule_def Let_def)

section \<open>The decision of an evaluation with the default rules\<close>

text \<open>The decision that is built from the outcome of the loop.\<close>

lemma evaluatePolicy_returned:
  assumes "run_rules (case rules opts of None \<Rightarrow> ALL_RULES | Some rs \<Rightarrow> rs)
             (case fullTrace opts of None \<Rightarrow> False | Some b \<Rightarrow> b) p r c ([], True, None)
           = Inr (tr, al, fr)"
  shows "evaluatePolicy now p r c opts =
     Inr \<lparr>allow = al,
          decisionReason = (case fr of None \<Rightarrow> ''All policy rules passed'' | Some f \<Rightarrow> reason f),
          decisionRuleId = (case fr of None \<Rightarrow> ''all_passed'' | Some f \<Rightarrow> ruleId f),
          projectedSpend = dailySpentUsd c + priceUsd r,
          currentDailySpend = dailySpentUsd c,
          currentWeeklySpend = weeklySpentUsd c,
          remainingDailyBudget = max 0 (dailyCapUsd p - (dailySpentUsd c + priceUsd r)),
          remainingWeeklyBudget =
            (if truthy_num (weeklyCapUsd p)
             then Some (max 0 (the (weeklyCapUsd p) - (weeklySpentUsd c + priceUsd r)))
             else None),
          policyId = policy_id p,
          timestamp = now,
          trace = tr\<rparr>"
  using assms by (simp add: evaluatePolicy_def Let_def)

lemma evaluatePolicy_raised:
  assumes "run_rules (case rules opts of None \<Rightarrow> ALL_RULES | Some rs \<Rightarrow> rs)
             (case fullTrace opts of None \<Rightarrow> False | Some b \<Rightarrow> b) p r c ([], True, None)
           = Inl e"
  shows "evaluatePolicy now p r c opts = Inl e"
  using assms by (simp add: evaluatePolicy_def Let_def)

lemma fullTrace_cases:
  "fullTrace opts = Some True \<or> fullTrace opts = None \<or> fullTrace opts = Some False"
  by (cases "fullTrace opts") auto

text \<open>
  When the per-call rule returns, every evaluation with the default rules returns a
  decision: in short-circuit mode its trace is the prefix of the eight verdicts that ends
  at the first failing one, in full-trace mode it is all eight; \<^verbatim>\<open>allow\<close> is false exactly
  when some rule fails, and \<^verbatim>\<open>reason\<close> and \<^verbatim>\<open>ruleId\<close> are those of the first failing
  verdict.
\<close>

lemma evaluatePolicy_short:
  assumes "fullTrace opts = None \<or> fullTrace opts = Some False" and "rules opts = None"
    and "\<not> inheritedCap p r"
  shows "evaluatePolicy now p r c opts =
     Inr \<lparr>allow = list_all passed (verdicts ALL_RULES p r c),
          decisionReason = (case firstFailure (verdicts ALL_RULES p r c) of
                              None \<Rightarrow> ''All policy rules passed'' | Some f \<Rightarrow> reason f),
          decisionRuleId = (case firstFailure (verdicts ALL_RULES p r c) of
                              None \<Rightarrow> ''all_passed'' | Some f \<Rightarrow> ruleId f),
          projectedSpend = dailySpentUsd c + priceUsd r,
          currentDailySpend = dailySpentUsd c,
          currentWeeklySpend = weeklySpentUsd c,
          remainingDailyBudget = max 0 (dailyCapUsd p - (dailySpentUsd c + priceUsd r)),
          remainingWeeklyBudget =
            (if truthy_num (weeklyCapUsd p)
             then Some (max 0 (the (weeklyCapUsd p) - (weeklySpentUsd c + priceUsd r)))
             else None),
          policyId = policy_id p,
          timestamp = now,
          trace = prefixToFirstFailure (verdicts ALL_RULES p r c)\<rparr>"
proof -
  have run: "run_rules ALL_RULES False p r c ([], True, None)
        = Inr (prefixToFirstFailure (verdicts ALL_RULES p r c),
               list_all passed (verdicts ALL_RULES p r c),
               firstFailure (verdicts ALL_RULES p r c))"
    using run_rules_short [OF all_results [OF assms(3)], where tr = "[]" and al = True
        and fr = None]
    by (simp split: option.splits)
  show ?thesis
    using assms(1,2) run
    by (intro evaluatePolicy_returned [THEN trans]) (auto split: option.splits)
qed

lemma evaluatePolicy_full:
  assumes "fullTrace opts = Some True" and "rules opts = None" and "\<not> inheritedCap p r"
  shows "evaluatePolicy now p r c opts =
     Inr \<lparr>allow = list_all passed (verdicts ALL_RULES p r c),
          decisionReason = (case firstFailure (verdicts ALL_RULES p r c) of
                              None \<Rightarrow> ''All policy rules passed'' | Some f \<Rightarrow> reason f),
          decisionRuleId = (case firstFailure (verdicts ALL_RULES p r c) of
                              None \<Rightarrow> ''all_passed'' | Some f \<Rightarrow> ruleId f),
          projectedSpend = dailySpentUsd c + priceUsd r,
          currentDailySpend = dailySpentUsd c,
          currentWeeklySpend = weeklySpentUsd c,
          remainingDailyBudget = max 0 (dailyCapUsd p - (dailySpentUsd c + priceUsd r)),
          remainingWeeklyBudget =
            (if truthy_num (weeklyCapUsd p)
             then Some (max 0 (the (weeklyCapUsd p) - (weeklySpentUsd c + priceUsd r)))
             else None),
          policyId = policy_id p,
          timestamp = now,
          trace = verdicts ALL_RULES p r c\<rparr>"
proof -
  have run: "run_rules ALL_RULES True p r c ([], True, None)
        = Inr (verdicts ALL_RULES p r c,
               list_all passed (verdicts ALL_RULES p r c),
               firstFailure (verdicts ALL_RULES p r c))"
    using run_rules_full [OF all_results [OF assms(3)], where tr = "[]" and al = True
        and fr = None]
    by simp
  show ?thesis
    using assms(1,2) run
    by (intro evaluatePolicy_returned [THEN trans]) (auto split: option.splits)
qed

lemma trace_and_verdict_when_rules_return:
  assumes "\<not> inheritedCap p r"
  shows "length (verdicts ALL_RULES p r c) = 8
   \<and> map_sum id trace (evaluatePolicy now p r c \<lparr>rules = None, fullTrace = None\<rparr>)
       = Inr (prefixToFirstFailure (verdicts ALL_RULES p r c))
   \<and> map_sum id trace (evaluatePolicy now p r c \<lparr>rules = None, fullTrace = Some False\<rparr>)
       = Inr (prefixToFirstFailure (verdicts ALL_RULES p r c))
   \<and> map_sum id trace (evaluatePolicy now p r c \<lparr>rules = None, fullTrace = Some True\<rparr>)
       = Inr (verdicts ALL_RULES p r c)
   \<and> map_sum id allow (evaluatePolicy now p r c \<lparr>rules = None, fullTrace = mode\<rparr>)
       = Inr (\<not> list_ex (\<lambda>t. \<not> passed t) (verdicts ALL_RULES p r c))
   \<and> map_sum id decisionReason (evaluatePolicy now p r c \<lparr>rules = None, fullTrace = mode\<rparr>)
       = Inr (case firstFailure (verdicts ALL_RULES p r c) of
                None \<Rightarrow> ''All policy rules passed'' | Some f \<Rightarrow> reason f)
   \<and> map_sum id decisionRuleId (evaluatePolicy now p r c \<lparr>rules = None, fullTrace = mode\<rparr>)
       = Inr (case firstFailure (verdicts ALL_RULES p r c) of
                None \<Rightarrow> ''all_passed'' | Some f \<Rightarrow> ruleId f)"
proof -
  have len: "length (verdicts ALL_RULES p r c) = 8"
    by (simp add: all_verdicts)
  have t1: "map_sum id trace (evaluatePolicy now p r c \<lparr>rules = None, fullTrace = None\<rparr>)
              = Inr (prefixToFirstFailure (verdicts ALL_RULES p r c))"
    using assms by (simp add: evaluatePolicy_short)
  have t2: "map_sum id trace (evaluatePolicy now p r c \<lparr>rules = None, fullTrace = Some False\<rparr>)
              = Inr (prefixToFirstFailure (verdicts ALL_RULES p r c))"
    using assms by (simp add: evaluatePolicy_short)
  have t3: "map_sum id trace (evaluatePolicy now p r c \<lparr>rules = None, fullTrace = Some True\<rparr>)
              = Inr (verdicts ALL_RULES p r c)"
    using assms by (simp add: evaluatePolicy_full)
  have a: "map_sum id allow (evaluatePolicy now p r c \<lparr>rules = None, fullTrace = mode\<rparr>)
             = Inr (\<not> list_ex (\<lambda>t. \<not> passed t) (verdicts ALL_RULES p r c))"
    using assms fullTrace_cases [of "\<lparr>rules = None, fullTrace = mode\<rparr>"]
    by (auto simp add: evaluatePolicy_short evaluatePolicy_full allow_no_failure)
  have rs: "map_sum id decisionReason
              (evaluatePolicy now p r c \<lparr>rules = None, fullTrace = mode\<rparr>)
       = Inr (case firstFailure (verdicts ALL_RULES p r c) of
                None \<Rightarrow> ''All policy rules passed'' | Some f \<Rightarrow> reason f)"
    using assms fullTrace_cases [of "\<lparr>rules = None, fullTrace = mode\<rparr>"]
    by (auto simp add: evaluatePolicy_short evaluatePolicy_full)
  have ri: "map_sum id decisionRuleId
              (evaluatePolicy now p r c \<lparr>rules = None, fullTrace = mode\<rparr>)
       = Inr (case firstFailure (verdicts ALL_RULES p r c) of
                None \<Rightarrow> ''all_passed'' | Some f \<Rightarrow> ruleId f)"
    using assms fullTrace_cases [of "\<lparr>rules = None, fullTrace = mode\<rparr>"]
    by (auto simp add: evaluatePolicy_short evaluatePolicy_full)
  from len t1 t2 t3 a rs ri show ?thesis by blast
qed

lemma evaluatePolicy_allow:
  assumes "rules opts = None" and "\<not> inheritedCap p r"
  shows "map_sum id allow (evaluatePolicy now p r c opts)
           = Inr (list_all passed (verdicts ALL_RULES p r c))"
  using fullTrace_cases [of opts] assms
  by (auto simp add: evaluatePolicy_full evaluatePolicy_short)

lemma evaluatePolicy_ruleId:
  assumes "rules opts = None" and "\<not> inheritedCap p r"
  shows "map_sum id decisionRuleId (evaluatePolicy now p r c opts) =
           Inr (case firstFailure (verdicts ALL_RULES p r c) of
                  None \<Rightarrow> ''all_passed'' | Some f \<Rightarrow> ruleId f)"
  using fullTrace_cases [of opts] assms
  by (auto simp add: evaluatePolicy_full evaluatePolicy_short)

lemma evaluatePolicy_returns:
  assumes "rules opts = None" and "\<not> inheritedCap p r"
  shows "\<exists>d. evaluatePolicy now p r c opts = Inr d
             \<and> allow d = list_all passed (verdicts ALL_RULES p r c)
             \<and> decisionRuleId d = (case firstFailure (verdicts ALL_RULES p r c) of
                                     None \<Rightarrow> ''all_passed'' | Some f \<Rightarrow> ruleId f)
             \<and> decisionReason d = (case firstFailure (verdicts ALL_RULES p r c) of
                                     None \<Rightarrow> ''All policy rules passed'' | Some f \<Rightarrow> reason f)"
  using fullTrace_cases [of opts] assms
  by (auto simp add: evaluatePolicy_full evaluatePolicy_short)

text \<open>
  A short run that meets a failing rule before the per-call rule returns a decision
  whatever the endpoint is named.
\<close>

lemma ALL_RULES_split:
  "ALL_RULES = [policyEnabledRule, toolDenylistRule, domainDenylistRule]
                 @ [toolAllowlistRule, domainAllowlistRule, perCallCapRule, dailyCapRule,
                    weeklyCapRule]"
  by (simp add: ALL_RULES_def)

lemma first_three_results:
  "ruleResults [policyEnabledRule, toolDenylistRule, domainDenylistRule] p r c =
     map Inr [projr (policyEnabledRule p r c), projr (toolDenylistRule p r c),
              projr (domainDenylistRule p r c)]"
  using rule_returns(1-3) [of p r c] by (simp add: ruleResults_def)

lemma evaluatePolicy_short_denied:
  assumes "fullTrace opts = None \<or> fullTrace opts = Some False" and "rules opts = None"
    and "enabled p" and "toolDenied p r \<or> domainListed (denyDomains p) r"
  shows "\<exists>d. evaluatePolicy now p r c opts = Inr d \<and> allow d = False
             \<and> decisionRuleId d
                 = (if toolDenied p r then ''tool_denylist'' else ''domain_denylist'')"
proof -
  let ?vs = "[projr (policyEnabledRule p r c), projr (toolDenylistRule p r c),
              projr (domainDenylistRule p r c)]"
  have fails: "\<not> list_all passed ?vs"
    using assms(4) by (auto simp add: passed_rule)
  have first: "firstFailure ?vs
                 = Some (if toolDenied p r then projr (toolDenylistRule p r c)
                         else projr (domainDenylistRule p r c))"
    using assms(3,4) by (auto simp add: firstFailure_def passed_rule)
  have run: "run_rules ALL_RULES False p r c ([], True, None)
               = Inr (prefixToFirstFailure ?vs, False, firstFailure ?vs)"
    using run_rules_short_prefix [OF first_three_results fails, where tr = "[]"
        and al = True and fr = None]
    by (simp add: ALL_RULES_split)
  have "evaluatePolicy now p r c opts =
     Inr \<lparr>allow = False,
          decisionReason = (case firstFailure ?vs of
                              None \<Rightarrow> ''All policy rules passed'' | Some f \<Rightarrow> reason f),
          decisionRuleId = (case firstFailure ?vs of
                              None \<Rightarrow> ''all_passed'' | Some f \<Rightarrow> ruleId f),
          projectedSpend = dailySpentUsd c + priceUsd r,
          currentDailySpend = dailySpentUsd c,
          currentWeeklySpend = weeklySpentUsd c,
          remainingDailyBudget = max 0 (dailyCapUsd p - (dailySpentUsd c + priceUsd r)),
          remainingWeeklyBudget =
            (if truthy_num (weeklyCapUsd p)
             then Some (max 0 (the (weeklyCapUsd p) - (weeklySpentUsd c + priceUsd r)))
             else None),
          policyId = policy_id p,
          timestamp = now,
          trace = prefixToFirstFailure ?vs\<rparr>"
    using assms(1,2) run
    by (intro evaluatePolicy_returned [THEN trans]) (auto split: option.splits)
  then show ?thesis
    by (simp add: first ruleId_rule)
qed

text \<open>What an allowed payment satisfies: the daily cap, the per-call cap in force, and
  a weekly cap that is present and not zero.\<close>

lemma allow_implies_caps:
  assumes "evaluatePolicy now p r c opts = Inr d" and "allow d" and "rules opts = None"
    and "effectivePerCallCap p r = NumberCap perCall"
  shows "dailySpentUsd c + priceUsd r \<le> dailyCapUsd p"
    and "priceUsd r \<le> perCall"
    and "weeklyCapUsd p = Some cap \<Longrightarrow> cap \<noteq> 0 \<Longrightarrow> weeklySpentUsd c + priceUsd r \<le> cap"
proof -
  have ni: "\<not> inheritedCap p r"
    using assms(4) effectivePerCallCap_cases [of p r] by simp
  have all: "list_all passed (verdicts ALL_RULES p r c)"
    using evaluatePolicy_allow [OF assms(3) ni, where now = now and c = c] assms(1,2)
    by simp
  show "dailySpentUsd c + priceUsd r \<le> dailyCapUsd p"
    using all by (simp add: all_verdicts passed_dailyCapRule)
  show "priceUsd r \<le> perCall"
    using all assms(4) by (simp add: all_verdicts passed_perCallCapRule)
  show "weeklySpentUsd c + priceUsd r \<le> cap" if "weeklyCapUsd p = Some cap" "cap \<noteq> 0"
    using all that by (simp add: all_verdicts passed_weeklyCapRule)
qed

section \<open>Claims about the policy engine\<close>

lemma example_caps:
  "\<not> inheritedCap DEFAULT_POLICY extractRequest"
  "\<not> inheritedCap zeroWeeklyPolicy extractRequest"
  "\<not> inheritedCap toolBothPolicy extractRequest"
  "\<not> inheritedCap domainBothPolicy extractRequest"
  "\<not> inheritedCap domainBothToolDeniedPolicy extractRequest"
  "effectivePerCallCap DEFAULT_POLICY extractRequest = NumberCap (1 / 10)"
  "effectivePerCallCap zeroWeeklyPolicy extractRequest = NumberCap (1 / 10)"
  "inheritedCap DEFAULT_POLICY constructorRequest"
  by (simp_all add: inheritedCap_def effectivePerCallCap_def endpointCap_def
      Object_prototype_def DEFAULT_POLICY_def zeroWeeklyPolicy_def toolBothPolicy_def
      domainBothPolicy_def domainBothToolDeniedPolicy_def extractRequest_def
      constructorRequest_def)

text \<open>
  Claim C5, at an input where the code departs from it. The policy is the default
  policy, whose table of endpoint caps is the empty object; the request is for five
  cents at an endpoint named \<^verbatim>\<open>constructor\<close>; the caller has spent nothing. The five
  rules before the per-call rule pass, the per-call rule reads the function that the
  table inherits under that name and raises \<^verbatim>\<open>TypeError\<close>, and the evaluation returns
  no decision, in short-circuit mode and in full-trace mode: there is no trace, no
  \<^verbatim>\<open>allow\<close>, no \<^verbatim>\<open>reason\<close> and no \<^verbatim>\<open>ruleId\<close>.
\<close>

theorem evaluatePolicy_raises_on_inherited_endpoint_name:
  "endpointCaps DEFAULT_POLICY = Some []
   \<and> endpoint constructorRequest = ''constructor''
   \<and> perCallCapRule DEFAULT_POLICY constructorRequest newCallerContext = Inl TypeError
   \<and> evaluatePolicy 0 DEFAULT_POLICY constructorRequest newCallerContext
        \<lparr>rules = None, fullTrace = None\<rparr> = Inl TypeError
   \<and> evaluatePolicy 0 DEFAULT_POLICY constructorRequest newCallerContext
        \<lparr>rules = None, fullTrace = Some False\<rparr> = Inl TypeError
   \<and> evaluatePolicy 0 DEFAULT_POLICY constructorRequest newCallerContext
        \<lparr>rules = None, fullTrace = Some True\<rparr> = Inl TypeError"
proof -
  let ?p = DEFAULT_POLICY and ?r = constructorRequest and ?c = newCallerContext
  have caps: "endpointCaps ?p = Some []" by (simp add: DEFAULT_POLICY_def)
  have name: "endpoint ?r = ''constructor''"
    by (simp add: constructorRequest_def extractRequest_def)
  have raise: "perCallCapRule ?p ?r ?c = Inl TypeError"
    by (rule perCallCapRule_raises) (rule example_caps)
  have before:
    "passed (projr (policyEnabledRule ?p ?r ?c))" "passed (projr (toolDenylistRule ?p ?r ?c))"
    "passed (projr (domainDenylistRule ?p ?r ?c))" "passed (projr (toolAllowlistRule ?p ?r ?c))"
    "passed (projr (domainAllowlistRule ?p ?r ?c))"
    by (simp_all add: passed_rule DEFAULT_POLICY_def toolDenied_def domainListed_def
        unconfigured_def)
  obtain t1 where r1: "policyEnabledRule ?p ?r ?c = Inr t1" "passed t1"
    using rule_returns(1) [of ?p ?r ?c] before(1) by blast
  obtain t2 where r2: "toolDenylistRule ?p ?r ?c = Inr t2" "passed t2"
    using rule_returns(2) [of ?p ?r ?c] before(2) by blast
  obtain t3 where r3: "domainDenylistRule ?p ?r ?c = Inr t3" "passed t3"
    using rule_returns(3) [of ?p ?r ?c] before(3) by blast
  obtain t4 where r4: "toolAllowlistRule ?p ?r ?c = Inr t4" "passed t4"
    using rule_returns(4) [of ?p ?r ?c] before(4) by blast
  obtain t5 where r5: "domainAllowlistRule ?p ?r ?c = Inr t5" "passed t5"
    using rule_returns(5) [of ?p ?r ?c] before(5) by blast
  have run: "run_rules ALL_RULES full ?p ?r ?c ([], True, None) = Inl TypeError" for full
    by (simp add: ALL_RULES_def r1 r2 r3 r4 r5 raise Let_def)
  have e1: "evaluatePolicy 0 ?p ?r ?c \<lparr>rules = None, fullTrace = None\<rparr> = Inl TypeError"
    by (rule evaluatePolicy_raised) (simp add: run)
  have e2: "evaluatePolicy 0 ?p ?r ?c \<lparr>rules = None, fullTrace = Some False\<rparr> = Inl TypeError"
    by (rule evaluatePolicy_raised) (simp add: run)
  have e3: "evaluatePolicy 0 ?p ?r ?c \<lparr>rules = None, fullTrace = Some True\<rparr> = Inl TypeError"
    by (rule evaluatePolicy_raised) (simp add: run)
  from caps name raise e1 e2 e3 show ?thesis by blast
qed

text \<open>
  Claim C4. Two evaluations of the same policy, request, context and options either
  raise the same error or return decisions that agree on \<^verbatim>\<open>allow\<close>, \<^verbatim>\<open>reason\<close>,
  \<^verbatim>\<open>ruleId\<close> and the trace, whatever the clock shows at each; the decisions agree on
  every field once the timestamps are set equal.
\<close>

theorem evaluatePolicy_deterministic:
  "(\<exists>e. evaluatePolicy now1 p r c opts = Inl e \<and> evaluatePolicy now2 p r c opts = Inl e)
   \<or> (\<exists>d1 d2. evaluatePolicy now1 p r c opts = Inr d1
              \<and> evaluatePolicy now2 p r c opts = Inr d2
              \<and> allow d1 = allow d2
              \<and> decisionReason d1 = decisionReason d2
              \<and> decisionRuleId d1 = decisionRuleId d2
              \<and> trace d1 = trace d2
              \<and> d1\<lparr>timestamp := t\<rparr> = d2\<lparr>timestamp := t\<rparr>)"
proof (cases "run_rules (case rules opts of None \<Rightarrow> ALL_RULES | Some rs \<Rightarrow> rs)
                (case fullTrace opts of None \<Rightarrow> False | Some b \<Rightarrow> b) p r c ([], True, None)")
  case (Inl e)
  have "evaluatePolicy now1 p r c opts = Inl e" "evaluatePolicy now2 p r c opts = Inl e"
    using Inl by (rule evaluatePolicy_raised)+
  then show ?thesis by blast
next
  case (Inr st)
  obtain tr al fr where st: "st = (tr, al, fr)" by (cases st) auto
  have "\<exists>d1. evaluatePolicy now1 p r c opts = Inr d1
             \<and> evaluatePolicy now2 p r c opts = Inr (d1\<lparr>timestamp := now2\<rparr>)"
    using Inr [unfolded st]
    by (simp add: evaluatePolicy_returned [where now = now1]
        evaluatePolicy_returned [where now = now2])
  then show ?thesis by auto
qed

text \<open>
  Claim C1, at the input where the code departs from it. The policy declares a weekly
  cap of zero dollars; a request for five cents from a caller who has spent nothing is
  allowed, the weekly rule reporting that no weekly cap is configured, although the
  weekly spend with this payment exceeds the cap.
\<close>

theorem weekly_cap_of_zero_is_not_enforced:
  "weeklyCapUsd zeroWeeklyPolicy = Some 0
   \<and> map_sum id allow
       (evaluatePolicy 0 zeroWeeklyPolicy extractRequest newCallerContext defaultOptions)
       = Inr True
   \<and> \<not> (weeklySpentUsd newCallerContext + priceUsd extractRequest \<le> 0)
   \<and> map_sum id reason (weeklyCapRule zeroWeeklyPolicy extractRequest newCallerContext)
       = Inr ''No weekly cap configured''"
proof -
  have cap: "weeklyCapUsd zeroWeeklyPolicy = Some 0"
    by (simp add: zeroWeeklyPolicy_def)
  have "passed (projr (perCallCapRule zeroWeeklyPolicy extractRequest newCallerContext))
          = (priceUsd extractRequest \<le> 1 / 10)"
    by (rule passed_perCallCapRule [OF example_caps(7)])
  then have perCall: "passed (projr (perCallCapRule zeroWeeklyPolicy extractRequest
                                       newCallerContext))"
    by (simp add: extractRequest_def)
  have others:
    "passed (projr (policyEnabledRule zeroWeeklyPolicy extractRequest newCallerContext))"
    "passed (projr (toolDenylistRule zeroWeeklyPolicy extractRequest newCallerContext))"
    "passed (projr (domainDenylistRule zeroWeeklyPolicy extractRequest newCallerContext))"
    "passed (projr (toolAllowlistRule zeroWeeklyPolicy extractRequest newCallerContext))"
    "passed (projr (domainAllowlistRule zeroWeeklyPolicy extractRequest newCallerContext))"
    "passed (projr (dailyCapRule zeroWeeklyPolicy extractRequest newCallerContext))"
    "passed (projr (weeklyCapRule zeroWeeklyPolicy extractRequest newCallerContext))"
    by (simp_all add: passed_rule zeroWeeklyPolicy_def DEFAULT_POLICY_def extractRequest_def
        newCallerContext_def toolDenied_def domainListed_def unconfigured_def)
  have all: "list_all passed (verdicts ALL_RULES zeroWeeklyPolicy extractRequest newCallerContext)"
    using perCall others by (simp add: all_verdicts)
  have allowed: "map_sum id allow
       (evaluatePolicy 0 zeroWeeklyPolicy extractRequest newCallerContext defaultOptions)
       = Inr True"
    using all
    by (simp add: evaluatePolicy_allow example_caps defaultOptions_def)
  have over: "\<not> (weeklySpentUsd newCallerContext + priceUsd extractRequest \<le> 0)"
    by (simp add: newCallerContext_def extractRequest_def)
  have why: "map_sum id reason (weeklyCapRule zeroWeeklyPolicy extractRequest newCallerContext)
       = Inr ''No weekly cap configured''"
    by (simp add: weeklyCapRule_def truthy_num_def zeroWeeklyPolicy_def)
  from cap allowed over why show ?thesis by blast
qed

text \<open>
  Claim C3 as stated fails. The policy lists the domain \<^verbatim>\<open>example.com\<close> as allowed and
  as denied, and denies the tool of the request: the decision's \<^verbatim>\<open>ruleId\<close> is that of the
  tool denylist, not of the domain denylist.
\<close>

theorem domain_denylist_ruleId_counterexample:
  "enabled domainBothToolDeniedPolicy
   \<and> domainListed (allowDomains domainBothToolDeniedPolicy) extractRequest
   \<and> domainListed (denyDomains domainBothToolDeniedPolicy) extractRequest
   \<and> map_sum id allow
       (evaluatePolicy 0 domainBothToolDeniedPolicy extractRequest newCallerContext
          defaultOptions) = Inr False
   \<and> map_sum id decisionRuleId
       (evaluatePolicy 0 domainBothToolDeniedPolicy extractRequest newCallerContext
          defaultOptions) = Inr ''tool_denylist''
   \<and> map_sum id decisionRuleId
       (evaluatePolicy 0 domainBothToolDeniedPolicy extractRequest newCallerContext
          defaultOptions) \<noteq> Inr ''domain_denylist''"
proof -
  let ?p = domainBothToolDeniedPolicy
  have e: "enabled ?p"
    by (simp add: domainBothToolDeniedPolicy_def domainBothPolicy_def DEFAULT_POLICY_def)
  have o: "fullTrace defaultOptions = None \<or> fullTrace defaultOptions = Some False"
    "rules defaultOptions = None"
    by (simp_all add: defaultOptions_def)
  have d: "domainListed (allowDomains ?p) extractRequest"
    "domainListed (denyDomains ?p) extractRequest" "toolDenied ?p extractRequest"
    by (simp_all add: domainListed_def toolDenied_def domainBothToolDeniedPolicy_def
        domainBothPolicy_def DEFAULT_POLICY_def extractRequest_def domainMatches_def
        endsWith_def)
  from evaluatePolicy_short_denied [OF o e, where r = extractRequest and now = 0
      and c = newCallerContext] d
  obtain dec where dec: "evaluatePolicy 0 ?p extractRequest newCallerContext defaultOptions
                           = Inr dec" "allow dec = False" "decisionRuleId dec = ''tool_denylist''"
    by auto
  show ?thesis
    using e d dec by simp
qed

text \<open>
  Claim C3, amended. For an enabled policy and the default rules, in short-circuit
  mode, and in full-trace mode when the endpoint of the request does not name a property
  that the table of endpoint caps inherits: a tool listed as allowed and as denied is
  blocked with \<^verbatim>\<open>ruleId\<close> \<^verbatim>\<open>tool_denylist\<close>; a domain matching an allowed and a denied
  entry is blocked, with \<^verbatim>\<open>ruleId\<close> \<^verbatim>\<open>domain_denylist\<close> unless the tool of the request is
  denied as well, in which case the tool denylist, evaluated before it, gives the
  \<^verbatim>\<open>ruleId\<close>.
\<close>

theorem denylist_precedence:
  assumes "enabled p" and "rules opts = None"
    and "fullTrace opts = Some True \<longrightarrow> \<not> inheritedCap p r"
  shows "(toolAllowed p r \<and> toolDenied p r \<longrightarrow>
            (\<exists>d. evaluatePolicy now p r c opts = Inr d \<and> allow d = False
                  \<and> decisionRuleId d = ''tool_denylist''))
         \<and> (domainListed (allowDomains p) r \<and> domainListed (denyDomains p) r \<longrightarrow>
            (\<exists>d. evaluatePolicy now p r c opts = Inr d \<and> allow d = False
                  \<and> decisionRuleId d
                      = (if toolDenied p r then ''tool_denylist'' else ''domain_denylist'')))"
proof -
  have blocked: "\<exists>d. evaluatePolicy now p r c opts = Inr d \<and> allow d = False
                   \<and> decisionRuleId d
                       = (if toolDenied p r then ''tool_denylist'' else ''domain_denylist'')"
    if denied: "toolDenied p r \<or> domainListed (denyDomains p) r"
  proof (cases "fullTrace opts = Some True")
    case False
    then have "fullTrace opts = None \<or> fullTrace opts = Some False"
      using fullTrace_cases [of opts] by blast
    then show ?thesis
      using assms(2,1) denied by (rule evaluatePolicy_short_denied)
  next
    case True
    then have ni: "\<not> inheritedCap p r" using assms(3) by simp
    show ?thesis
      using evaluatePolicy_returns [OF assms(2) ni, where now = now and c = c] assms(1)
        denied
      by (auto simp add: all_verdicts passed_rule ruleId_rule firstFailure_def)
  qed
  show ?thesis
    using blocked by auto
qed

theorem denylist_precedence_witness:
  "enabled toolBothPolicy \<and> rules defaultOptions = None
   \<and> fullTrace defaultOptions \<noteq> Some True
   \<and> toolAllowed toolBothPolicy extractRequest \<and> toolDenied toolBothPolicy extractRequest
   \<and> map_sum id allow
       (evaluatePolicy 0 toolBothPolicy extractRequest newCallerContext defaultOptions)
       = Inr False
   \<and> map_sum id decisionRuleId
       (evaluatePolicy 0 toolBothPolicy extractRequest newCallerContext defaultOptions)
       = Inr ''tool_denylist''
   \<and> enabled domainBothPolicy
   \<and> fullTrace \<lparr>rules = None, fullTrace = Some True\<rparr> = Some True
   \<and> inheritedCap domainBothPolicy extractRequest = False
   \<and> domainListed (allowDomains domainBothPolicy) extractRequest
   \<and> domainListed (denyDomains domainBothPolicy) extractRequest
   \<and> toolDenied domainBothPolicy extractRequest = False
   \<and> map_sum id allow
       (evaluatePolicy 0 domainBothPolicy extractRequest newCallerContext
          \<lparr>rules = None, fullTrace = Some True\<rparr>) = Inr False
   \<and> map_sum id decisionRuleId
       (evaluatePolicy 0 domainBothPolicy extractRequest newCallerContext
          \<lparr>rules = None, fullTrace = Some True\<rparr>) = Inr ''domain_denylist''"
proof -
  have e1: "enabled toolBothPolicy"
    by (simp add: toolBothPolicy_def DEFAULT_POLICY_def)
  have e2: "enabled domainBothPolicy"
    by (simp add: domainBothPolicy_def DEFAULT_POLICY_def)
  have o: "rules defaultOptions = None" "fullTrace defaultOptions \<noteq> Some True"
    by (simp_all add: defaultOptions_def)
  have o1: "fullTrace defaultOptions = Some True \<longrightarrow> \<not> inheritedCap toolBothPolicy extractRequest"
    by (simp add: defaultOptions_def)
  have o2: "rules \<lparr>rules = None, fullTrace = Some True\<rparr> = None"
    "fullTrace \<lparr>rules = None, fullTrace = Some True\<rparr> = Some True"
    by simp_all
  have o3: "fullTrace \<lparr>rules = None, fullTrace = Some True\<rparr> = Some True
              \<longrightarrow> \<not> inheritedCap domainBothPolicy extractRequest"
    by (simp add: example_caps)
  have t: "toolAllowed toolBothPolicy extractRequest \<and> toolDenied toolBothPolicy extractRequest"
    by (simp add: toolAllowed_def toolDenied_def toolBothPolicy_def DEFAULT_POLICY_def
        extractRequest_def)
  have d: "domainListed (allowDomains domainBothPolicy) extractRequest
           \<and> domainListed (denyDomains domainBothPolicy) extractRequest
           \<and> \<not> toolDenied domainBothPolicy extractRequest"
    by (simp add: domainListed_def toolDenied_def domainBothPolicy_def DEFAULT_POLICY_def
        extractRequest_def domainMatches_def endsWith_def)
  show ?thesis
    using e1 e2 o o2 t d example_caps(4)
      denylist_precedence [OF e1 o(1) o1, where now = 0 and c = newCallerContext]
      denylist_precedence [OF e2 o2(1) o3, where now = 0 and c = newCallerContext]
    by auto
qed

section \<open>Verification of a proof\<close>

lemma verifyPayment_result:
  assumes "verifySignatures config \<noteq> Some True"
    and "BigInt (amount p) = Some a" and "BigInt (priceToken pr) = Some req"
  shows "verifyPayment now p pr config =
           Inr \<lparr>valid = (firstFailedCheck now p pr a req = None),
                verificationReason = firstFailedCheck now p pr a req\<rparr>"
  using assms by (simp add: verifyPayment_def firstFailedCheck_def)

lemma firstFailedCheck_None:
  "(firstFailedCheck now p pr a req = None) =
     (of_int (now div 1000) \<le> expiry p
      \<and> toLowerCase (token p) = toLowerCase (pricingToken pr)
      \<and> chainId p = pricingChainId pr
      \<and> req \<le> a)"
  by (auto simp add: firstFailedCheck_def)

lemma firstFailedCheck_nonempty:
  "firstFailedCheck now p pr a req = Some why \<Longrightarrow> why \<noteq> []"
  by (auto simp add: firstFailedCheck_def split: if_splits)

text \<open>
  Claim C6, amended. Signature verification is disabled and the two amounts are integer
  literals. Then \<^verbatim>\<open>verifyPayment\<close> returns a result, and \<^verbatim>\<open>valid\<close> is true exactly when the
  expiry is not below the current time in whole seconds, the asset of the proof equals
  the asset of the pricing up to the case of letters, the chain ids are equal and the
  amount of the proof is at least the required amount; a result that is not valid carries
  a reason that is not empty and names the first check that failed.
\<close>

theorem verifyPayment_sound_and_complete:
  assumes "verifySignatures config \<noteq> Some True"
    and "BigInt (amount p) = Some a" and "BigInt (priceToken pr) = Some req"
  shows "\<exists>res. verifyPayment now p pr config = Inr res
           \<and> (valid res =
                (of_int (now div 1000) \<le> expiry p
                 \<and> toLowerCase (token p) = toLowerCase (pricingToken pr)
                 \<and> chainId p = pricingChainId pr
                 \<and> req \<le> a))
           \<and> (valid res \<or>
                (\<exists>why. verificationReason res = Some why \<and> why \<noteq> []
                        \<and> firstFailedCheck now p pr a req = Some why))"
proof -
  let ?res = "\<lparr>valid = (firstFailedCheck now p pr a req = None),
                verificationReason = firstFailedCheck now p pr a req\<rparr>"
  have r: "verifyPayment now p pr config = Inr ?res"
    using assms by (rule verifyPayment_result)
  have v: "valid ?res =
             (of_int (now div 1000) \<le> expiry p
              \<and> toLowerCase (token p) = toLowerCase (pricingToken pr)
              \<and> chainId p = pricingChainId pr
              \<and> req \<le> a)"
    by (simp add: firstFailedCheck_None)
  have w: "valid ?res \<or>
             (\<exists>why. verificationReason ?res = Some why \<and> why \<noteq> []
                     \<and> firstFailedCheck now p pr a req = Some why)"
  proof (cases "firstFailedCheck now p pr a req")
    case None
    then show ?thesis by simp
  next
    case (Some why)
    then show ?thesis using firstFailedCheck_nonempty [OF Some] by simp
  qed
  from r v w show ?thesis by blast
qed

lemma BigInt_50000: "BigInt ''50000'' = Some 50000"
  by (simp add: BigInt_def trim_def isWhiteSpace_def charCode_def parseDigits_def
      digitValue_def Let_def)

lemma toLowerCase_demo_token:
  "toLowerCase ''0x036CbD53842c5426634e7929541eC2318f3dCF7e''
     = ''0x036cbd53842c5426634e7929541ec2318f3dcf7e''"
  by code_simp

lemma toLowerCase_demo_token_lower:
  "toLowerCase ''0x036cbd53842c5426634e7929541ec2318f3dcf7e''
     = ''0x036cbd53842c5426634e7929541ec2318f3dcf7e''"
  by code_simp

lemma verifyPayment_demo:
  "verifyPayment 1700000000000 demoProof extractPricing demoConfig
     = Inr \<lparr>valid = True, verificationReason = None\<rparr>"
  by (simp add: verifyPayment_def demoProof_def extractPricing_def demoConfig_def
      BigInt_50000 toLowerCase_demo_token toLowerCase_demo_token_lower)

text \<open>
  Claim C6 as stated fails: the proof names the token in lower case, the pricing in mixed
  case; the two texts differ and the proof is valid.
\<close>

theorem asset_match_is_not_exact_counterexample:
  "verifySignatures demoConfig \<noteq> Some True
   \<and> verifyPayment 1700000000000 demoProof extractPricing demoConfig
       = Inr \<lparr>valid = True, verificationReason = None\<rparr>
   \<and> token demoProof \<noteq> pricingToken extractPricing"
  using verifyPayment_demo
  by (simp add: demoProof_def extractPricing_def demoConfig_def)

theorem verifyPayment_sound_and_complete_witness:
  "verifySignatures demoConfig \<noteq> Some True
   \<and> BigInt (amount demoProof) = Some 50000
   \<and> BigInt (priceToken extractPricing) = Some 50000
   \<and> (\<exists>res. verifyPayment 1700000000000 demoProof extractPricing demoConfig = Inr res
            \<and> valid res)"
proof -
  have h1: "verifySignatures demoConfig \<noteq> Some True"
    by (simp add: demoConfig_def)
  have h2: "BigInt (amount demoProof) = Some 50000"
    by (simp add: demoProof_def BigInt_50000)
  have h3: "BigInt (priceToken extractPricing) = Some 50000"
    by (simp add: extractPricing_def BigInt_50000)
  have ok: "of_int (1700000000000 div 1000) \<le> expiry demoProof
            \<and> toLowerCase (token demoProof) = toLowerCase (pricingToken extractPricing)
            \<and> chainId demoProof = pricingChainId extractPricing
            \<and> (50000::int) \<le> 50000"
    by (simp add: demoProof_def extractPricing_def toLowerCase_demo_token
        toLowerCase_demo_token_lower)
  show ?thesis
    using h1 h2 h3 ok
      verifyPayment_sound_and_complete [OF h1 h2 h3, of 1700000000000]
    by auto
qed

section \<open>Endpoints without a price\<close>

lemma firstMatch_none:
  "(firstMatch P e entries = Inr None) =
     (\<forall>(pattern, price_v) \<in> set entries. matchPattern P e pattern = Some False)"
  by (induction entries) (auto split: option.splits bool.splits)

lemma getPriceForEndpoint_unpriced:
  "(getPriceForEndpoint P e config = Inr None) =
     (map_of (pricing config) e = None
      \<and> (\<forall>(pattern, price_v) \<in> set (pricing config). matchPattern P e pattern = Some False)
      \<and> defaultPriceUsd config = None)"
  unfolding firstMatch_none [symmetric]
  by (auto simp add: getPriceForEndpoint_def split: option.splits sum.splits)

text \<open>
  Claim C9. The endpoint of the request has no entry of its own in the pricing table, no
  pattern of the table matches it and no default price is configured. Then the
  middleware invokes the handler once, with a context that is not paid, has price 0 and
  an empty nonce; it returns the handler's response as it is; it leaves the nonce store
  and the receipts as they were and does nothing else: no read or write of the store, no
  receipt, no challenge.
\<close>

theorem unpriced_passthrough:
  assumes "map_of (pricing config) (pathname request) = None"
    and "\<forall>(pattern, price_v) \<in> set (pricing config).
           matchPattern P (pathname request) pattern = Some False"
    and "defaultPriceUsd config = None"
  shows "getPriceForEndpoint P (pathname request) config = Inr None
         \<and> withX402Paywall P handler config env world request
             = (Inr (Passthrough, handler request notPaidContext), world,
                [HandlerInvoked request notPaidContext])
         \<and> handlerCalls [HandlerInvoked request notPaidContext] = 1
         \<and> paid notPaidContext = False \<and> contextPriceUsd notPaidContext = 0
         \<and> contextNonce notPaidContext = []"
proof -
  have u: "getPriceForEndpoint P (pathname request) config = Inr None"
    using assms by (simp add: getPriceForEndpoint_unpriced)
  have w: "withX402Paywall P handler config env world request
             = (Inr (Passthrough, handler request notPaidContext), world,
                [HandlerInvoked request notPaidContext])"
    using u by (simp add: withX402Paywall_def notPaidContext_def Let_def)
  have c: "handlerCalls [HandlerInvoked request notPaidContext] = 1"
    by (simp add: handlerCalls_def)
  from u w c show ?thesis by (simp add: notPaidContext_def)
qed

lemma matchPattern_demo_extract:
  "matchPattern demoPlatform ''/catalog'' ''/tool/extract'' = Some False"
  by (simp add: matchPattern_def demoPlatform_def replaceAll.simps)

lemma matchPattern_demo_quote:
  "matchPattern demoPlatform ''/catalog'' ''/tool/quote'' = Some False"
  by (simp add: matchPattern_def demoPlatform_def replaceAll.simps)

theorem unpriced_passthrough_witness:
  "map_of (pricing demoConfig) (pathname catalogRequest) = None
   \<and> map fst (pricing demoConfig) = [''/tool/extract'', ''/tool/quote'']
   \<and> matchPattern demoPlatform (pathname catalogRequest) ''/tool/extract'' = Some False
   \<and> matchPattern demoPlatform (pathname catalogRequest) ''/tool/quote'' = Some False
   \<and> defaultPriceUsd demoConfig = None
   \<and> withX402Paywall demoPlatform demoHandler demoConfig firstEnv emptyWorld catalogRequest
       = (Inr (Passthrough, demoHandler catalogRequest notPaidContext), emptyWorld,
          [HandlerInvoked catalogRequest notPaidContext])"
proof -
  have h1: "map_of (pricing demoConfig) (pathname catalogRequest) = None"
    by (simp add: demoConfig_def catalogRequest_def)
  have h2: "\<forall>(pattern, price_v) \<in> set (pricing demoConfig).
              matchPattern demoPlatform (pathname catalogRequest) pattern = Some False"
    by (simp add: demoConfig_def catalogRequest_def matchPattern_demo_extract
        matchPattern_demo_quote)
  have h3: "defaultPriceUsd demoConfig = None"
    by (simp add: demoConfig_def)
  have k: "map fst (pricing demoConfig) = [''/tool/extract'', ''/tool/quote'']"
    by (simp add: demoConfig_def)
  have m: "matchPattern demoPlatform (pathname catalogRequest) ''/tool/extract'' = Some False
           \<and> matchPattern demoPlatform (pathname catalogRequest) ''/tool/quote'' = Some False"
    by (simp add: catalogRequest_def matchPattern_demo_extract matchPattern_demo_quote)
  show ?thesis
    using h1 h3 k m
      unpriced_passthrough [OF h1 h2 h3, of demoHandler firstEnv emptyWorld]
    by simp
qed

section \<open>Replay protection\<close>













subsection \<open>The example requests\<close>












section \<open>The wire encoding of a proof\<close>

lemma proofPayload_props:
  "getProp (proofPayload p) ''sig'' = Some (JStr (signature p))"
  "getProp (proofPayload p) ''payer'' = Some (JStr (payer p))"
  "getProp (proofPayload p) ''nonce'' = Some (JStr (nonce p))"
  "getProp (proofPayload p) ''expiry'' = Some (jsonNumber (expiry p))"
  "getProp (proofPayload p) ''amount'' = Some (JStr (amount p))"
  "getProp (proofPayload p) ''token'' = Some (JStr (token p))"
  "getProp (proofPayload p) ''chainId'' = Some (jsonNumber (chainId p))"
  "getProp (proofPayload p) ''txHash'' = map_option JStr (txHash (arrivedProof p))"
  by (simp_all add: proofPayload_def objectLiteral_def getProp_def arrivedProof_def
      split: option.splits)

lemma proofPayload_not_null: "proofPayload p \<noteq> JNull"
  by (simp add: proofPayload_def objectLiteral_def)

text \<open>A proof of finite numbers, as the client holds it and as it arrives.\<close>

lemma asParsedPayment_untypedOf:
  assumes "expiry p = Finite e" and "chainId p = Finite cid"
  shows "asParsedPayment (untypedOf p) =
           Some \<lparr>signature = signature p, payer = payer p, nonce = nonce p, expiry = e,
                 amount = amount p, token = token p, chainId = cid,
                 txHash = txHash (arrivedProof p)\<rparr>"
  using assms
  by (cases "txHash p")
     (simp_all add: asParsedPayment_def untypedOf_def arrivedProof_def jsonNumber_def)

lemma parse_client_create:
  assumes "signature p \<noteq> []" and "payer p \<noteq> []" and "nonce p \<noteq> []"
    and "transports P (proofPayload p)"
  shows "parsePaymentHeader_client P (createPaymentHeader P p) = Some (untypedOf p)"
  using assms
  by (simp add: parsePaymentHeader_client_def createPaymentHeader_def transports_def
      proofPayload_props proofPayload_not_null truthy_def untypedOf_def)

lemma parse_worker_create:
  assumes "signature p \<noteq> []" and "payer p \<noteq> []" and "nonce p \<noteq> []"
    and "transports P (proofPayload p)"
  shows "parsePaymentHeader_worker P (createPaymentHeader P p) = Some (untypedOf p)"
  using assms
  by (simp add: parsePaymentHeader_worker_def createPaymentHeader_def transports_def
      proofPayload_props proofPayload_not_null truthy_def untypedOf_def)

text \<open>
  Claim C8, amended. For a proof whose signature, payer and nonce are not empty and whose
  expiry and chain id are finite numbers, on a platform that transports its payload: the
  client's and the seller's \<^verbatim>\<open>parsePaymentHeader\<close> both decode the header that
  \<^verbatim>\<open>createPaymentHeader\<close> produces, to the same record, whose fields have the declared
  types and equal those of the proof in signature, payer, nonce, expiry, amount, token
  and chain id (and in the transaction hash, an empty one arriving as absent).
\<close>

theorem payment_header_round_trip:
  assumes "signature p \<noteq> []" and "payer p \<noteq> []" and "nonce p \<noteq> []"
    and "expiry p = Finite e" and "chainId p = Finite cid"
    and "transports P (proofPayload p)"
  shows "\<exists>u q. parsePaymentHeader_client P (createPaymentHeader P p) = Some u
           \<and> parsePaymentHeader_worker P (createPaymentHeader P p) = Some u
           \<and> asParsedPayment u = Some q
           \<and> signature q = signature p \<and> payer q = payer p \<and> nonce q = nonce p
           \<and> Finite (expiry q) = expiry p \<and> amount q = amount p \<and> token q = token p
           \<and> Finite (chainId q) = chainId p \<and> txHash q = txHash (arrivedProof p)"
proof -
  have c: "parsePaymentHeader_client P (createPaymentHeader P p) = Some (untypedOf p)"
    using assms(1-3,6) by (rule parse_client_create)
  have w: "parsePaymentHeader_worker P (createPaymentHeader P p) = Some (untypedOf p)"
    using assms(1-3,6) by (rule parse_worker_create)
  from c w asParsedPayment_untypedOf [OF assms(4,5)] assms(4,5) show ?thesis by simp
qed

lemma demo_transports: "transports demoPlatform (proofPayload demoClientProof)"
  by (simp add: transports_def demoPlatform_def)

theorem payment_header_round_trip_witness:
  "signature demoClientProof \<noteq> [] \<and> payer demoClientProof \<noteq> []
   \<and> nonce demoClientProof \<noteq> []
   \<and> expiry demoClientProof = Finite 2000000000 \<and> chainId demoClientProof = Finite 84532
   \<and> transports demoPlatform (proofPayload demoClientProof)
   \<and> (\<exists>u. parsePaymentHeader_client demoPlatform
                (createPaymentHeader demoPlatform demoClientProof) = Some u
            \<and> parsePaymentHeader_worker demoPlatform
                (createPaymentHeader demoPlatform demoClientProof) = Some u
            \<and> asParsedPayment u = Some demoProof)"
proof -
  have h1: "signature demoClientProof \<noteq> []" by (simp add: demoClientProof_def)
  have h2: "payer demoClientProof \<noteq> []" by (simp add: demoClientProof_def)
  have h3: "nonce demoClientProof \<noteq> []" by (simp add: demoClientProof_def)
  have h4: "expiry demoClientProof = Finite 2000000000" by (simp add: demoClientProof_def)
  have h5: "chainId demoClientProof = Finite 84532" by (simp add: demoClientProof_def)
  have h6: "transports demoPlatform (proofPayload demoClientProof)" by (rule demo_transports)
  have a: "signature demoClientProof = signature demoProof"
    "payer demoClientProof = payer demoProof" "nonce demoClientProof = nonce demoProof"
    "amount demoClientProof = amount demoProof" "token demoClientProof = token demoProof"
    "txHash (arrivedProof demoClientProof) = txHash demoProof"
    "expiry demoProof = 2000000000" "chainId demoProof = 84532"
    by (simp_all add: arrivedProof_def demoClientProof_def demoProof_def)
  from payment_header_round_trip [OF h1 h2 h3 h4 h5 h6]
  obtain u q where u:
    "parsePaymentHeader_client demoPlatform (createPaymentHeader demoPlatform demoClientProof)
       = Some u"
    "parsePaymentHeader_worker demoPlatform (createPaymentHeader demoPlatform demoClientProof)
       = Some u"
    "asParsedPayment u = Some q"
    and q: "signature q = signature demoClientProof" "payer q = payer demoClientProof"
    "nonce q = nonce demoClientProof" "Finite (expiry q) = expiry demoClientProof"
    "amount q = amount demoClientProof" "token q = token demoClientProof"
    "Finite (chainId q) = chainId demoClientProof"
    "txHash q = txHash (arrivedProof demoClientProof)"
    by blast
  have "q = demoProof"
    using q a h4 h5 by (cases q, cases demoProof) simp
  then show ?thesis
    using h1 h2 h3 h4 h5 h6 u by blast
qed

text \<open>Without a signature the header does not decode: the hypothesis is needed.\<close>

lemma empty_signature_does_not_decode:
  assumes "signature p = []" and "transports P (proofPayload p)"
  shows "parsePaymentHeader_client P (createPaymentHeader P p) = None"
  using assms
  by (simp add: parsePaymentHeader_client_def createPaymentHeader_def transports_def
      proofPayload_props proofPayload_not_null truthy_def)

section \<open>The orchestrator\<close>

subsection \<open>The ledger\<close>

lemma getSpendContext_contextFor:
  "getSpendContext storage (optionsCallerId options) (clientNow env) =
     (contextFor env options storage,
      storage\<lparr>contexts := (contexts storage)(optionsCallerId options
                                \<mapsto> contextFor env options storage)\<rparr>)"
proof (cases "contexts storage (optionsCallerId options)")
  case None
  then show ?thesis
    by (simp add: getSpendContext_def contextFor_def createSpendContext_def Let_def)
next
  case (Some existing)
  then have "(contexts storage)(optionsCallerId options \<mapsto> existing) = contexts storage"
    by (simp add: map_upd_triv)
  then show ?thesis
    using Some by (simp add: getSpendContext_def contextFor_def)
qed

lemma endpoint_requestFor: "endpoint (requestFor u options hdrs) = urlPathname u"
  by (simp add: requestFor_def parsePaymentRequest_def Let_def)

lemma recordDecision_after_context:
  "recordDecision
     (storage\<lparr>contexts := (contexts storage)(optionsCallerId options
                               \<mapsto> contextFor env options storage)\<rparr>)
     env (optionsCallerId options) d (endpoint (requestFor u options hdrs))
     (headerPriceUsd hdrs)
   = storageAfterDecision env u options storage hdrs d"
  by (simp add: recordDecision_def storageAfterDecision_def decisionEntryFor_def
      endpoint_requestFor)

lemma charged_context:
  "c\<lparr>dailySpentUsd := a, weeklySpentUsd := b, dailyCallCount := n, asOf := t\<rparr>
     = \<lparr>callerId = callerId c, dailySpentUsd = a, weeklySpentUsd = b,
        dailyCallCount = n, asOf = t\<rparr>"
  by (cases c) simp

lemma recordPayment_after_decision:
  "recordPayment (storageAfterDecision env u options storage hdrs d) env
     (optionsCallerId options) (headerPriceUsd hdrs) (endpoint (requestFor u options hdrs))
     (headerNonce hdrs) (take 16 signature_v)
   = \<lparr>contexts = (contexts storage)(optionsCallerId options
                     \<mapsto> chargedContext env (contextFor env options storage)
                          (headerPriceUsd hdrs)),
      payments = payments storage @ [paymentEntryFor env u options hdrs signature_v],
      decisions = decisions storage @ [decisionEntryFor env u options hdrs d]\<rparr>"
  by (simp add: recordPayment_def getSpendContext_def storageAfterDecision_def
      chargedContext_def paymentEntryFor_def endpoint_requestFor charged_context Let_def)

lemma decisions_recordPayment:
  "decisions (recordPayment storage env c a e n r) = decisions storage"
  by (simp add: recordPayment_def getSpendContext_def Let_def split: option.splits)

subsection \<open>The policy evaluation of a call\<close>

text \<open>
  The endpoint of the request of a call is the pathname of its URL, which begins with a
  slash and so names no inherited property: the evaluation returns a decision.
\<close>

lemma requestFor_not_inherited: "\<not> inheritedCap p (requestFor u options hdrs)"
  by (simp add: inheritedCap_def endpoint_requestFor urlPathname_def Object_prototype_def
      split: option.splits)

lemma decisionFor_returns: "\<exists>d. decisionFor env u options storage hdrs = Inr d"
proof -
  have "rules \<lparr>rules = None, fullTrace = Some True\<rparr> = None" by simp
  from evaluatePolicy_returns [OF this requestFor_not_inherited]
  show ?thesis unfolding decisionFor_def by blast
qed

subsection \<open>The loop of paid requests\<close>

lemma retryLoop_decisions:
  "decisions (storageOf (retryLoop P net env c hdrs pr pp d m rc le storage events))
     = decisions storage"
proof (induction P net env c hdrs pr pp d m rc le storage events rule: retryLoop.induct)
  case (1 P net env c hdrs pr pp d m rc le storage events)
  show ?case
  proof (cases "real rc < m")
    case False
    then show ?thesis
      by (subst retryLoop.simps) (simp add: storageOf_def)
  next
    case True
    show ?thesis
    proof (cases "net (Suc rc) (Some (createPaymentHeader P pp))")
      case (Inl err)
      then show ?thesis
        using True "1.IH" [OF True refl Inl]
        by (subst retryLoop.simps) simp
    next
      case (Inr response)
      then show ?thesis
        using True
        by (subst retryLoop.simps) (simp add: storageOf_def Let_def decisions_recordPayment)
    qed
  qed
qed

lemma retryLoop_resolves:
  assumes "real (rc + k) < m"
    and "\<forall>j<k. \<exists>err. net (Suc (rc + j)) (Some (createPaymentHeader P pp)) = Inl err"
    and "net (Suc (rc + k)) (Some (createPaymentHeader P pp)) = Inr retried"
  shows "retryLoop P net env c hdrs pr pp d m rc le storage events =
           (Inr (annotate retried True (Some pp) (Some d) (receiptIdOf retried)),
            (if ok retried
             then recordPayment storage env c (headerPriceUsd hdrs) (endpoint pr)
                    (headerNonce hdrs) (take 16 (signature pp))
             else storage),
            events @ replicate (Suc k) (Fetched (Some (createPaymentHeader P pp)))
              @ (if ok retried then [PaymentRecorded (headerPriceUsd hdrs)] else []))"
  using assms
proof (induction k arbitrary: rc le events)
  case 0
  then show ?case
    by (subst retryLoop.simps) (simp add: Let_def)
next
  case (Suc k)
  have lt: "real rc < m" using Suc.prems(1) by simp
  obtain err where err: "net (Suc rc) (Some (createPaymentHeader P pp)) = Inl err"
    using Suc.prems(2) by (metis add.right_neutral zero_less_Suc)
  have m': "real (Suc rc + k) < m" using Suc.prems(1) by simp
  have f': "\<forall>j<k. \<exists>err. net (Suc (Suc rc + j)) (Some (createPaymentHeader P pp)) = Inl err"
  proof (intro allI impI)
    fix j assume "j < k"
    then have "Suc j < Suc k" by simp
    then obtain e where "net (Suc (rc + Suc j)) (Some (createPaymentHeader P pp)) = Inl e"
      using Suc.prems(2) by blast
    then show "\<exists>err. net (Suc (Suc rc + j)) (Some (createPaymentHeader P pp)) = Inl err"
      by simp
  qed
  have r': "net (Suc (Suc rc + k)) (Some (createPaymentHeader P pp)) = Inr retried"
    using Suc.prems(3) by simp
  have step: "retryLoop P net env c hdrs pr pp d m rc le storage events
          = retryLoop P net env c hdrs pr pp d m (Suc rc) (Some err) storage
              (events @ [Fetched (Some (createPaymentHeader P pp))])"
    using lt err by (subst retryLoop.simps) (simp add: Let_def)
  show ?case
    unfolding step
    using Suc.IH [OF m' f' r', of "Some err"
        "events @ [Fetched (Some (createPaymentHeader P pp))]"]
    by (simp add: replicate_append_same)
qed

subsection \<open>The branches of a call that has received a challenge\<close>

lemma x402Fetch_challenged:
  assumes "net 0 None = Inr response" and "status response = 402"
    and "parse402Headers response = Some hdrs"
    and "decisionFor env u options storage hdrs = Inr d"
  shows "x402Fetch P parse402Headers net env u options storage =
     (if \<not> allow d
      then (Inl (X402PolicyError (''Payment blocked by policy: '' @ decisionReason d) d hdrs),
            storageAfterDecision env u options storage hdrs d,
            [Fetched None, DecisionRecorded d]
              @ (if onPaymentRequired options then [PaymentRequiredNotified] else [])
              @ (if onPolicyBlocked options then [PolicyBlockedNotified] else []))
      else if autoPay options = Some False
      then (Inl (X402PolicyError ''Payment required but autoPay is disabled'' d hdrs),
            storageAfterDecision env u options storage hdrs d,
            [Fetched None, DecisionRecorded d]
              @ (if onPaymentRequired options then [PaymentRequiredNotified] else []))
      else
        (case signPayment (wallet options) (signParamsFor hdrs) of
           Inl err \<Rightarrow>
             (Inl (X402PaymentError ''Failed to generate payment'' hdrs (Some err)),
              storageAfterDecision env u options storage hdrs d,
              [Fetched None, DecisionRecorded d]
                @ (if onPaymentRequired options then [PaymentRequiredNotified] else [])
                @ [SignRequested (signParamsFor hdrs)])
         | Inr signature_v \<Rightarrow>
             (case getAddress (wallet options) of
                Inl err \<Rightarrow>
                  (Inl (X402PaymentError ''Failed to generate payment'' hdrs (Some err)),
                   storageAfterDecision env u options storage hdrs d,
                   [Fetched None, DecisionRecorded d]
                     @ (if onPaymentRequired options then [PaymentRequiredNotified] else [])
                     @ [SignRequested (signParamsFor hdrs), AddressRequested])
              | Inr address \<Rightarrow>
                  retryLoop P net env (optionsCallerId options) hdrs
                    (requestFor u options hdrs) (proofFor hdrs signature_v address) d
                    (retryBudget options) 0 None
                    (storageAfterDecision env u options storage hdrs d)
                    ([Fetched None, DecisionRecorded d]
                       @ (if onPaymentRequired options then [PaymentRequiredNotified] else [])
                       @ [SignRequested (signParamsFor hdrs), AddressRequested]
                       @ (if onPaymentMade options then [PaymentMadeNotified] else [])))))"
proof -
  have ev: "evaluatePolicy (clientNow env) (policy options)
              (parsePaymentRequest u (headerPriceUsd hdrs) (optionsCallerId options))
              (contextFor env options storage) \<lparr>rules = None, fullTrace = Some True\<rparr> = Inr d"
    using assms(4) by (simp add: decisionFor_def requestFor_def)
  have rd: "recordDecision
     (storage\<lparr>contexts := (contexts storage)(optionsCallerId options
                               \<mapsto> contextFor env options storage)\<rparr>)
     env (optionsCallerId options) d
     (endpoint (parsePaymentRequest u (headerPriceUsd hdrs) (optionsCallerId options)))
     (headerPriceUsd hdrs)
   = storageAfterDecision env u options storage hdrs d"
    using recordDecision_after_context [of storage options env d u hdrs]
    by (simp add: requestFor_def)
  show ?thesis
    using assms(1-3)
    by (simp add: x402Fetch_def getSpendContext_contextFor ev rd Let_def signParamsFor_def
        proofFor_def retryBudget_def requestFor_def split: sum.splits)
qed

lemma storageAfterDecision_fields:
  "decisions (storageAfterDecision env u options storage hdrs d)
     = decisions storage @ [decisionEntryFor env u options hdrs d]"
  "payments (storageAfterDecision env u options storage hdrs d) = payments storage"
  by (simp_all add: storageAfterDecision_def)

text \<open>
  Claim C7. A call receives a response with status 402 from which a challenge is read.
  Then the policy evaluation returns a decision, and the decision is appended to the
  decisions of the storage, whatever the call goes on to do; and if the decision does not
  allow the payment, or automatic payment is switched off, the call fails with a policy
  error that carries the decision and the challenge, the wallet is not asked to sign, no
  request with a payment is sent and no payment is recorded.
\<close>

theorem decision_recorded_and_blocked_without_payment:
  assumes "net 0 None = Inr response" and "status response = 402"
    and "parse402Headers response = Some hdrs"
  shows "\<exists>d. decisionFor env u options storage hdrs = Inr d
         \<and> decisions (storageOf (x402Fetch P parse402Headers net env u options storage))
             = decisions storage @ [decisionEntryFor env u options hdrs d]
         \<and> decision (decisionEntryFor env u options hdrs d) = d
         \<and> (\<not> allow d \<or> autoPay options = Some False
              \<longrightarrow>
              (\<exists>message.
                 resultOf (x402Fetch P parse402Headers net env u options storage)
                   = Inl (X402PolicyError message d hdrs))
              \<and> \<not> list_ex isPaymentAttempt
                     (clientEventsOf (x402Fetch P parse402Headers net env u options storage))
              \<and> payments (storageOf (x402Fetch P parse402Headers net env u options storage))
                  = payments storage)"
proof -
  let ?run = "x402Fetch P parse402Headers net env u options storage"
  obtain d where d: "decisionFor env u options storage hdrs = Inr d"
    using decisionFor_returns by blast
  note run = x402Fetch_challenged [where net = net and response = response
      and parse402Headers = parse402Headers and hdrs = hdrs and env = env and u = u
      and options = options and storage = storage and P = P and d = d,
      OF assms(1) assms(2) assms(3) d]
  have recorded: "decisions (storageOf ?run)
                    = decisions storage @ [decisionEntryFor env u options hdrs d]"
  proof (cases "\<not> allow d \<or> autoPay options = Some False")
    case True
    then show ?thesis
      by (auto simp add: run storageOf_def storageAfterDecision_fields)
  next
    case paying: False
    show ?thesis
    proof (cases "signPayment (wallet options) (signParamsFor hdrs)")
      case (Inl err)
      then show ?thesis
        using paying by (simp add: run storageOf_def storageAfterDecision_fields)
    next
      case signed: (Inr signature_v)
      show ?thesis
      proof (cases "getAddress (wallet options)")
        case (Inl err)
        then show ?thesis
          using paying signed by (simp add: run storageOf_def storageAfterDecision_fields)
      next
        case (Inr address)
        then show ?thesis
          using paying signed
          by (simp add: run retryLoop_decisions storageAfterDecision_fields)
      qed
    qed
  qed
  have entry: "decision (decisionEntryFor env u options hdrs d) = d"
    by (simp add: decisionEntryFor_def)
  have blocked: "(\<exists>message. resultOf ?run = Inl (X402PolicyError message d hdrs))
                 \<and> \<not> list_ex isPaymentAttempt (clientEventsOf ?run)
                 \<and> payments (storageOf ?run) = payments storage"
    if "\<not> allow d \<or> autoPay options = Some False"
    using that
    by (auto simp add: run resultOf_def clientEventsOf_def storageOf_def
        storageAfterDecision_fields)
  from d recorded entry blocked show ?thesis by blast
qed

subsection \<open>The example calls\<close>

lemma demo_initial:
  "failingNetwork 0 None = Inr challengeResponse" "flakyNetwork 0 None = Inr challengeResponse"
  "status challengeResponse = 402" "demoParse402 challengeResponse = Some demoChallenge"
  by (simp_all add: failingNetwork_def flakyNetwork_def challengeResponse_def demoParse402_def)

lemma demo_request:
  "requestFor demoUrl options demoChallenge =
     \<lparr>endpoint = ''/tool/extract'', tool = ''extract'', domain = ''api.example.com'',
      priceUsd = 5 / 100, requestCallerId = optionsCallerId options\<rparr>"
  by (simp add: requestFor_def parsePaymentRequest_def urlPathname_def demoUrl_def
      demoChallenge_def splitOn_def Let_def)

lemma demo_context:
  "contextFor demoClientEnv options emptyStorage =
     \<lparr>callerId = optionsCallerId options, dailySpentUsd = 0, weeklySpentUsd = 0,
      dailyCallCount = 0, asOf = 1700000000000\<rparr>"
  by (simp add: contextFor_def emptyStorage_def demoClientEnv_def)

lemma demo_verdicts:
  assumes "perCallCapUsd p = cap" and "p = DEFAULT_POLICY\<lparr>perCallCapUsd := cap\<rparr>"
  shows "list_all passed
           (verdicts ALL_RULES p (requestFor demoUrl options demoChallenge)
              (contextFor demoClientEnv options emptyStorage))
         = (5 / 100 \<le> cap)"
proof -
  let ?r = "requestFor demoUrl options demoChallenge"
  let ?c = "contextFor demoClientEnv options emptyStorage"
  have cap: "effectivePerCallCap p ?r = NumberCap cap"
    using assms
    by (simp add: effectivePerCallCap_def endpointCap_def demo_request DEFAULT_POLICY_def
        Object_prototype_def)
  have perCall: "passed (projr (perCallCapRule p ?r ?c)) = (priceUsd ?r \<le> cap)"
    by (rule passed_perCallCapRule [OF cap])
  have others:
    "passed (projr (policyEnabledRule p ?r ?c))" "passed (projr (toolDenylistRule p ?r ?c))"
    "passed (projr (domainDenylistRule p ?r ?c))" "passed (projr (toolAllowlistRule p ?r ?c))"
    "passed (projr (domainAllowlistRule p ?r ?c))" "passed (projr (dailyCapRule p ?r ?c))"
    "passed (projr (weeklyCapRule p ?r ?c))"
    using assms(2)
    by (simp_all add: passed_rule DEFAULT_POLICY_def demo_request demo_context toolDenied_def
        domainListed_def unconfigured_def)
  show ?thesis
    using perCall others by (simp add: all_verdicts demo_request)
qed

lemma demo_decision:
  assumes "policy options = DEFAULT_POLICY\<lparr>perCallCapUsd := cap\<rparr>"
  shows "map_sum id allow (decisionFor demoClientEnv demoUrl options emptyStorage demoChallenge)
           = Inr (5 / 100 \<le> cap)"
proof -
  have o: "rules \<lparr>rules = None, fullTrace = Some True\<rparr> = None" by simp
  have c: "perCallCapUsd (policy options) = cap" using assms by simp
  show ?thesis
    unfolding decisionFor_def
    by (simp only: evaluatePolicy_allow [OF o requestFor_not_inherited]
        demo_verdicts [OF c assms])
qed

lemma demo_policies:
  "policy demoOptions = DEFAULT_POLICY\<lparr>perCallCapUsd := 1 / 10\<rparr>"
  "policy manualOptions = DEFAULT_POLICY\<lparr>perCallCapUsd := 1 / 10\<rparr>"
  "policy patientOptions = DEFAULT_POLICY\<lparr>perCallCapUsd := 1 / 10\<rparr>"
  "policy strictOptions = DEFAULT_POLICY\<lparr>perCallCapUsd := 1 / 100\<rparr>"
  by (simp_all add: demoOptions_def manualOptions_def patientOptions_def strictOptions_def
      DEFAULT_POLICY_def)

lemma demo_allowed:
  "map_sum id allow (decisionFor demoClientEnv demoUrl demoOptions emptyStorage demoChallenge)
     = Inr True"
  "map_sum id allow (decisionFor demoClientEnv demoUrl manualOptions emptyStorage demoChallenge)
     = Inr True"
  "map_sum id allow (decisionFor demoClientEnv demoUrl patientOptions emptyStorage demoChallenge)
     = Inr True"
  by (simp_all add: demo_decision [OF demo_policies(1)] demo_decision [OF demo_policies(2)]
      demo_decision [OF demo_policies(3)])

lemma demo_blocked:
  "map_sum id allow (decisionFor demoClientEnv demoUrl strictOptions emptyStorage demoChallenge)
     = Inr False"
  by (simp add: demo_decision [OF demo_policies(4)])

theorem decision_recorded_and_blocked_without_payment_witness:
  "failingNetwork 0 None = Inr challengeResponse \<and> status challengeResponse = 402
   \<and> demoParse402 challengeResponse = Some demoChallenge
   \<and> map_sum id allow
       (decisionFor demoClientEnv demoUrl strictOptions emptyStorage demoChallenge) = Inr False
   \<and> map_sum id (\<lambda>d. decisions (storageOf (x402Fetch demoPlatform demoParse402
                         failingNetwork demoClientEnv demoUrl strictOptions emptyStorage))
                      = [decisionEntryFor demoClientEnv demoUrl strictOptions demoChallenge d])
       (decisionFor demoClientEnv demoUrl strictOptions emptyStorage demoChallenge) = Inr True
   \<and> map_sum id (\<lambda>d. \<exists>message.
         resultOf (x402Fetch demoPlatform demoParse402 failingNetwork demoClientEnv demoUrl
                     strictOptions emptyStorage)
           = Inl (X402PolicyError message d demoChallenge))
       (decisionFor demoClientEnv demoUrl strictOptions emptyStorage demoChallenge) = Inr True
   \<and> autoPay manualOptions = Some False
   \<and> map_sum id allow
       (decisionFor demoClientEnv demoUrl manualOptions emptyStorage demoChallenge) = Inr True
   \<and> map_sum id (\<lambda>d. \<exists>message.
         resultOf (x402Fetch demoPlatform demoParse402 failingNetwork demoClientEnv demoUrl
                     manualOptions emptyStorage)
           = Inl (X402PolicyError message d demoChallenge))
       (decisionFor demoClientEnv demoUrl manualOptions emptyStorage demoChallenge) = Inr True
   \<and> \<not> list_ex isPaymentAttempt
          (clientEventsOf (x402Fetch demoPlatform demoParse402 failingNetwork demoClientEnv
                             demoUrl manualOptions emptyStorage))
   \<and> payments (storageOf (x402Fetch demoPlatform demoParse402 failingNetwork demoClientEnv
                             demoUrl strictOptions emptyStorage)) = []"
proof -
  have m: "autoPay manualOptions = Some False"
    by (simp add: manualOptions_def)
  have e: "decisions emptyStorage = []" "payments emptyStorage = []"
    by (simp_all add: emptyStorage_def)
  from decision_recorded_and_blocked_without_payment
        [where net = failingNetwork and response = challengeResponse
          and parse402Headers = demoParse402 and hdrs = demoChallenge and P = demoPlatform
          and env = demoClientEnv and u = demoUrl and options = strictOptions
          and storage = emptyStorage, OF demo_initial(1) demo_initial(3) demo_initial(4)]
  obtain d1 where d1:
    "decisionFor demoClientEnv demoUrl strictOptions emptyStorage demoChallenge = Inr d1"
    "decisions (storageOf (x402Fetch demoPlatform demoParse402 failingNetwork demoClientEnv
                             demoUrl strictOptions emptyStorage))
       = decisions emptyStorage
         @ [decisionEntryFor demoClientEnv demoUrl strictOptions demoChallenge d1]"
    "\<not> allow d1 \<or> autoPay strictOptions = Some False \<longrightarrow>
       (\<exists>message. resultOf (x402Fetch demoPlatform demoParse402 failingNetwork demoClientEnv
                              demoUrl strictOptions emptyStorage)
                    = Inl (X402PolicyError message d1 demoChallenge))
       \<and> \<not> list_ex isPaymentAttempt
              (clientEventsOf (x402Fetch demoPlatform demoParse402 failingNetwork
                                 demoClientEnv demoUrl strictOptions emptyStorage))
       \<and> payments (storageOf (x402Fetch demoPlatform demoParse402 failingNetwork
                                 demoClientEnv demoUrl strictOptions emptyStorage))
           = payments emptyStorage"
    by blast
  from decision_recorded_and_blocked_without_payment
        [where net = failingNetwork and response = challengeResponse
          and parse402Headers = demoParse402 and hdrs = demoChallenge and P = demoPlatform
          and env = demoClientEnv and u = demoUrl and options = manualOptions
          and storage = emptyStorage, OF demo_initial(1) demo_initial(3) demo_initial(4)]
  obtain d2 where d2:
    "decisionFor demoClientEnv demoUrl manualOptions emptyStorage demoChallenge = Inr d2"
    "\<not> allow d2 \<or> autoPay manualOptions = Some False \<longrightarrow>
       (\<exists>message. resultOf (x402Fetch demoPlatform demoParse402 failingNetwork demoClientEnv
                              demoUrl manualOptions emptyStorage)
                    = Inl (X402PolicyError message d2 demoChallenge))
       \<and> \<not> list_ex isPaymentAttempt
              (clientEventsOf (x402Fetch demoPlatform demoParse402 failingNetwork
                                 demoClientEnv demoUrl manualOptions emptyStorage))
       \<and> payments (storageOf (x402Fetch demoPlatform demoParse402 failingNetwork
                                 demoClientEnv demoUrl manualOptions emptyStorage))
           = payments emptyStorage"
    by blast
  have b1: "\<not> allow d1" using demo_blocked d1(1) by simp
  have a2: "allow d2" using demo_allowed(2) d2(1) by simp
  show ?thesis
    using demo_initial demo_blocked demo_allowed(2) m e d1 d2 b1 a2
    by simp
qed

text \<open>
  Claim C10. A call has received a challenge, the policy evaluation returns a decision
  that allows the payment, automatic payment is not switched off and the wallet signs.
  The first \<open>k\<close> paid requests fail, within the budget of retries, and the next is
  answered, with whatever status. Then the call returns that answer with \<^verbatim>\<open>x402Paid\<close>
  true, \<^verbatim>\<open>x402Payment\<close> the proof built from the challenge, the signature and the address
  of the wallet, \<^verbatim>\<open>x402Decision\<close> the decision, and \<^verbatim>\<open>x402ReceiptId\<close> the receipt id
  that the answer names, if any. The ledger afterwards holds the decision; and exactly
  when the status of the answer is between 200 and 299 it holds one payment more, and
  for the caller the context in which the price is added to the daily and to the weekly
  spend and one to the count of calls; with any other status the payments are as before
  and the context of the caller is as it was when the call started. The call asks the
  ledger to record a payment once in the first case and never in the second.
\<close>

theorem paid_retry_reported_paid_recorded_iff_ok:
  assumes "net 0 None = Inr response" and "status response = 402"
    and "parse402Headers response = Some hdrs"
    and "decisionFor env u options storage hdrs = Inr d" and "allow d"
    and "autoPay options \<noteq> Some False"
    and "signPayment (wallet options) (signParamsFor hdrs) = Inr signature_v"
    and "getAddress (wallet options) = Inr address"
    and "real k < retryBudget options"
    and "\<forall>j<k. \<exists>err.
           net (Suc j) (Some (createPaymentHeader P (proofFor hdrs signature_v address)))
             = Inl err"
    and "net (Suc k) (Some (createPaymentHeader P (proofFor hdrs signature_v address)))
           = Inr retried"
  shows "resultOf (x402Fetch P parse402Headers net env u options storage)
           = Inr \<lparr>status = status retried, statusText = statusText retried,
                  headers = headers retried, body = body retried,
                  x402Paid = True,
                  x402Payment =
                    Some \<lparr>signature = signature_v, payer = address,
                          nonce = headerNonce hdrs, expiry = Finite (headerExpiry hdrs),
                          amount = price hdrs, token = headerToken hdrs,
                          chainId = Finite (headerChainId hdrs), txHash = None\<rparr>,
                  x402Decision = Some d,
                  x402ReceiptId =
                    (case headersGet ''X-RECEIPT-ID'' (headers retried) of
                       None \<Rightarrow> None
                     | Some v \<Rightarrow> if v = [] then None else Some v)\<rparr>
         \<and> storageOf (x402Fetch P parse402Headers net env u options storage)
             = \<lparr>contexts =
                  (contexts storage)(optionsCallerId options \<mapsto>
                     (if 200 \<le> status retried \<and> status retried \<le> 299
                      then \<lparr>callerId = callerId (contextFor env options storage),
                            dailySpentUsd = dailySpentUsd (contextFor env options storage)
                                            + headerPriceUsd hdrs,
                            weeklySpentUsd = weeklySpentUsd (contextFor env options storage)
                                             + headerPriceUsd hdrs,
                            dailyCallCount = dailyCallCount (contextFor env options storage)
                                             + 1,
                            asOf = clientNow env\<rparr>
                      else contextFor env options storage)),
                payments =
                  payments storage
                  @ (if 200 \<le> status retried \<and> status retried \<le> 299
                     then [\<lparr>payment_id = generateId ''pay'' (clientNow env) (paymentRandom env),
                            paymentCallerId = optionsCallerId options,
                            paymentAmountUsd = headerPriceUsd hdrs,
                            paymentEndpoint = urlPathname u,
                            paymentNonce = headerNonce hdrs,
                            paymentPaymentRef = take 16 signature_v,
                            paymentTimestamp = clientNow env\<rparr>]
                     else []),
                decisions = decisions storage @ [decisionEntryFor env u options hdrs d]\<rparr>
         \<and> clientEventsOf (x402Fetch P parse402Headers net env u options storage)
             = [Fetched None, DecisionRecorded d]
               @ (if onPaymentRequired options then [PaymentRequiredNotified] else [])
               @ [SignRequested (signParamsFor hdrs), AddressRequested]
               @ (if onPaymentMade options then [PaymentMadeNotified] else [])
               @ replicate (Suc k)
                   (Fetched (Some (createPaymentHeader P (proofFor hdrs signature_v address))))
               @ (if 200 \<le> status retried \<and> status retried \<le> 299
                  then [PaymentRecorded (headerPriceUsd hdrs)] else [])"
proof -
  let ?run = "x402Fetch P parse402Headers net env u options storage"
  let ?proof = "proofFor hdrs signature_v address"
  let ?s2 = "storageAfterDecision env u options storage hdrs d"
  let ?before = "[Fetched None, DecisionRecorded d]
                    @ (if onPaymentRequired options then [PaymentRequiredNotified] else [])
                    @ [SignRequested (signParamsFor hdrs), AddressRequested]
                    @ (if onPaymentMade options then [PaymentMadeNotified] else [])"
  have k: "real (0 + k) < retryBudget options" using assms(9) by simp
  have f: "\<forall>j<k. \<exists>err. net (Suc (0 + j)) (Some (createPaymentHeader P ?proof)) = Inl err"
    using assms(10) by simp
  have r: "net (Suc (0 + k)) (Some (createPaymentHeader P ?proof)) = Inr retried"
    using assms(11) by simp
  have sig: "signature ?proof = signature_v" by (simp add: proofFor_def)
  have loop: "retryLoop P net env (optionsCallerId options) hdrs (requestFor u options hdrs)
                ?proof d (retryBudget options) 0 None ?s2 ?before
        = (Inr (annotate retried True (Some ?proof) (Some d) (receiptIdOf retried)),
           (if ok retried
            then recordPayment ?s2 env (optionsCallerId options) (headerPriceUsd hdrs)
                   (endpoint (requestFor u options hdrs)) (headerNonce hdrs)
                   (take 16 signature_v)
            else ?s2),
           ?before @ replicate (Suc k) (Fetched (Some (createPaymentHeader P ?proof)))
             @ (if ok retried then [PaymentRecorded (headerPriceUsd hdrs)] else []))"
    using retryLoop_resolves [where rc = 0 and k = k and m = "retryBudget options"
        and net = net and P = P and pp = ?proof and retried = retried and env = env
        and c = "optionsCallerId options" and hdrs = hdrs
        and pr = "requestFor u options hdrs" and d = d and le = None and storage = ?s2
        and events = ?before, OF k f r]
    by (simp only: sig)
  have run: "?run =
        (Inr (annotate retried True (Some ?proof) (Some d) (receiptIdOf retried)),
         (if ok retried
          then recordPayment ?s2 env (optionsCallerId options) (headerPriceUsd hdrs)
                 (endpoint (requestFor u options hdrs)) (headerNonce hdrs)
                 (take 16 signature_v)
          else ?s2),
         ?before @ replicate (Suc k) (Fetched (Some (createPaymentHeader P ?proof)))
           @ (if ok retried then [PaymentRecorded (headerPriceUsd hdrs)] else []))"
    using x402Fetch_challenged [where net = net and response = response
        and parse402Headers = parse402Headers and hdrs = hdrs and env = env and u = u
        and options = options and storage = storage and P = P and d = d,
        OF assms(1) assms(2) assms(3) assms(4)]
      assms(5-8) loop
    by simp
  have res: "resultOf ?run
           = Inr \<lparr>status = status retried, statusText = statusText retried,
                  headers = headers retried, body = body retried,
                  x402Paid = True,
                  x402Payment =
                    Some \<lparr>signature = signature_v, payer = address,
                          nonce = headerNonce hdrs, expiry = Finite (headerExpiry hdrs),
                          amount = price hdrs, token = headerToken hdrs,
                          chainId = Finite (headerChainId hdrs), txHash = None\<rparr>,
                  x402Decision = Some d,
                  x402ReceiptId =
                    (case headersGet ''X-RECEIPT-ID'' (headers retried) of
                       None \<Rightarrow> None
                     | Some v \<Rightarrow> if v = [] then None else Some v)\<rparr>"
    by (simp add: run resultOf_def annotate_def receiptIdOf_def proofFor_def)
  have sto: "storageOf ?run
             = \<lparr>contexts =
                  (contexts storage)(optionsCallerId options \<mapsto>
                     (if 200 \<le> status retried \<and> status retried \<le> 299
                      then \<lparr>callerId = callerId (contextFor env options storage),
                            dailySpentUsd = dailySpentUsd (contextFor env options storage)
                                            + headerPriceUsd hdrs,
                            weeklySpentUsd = weeklySpentUsd (contextFor env options storage)
                                             + headerPriceUsd hdrs,
                            dailyCallCount = dailyCallCount (contextFor env options storage)
                                             + 1,
                            asOf = clientNow env\<rparr>
                      else contextFor env options storage)),
                payments =
                  payments storage
                  @ (if 200 \<le> status retried \<and> status retried \<le> 299
                     then [\<lparr>payment_id = generateId ''pay'' (clientNow env) (paymentRandom env),
                            paymentCallerId = optionsCallerId options,
                            paymentAmountUsd = headerPriceUsd hdrs,
                            paymentEndpoint = urlPathname u,
                            paymentNonce = headerNonce hdrs,
                            paymentPaymentRef = take 16 signature_v,
                            paymentTimestamp = clientNow env\<rparr>]
                     else []),
                decisions = decisions storage @ [decisionEntryFor env u options hdrs d]\<rparr>"
  proof (cases "200 \<le> status retried \<and> status retried \<le> 299")
    case True
    then show ?thesis
      by (simp add: run storageOf_def recordPayment_after_decision ok_def
          chargedContext_def paymentEntryFor_def)
  next
    case False
    then show ?thesis
      by (auto simp add: run storageOf_def ok_def storageAfterDecision_def)
  qed
  have ev: "clientEventsOf ?run
             = ?before
               @ replicate (Suc k) (Fetched (Some (createPaymentHeader P ?proof)))
               @ (if 200 \<le> status retried \<and> status retried \<le> 299
                  then [PaymentRecorded (headerPriceUsd hdrs)] else [])"
    by (simp add: run clientEventsOf_def ok_def del: replicate_Suc)
  from res sto ev show ?thesis by simp
qed

lemma demo_wallet:
  "signPayment (wallet demoOptions) (signParamsFor demoChallenge) = Inr ''0x5d1c2a''"
  "getAddress (wallet demoOptions) = Inr ''0x00000000000000000000000000000000000test''"
  "signPayment (wallet patientOptions) (signParamsFor demoChallenge) = Inr ''0x5d1c2a''"
  "getAddress (wallet patientOptions) = Inr ''0x00000000000000000000000000000000000test''"
  "autoPay demoOptions \<noteq> Some False" "autoPay patientOptions \<noteq> Some False"
  "real 0 < retryBudget demoOptions" "real 1 < retryBudget patientOptions"
  by (simp_all add: demoOptions_def patientOptions_def demoWallet_def retryBudget_def)

lemma demo_proofFor:
  "proofFor demoChallenge ''0x5d1c2a'' ''0x00000000000000000000000000000000000test''
     = demoClientProof"
  by (simp add: proofFor_def demoChallenge_def demoClientProof_def)

lemma demo_retries:
  "\<forall>j<0. \<exists>err. failingNetwork (Suc j) (Some h) = Inl err"
  "failingNetwork (Suc 0) (Some h) = Inr serverErrorResponse"
  "\<forall>j<1. \<exists>err. flakyNetwork (Suc j) (Some h) = Inl err"
  "flakyNetwork (Suc 1) (Some h) = Inr paidResponse"
  "flakyNetwork (Suc 0) (Some h) = Inl (Thrown ''fetch failed'')"
  by (simp_all add: failingNetwork_def flakyNetwork_def)

lemma demo_status: "status serverErrorResponse = 500" "status paidResponse = 200"
  by (simp_all add: serverErrorResponse_def paidResponse_def)

theorem paid_retry_reported_paid_recorded_iff_ok_witness:
  "failingNetwork 0 None = Inr challengeResponse \<and> status challengeResponse = 402
   \<and> demoParse402 challengeResponse = Some demoChallenge
   \<and> map_sum id allow
       (decisionFor demoClientEnv demoUrl demoOptions emptyStorage demoChallenge) = Inr True
   \<and> autoPay demoOptions \<noteq> Some False
   \<and> signPayment (wallet demoOptions) (signParamsFor demoChallenge) = Inr ''0x5d1c2a''
   \<and> getAddress (wallet demoOptions) = Inr ''0x00000000000000000000000000000000000test''
   \<and> real 0 < retryBudget demoOptions
   \<and> failingNetwork (Suc 0) (Some (createPaymentHeader demoPlatform demoClientProof))
       = Inr serverErrorResponse
   \<and> status serverErrorResponse = 500
   \<and> map_sum id x402Paid
       (resultOf (x402Fetch demoPlatform demoParse402 failingNetwork demoClientEnv demoUrl
                    demoOptions emptyStorage)) = Inr True
   \<and> map_sum id x402Payment
       (resultOf (x402Fetch demoPlatform demoParse402 failingNetwork demoClientEnv demoUrl
                    demoOptions emptyStorage)) = Inr (Some demoClientProof)
   \<and> map_sum id status
       (resultOf (x402Fetch demoPlatform demoParse402 failingNetwork demoClientEnv demoUrl
                    demoOptions emptyStorage)) = Inr 500
   \<and> payments (storageOf (x402Fetch demoPlatform demoParse402 failingNetwork demoClientEnv
                             demoUrl demoOptions emptyStorage)) = []
   \<and> map_option dailySpentUsd
       (contexts (storageOf (x402Fetch demoPlatform demoParse402 failingNetwork
                               demoClientEnv demoUrl demoOptions emptyStorage))
          ''agent-1'') = Some 0
   \<and> flakyNetwork 0 None = Inr challengeResponse
   \<and> real 1 < retryBudget patientOptions
   \<and> flakyNetwork (Suc 0) (Some (createPaymentHeader demoPlatform demoClientProof))
       = Inl (Thrown ''fetch failed'')
   \<and> flakyNetwork (Suc 1) (Some (createPaymentHeader demoPlatform demoClientProof))
       = Inr paidResponse
   \<and> status paidResponse = 200
   \<and> map_sum id x402Paid
       (resultOf (x402Fetch demoPlatform demoParse402 flakyNetwork demoClientEnv demoUrl
                    patientOptions emptyStorage)) = Inr True
   \<and> map_sum id x402Payment
       (resultOf (x402Fetch demoPlatform demoParse402 flakyNetwork demoClientEnv demoUrl
                    patientOptions emptyStorage)) = Inr (Some demoClientProof)
   \<and> map_sum id x402ReceiptId
       (resultOf (x402Fetch demoPlatform demoParse402 flakyNetwork demoClientEnv demoUrl
                    patientOptions emptyStorage)) = Inr (Some ''rcpt_xyz789'')
   \<and> map payment_id
       (payments (storageOf (x402Fetch demoPlatform demoParse402 flakyNetwork demoClientEnv
                               demoUrl patientOptions emptyStorage)))
       = [generateId ''pay'' 1700000000000 ''p5a6y7m8'']
   \<and> map paymentAmountUsd
       (payments (storageOf (x402Fetch demoPlatform demoParse402 flakyNetwork demoClientEnv
                               demoUrl patientOptions emptyStorage))) = [5 / 100]
   \<and> map_option dailySpentUsd
       (contexts (storageOf (x402Fetch demoPlatform demoParse402 flakyNetwork demoClientEnv
                               demoUrl patientOptions emptyStorage))
          ''agent-1'') = Some (5 / 100)
   \<and> map_option dailyCallCount
       (contexts (storageOf (x402Fetch demoPlatform demoParse402 flakyNetwork demoClientEnv
                               demoUrl patientOptions emptyStorage))
          ''agent-1'') = Some 1"
proof -
  let ?h = "createPaymentHeader demoPlatform demoClientProof"
  have e: "payments emptyStorage = []" "contexts emptyStorage ''agent-1'' = None"
    by (simp_all add: emptyStorage_def)
  have c: "optionsCallerId demoOptions = ''agent-1''"
    "optionsCallerId patientOptions = ''agent-1''"
    by (simp_all add: demoOptions_def patientOptions_def)
  have env: "clientNow demoClientEnv = 1700000000000" "paymentRandom demoClientEnv = ''p5a6y7m8''"
    by (simp_all add: demoClientEnv_def)
  have price: "headerPriceUsd demoChallenge = 5 / 100"
    by (simp add: demoChallenge_def)
  have receipt: "headersGet ''X-RECEIPT-ID'' (headers paidResponse) = Some ''rcpt_xyz789''"
    by (simp add: headersGet_def paidResponse_def)
  obtain d1 where d1:
    "decisionFor demoClientEnv demoUrl demoOptions emptyStorage demoChallenge = Inr d1"
    using decisionFor_returns by blast
  have a1: "allow d1" using demo_allowed(1) d1 by simp
  obtain d2 where d2:
    "decisionFor demoClientEnv demoUrl patientOptions emptyStorage demoChallenge = Inr d2"
    using decisionFor_returns by blast
  have a2: "allow d2" using demo_allowed(3) d2 by simp
  have f1: "\<forall>j<0. \<exists>err. failingNetwork (Suc j)
              (Some (createPaymentHeader demoPlatform
                       (proofFor demoChallenge ''0x5d1c2a''
                          ''0x00000000000000000000000000000000000test''))) = Inl err"
    by simp
  have f2: "\<forall>j<1. \<exists>err. flakyNetwork (Suc j)
              (Some (createPaymentHeader demoPlatform
                       (proofFor demoChallenge ''0x5d1c2a''
                          ''0x00000000000000000000000000000000000test''))) = Inl err"
    by (simp add: flakyNetwork_def)
  note first = paid_retry_reported_paid_recorded_iff_ok
      [where net = failingNetwork and response = challengeResponse
        and parse402Headers = demoParse402 and hdrs = demoChallenge and P = demoPlatform
        and env = demoClientEnv and u = demoUrl and options = demoOptions
        and storage = emptyStorage and signature_v = "''0x5d1c2a''"
        and address = "''0x00000000000000000000000000000000000test''" and k = 0
        and retried = serverErrorResponse and d = d1,
        OF demo_initial(1) demo_initial(3) demo_initial(4) d1 a1 demo_wallet(5)
          demo_wallet(1) demo_wallet(2) demo_wallet(7) f1 demo_retries(2)]
  note second = paid_retry_reported_paid_recorded_iff_ok
      [where net = flakyNetwork and response = challengeResponse
        and parse402Headers = demoParse402 and hdrs = demoChallenge and P = demoPlatform
        and env = demoClientEnv and u = demoUrl and options = patientOptions
        and storage = emptyStorage and signature_v = "''0x5d1c2a''"
        and address = "''0x00000000000000000000000000000000000test''" and k = 1
        and retried = paidResponse and d = d2,
        OF demo_initial(2) demo_initial(3) demo_initial(4) d2 a2 demo_wallet(6)
          demo_wallet(3) demo_wallet(4) demo_wallet(8) f2 demo_retries(4)]
  have ctx: "dailySpentUsd (contextFor demoClientEnv options emptyStorage) = 0"
    "dailyCallCount (contextFor demoClientEnv options emptyStorage) = 0" for options
    by (simp_all add: demo_context)
  show ?thesis
    using demo_initial demo_allowed(1) demo_wallet demo_retries(2,4,5) [of ?h] demo_status
      first second
    by (simp add: e c env price receipt ctx demo_proofFor [symmetric] proofFor_def
        demoChallenge_def)
qed

end
